theory Spec2Isabelle
  imports Main
begin

section \<open>The parser of denjucks 1.1.1 (src/deps/denjucks-1.1.1/src/parser.js)\<close>

text \<open>
  The parser is a prototype-style class whose methods mutate \<open>this\<close> and throw.  Each
  method is embedded as a function from the parser state to a result and the state the
  method leaves behind; a thrown exception is an \<open>Inl\<close> result, and the state is kept
  beside it, because the parser object survives the exception with every assignment made
  before the throw.
\<close>

subsection \<open>Tokens\<close>

text \<open>
  The token types are the constants \<open>lexer.TOKEN_*\<close>.  The value of a token is a string,
  except for a regular-expression token, whose value is the object \<open>{body, flags}\<close>.
\<close>

datatype toktype =
    TOKEN_STRING | TOKEN_WHITESPACE | TOKEN_DATA
  | TOKEN_BLOCK_START | TOKEN_BLOCK_END
  | TOKEN_VARIABLE_START | TOKEN_VARIABLE_END
  | TOKEN_COMMENT
  | TOKEN_LEFT_PAREN | TOKEN_RIGHT_PAREN
  | TOKEN_LEFT_BRACKET | TOKEN_RIGHT_BRACKET
  | TOKEN_LEFT_CURLY | TOKEN_RIGHT_CURLY
  | TOKEN_OPERATOR | TOKEN_COMMA | TOKEN_COLON | TOKEN_TILDE | TOKEN_PIPE
  | TOKEN_INT | TOKEN_FLOAT | TOKEN_BOOLEAN | TOKEN_NONE
  | TOKEN_SYMBOL | TOKEN_REGEX

datatype tokval = Str string | Regex string string

record token =
  ttype :: toktype
  tvalue :: tokval
  lineno :: nat
  colno :: nat

text \<open>
  Modelled from the spec: lexer.js, which spells the constants \<open>lexer.TOKEN_*\<close> as
  strings, is not among the sources.  The parser concatenates a token type into two of
  its messages; \<open>type_name\<close> gives each type the name the specification's data model
  gives it.
\<close>

fun type_name :: "toktype \<Rightarrow> string" where
  "type_name TOKEN_STRING = ''STRING''"
| "type_name TOKEN_WHITESPACE = ''WHITESPACE''"
| "type_name TOKEN_DATA = ''DATA''"
| "type_name TOKEN_BLOCK_START = ''BLOCK_START''"
| "type_name TOKEN_BLOCK_END = ''BLOCK_END''"
| "type_name TOKEN_VARIABLE_START = ''VARIABLE_START''"
| "type_name TOKEN_VARIABLE_END = ''VARIABLE_END''"
| "type_name TOKEN_COMMENT = ''COMMENT''"
| "type_name TOKEN_LEFT_PAREN = ''LEFT_PAREN''"
| "type_name TOKEN_RIGHT_PAREN = ''RIGHT_PAREN''"
| "type_name TOKEN_LEFT_BRACKET = ''LEFT_BRACKET''"
| "type_name TOKEN_RIGHT_BRACKET = ''RIGHT_BRACKET''"
| "type_name TOKEN_LEFT_CURLY = ''LEFT_CURLY''"
| "type_name TOKEN_RIGHT_CURLY = ''RIGHT_CURLY''"
| "type_name TOKEN_OPERATOR = ''OPERATOR''"
| "type_name TOKEN_COMMA = ''COMMA''"
| "type_name TOKEN_COLON = ''COLON''"
| "type_name TOKEN_TILDE = ''TILDE''"
| "type_name TOKEN_PIPE = ''PIPE''"
| "type_name TOKEN_INT = ''INT''"
| "type_name TOKEN_FLOAT = ''FLOAT''"
| "type_name TOKEN_BOOLEAN = ''BOOLEAN''"
| "type_name TOKEN_NONE = ''NONE''"
| "type_name TOKEN_SYMBOL = ''SYMBOL''"
| "type_name TOKEN_REGEX = ''REGEX''"

text \<open>String conversion of a token value, as \<open>'...' + tok.value\<close> performs it.\<close>

fun to_string :: "tokval \<Rightarrow> string" where
  "to_string (Str v) = v"
| "to_string (Regex b f) = ''[object Object]''"

subsection \<open>Errors and results\<close>

text \<open>
  \<open>TemplateError msg lineno colno\<close> is \<open>new lib.TemplateError(msg, lineno, colno)\<close>; a
  coordinate is \<open>None\<close> where the source passes \<open>undefined\<close>.  \<open>Error msg\<close> is a plain
  \<open>new Error(msg)\<close>.  \<open>TypeError\<close> is what the JavaScript runtime throws when a property
  of \<open>null\<close> or \<open>undefined\<close> is read.  \<open>OutOfFuel\<close> is not an exception of the program:
  it marks a run of the model that was given too little fuel.
\<close>

datatype error =
    TemplateError string "nat option" "nat option"
  | Error string
  | TypeError
  | OutOfFuel

subsection \<open>The syntax tree\<close>

text \<open>
  Modelled from the spec: nodes.js is not among the sources.  The node classes are the
  variants the specification lists, pure data carriers built from \<open>(lineno, colno)\<close> and
  the fields of the variant.  A position is \<open>None\<close> where the parser builds a node without
  coordinates.  \<open>Null\<close> and \<open>Undefined\<close> stand for the JavaScript values \<open>null\<close> and
  \<open>undefined\<close> in a place where the parser handles a node.  Four classes take the suffix
  \<open>_node\<close>, their names being constants of HOL.  The fields are, in order: \<open>InlineIf\<close>,
  \<open>If\<close>, \<open>IfAsync\<close>: cond, body, else_; \<open>For\<close>, \<open>AsyncEach\<close>, \<open>AsyncAll\<close>: name, arr, body,
  else_; \<open>Macro\<close>, \<open>Caller\<close>: name, args, body; \<open>Import\<close>: template, target, withContext;
  \<open>FromImport\<close>: template, names, withContext; \<open>Include\<close>: template, ignoreMissing;
  \<open>Set\<close>: targets, value, body; \<open>Compare\<close>: expr, ops; \<open>CompareOperand\<close>: expr, type.
\<close>

type_synonym pos = "(nat \<times> nat) option"

text \<open>
  The value of a \<open>Literal\<close>.  A number of JavaScript is a double.  \<open>JNum i\<close> is the
  double that is the integer \<open>i\<close>, used only where \<open>i\<close> lies between \<open>-2^53\<close> and \<open>2^53\<close>,
  every integer of that range being a double.  \<open>JRounded i\<close> is the double that the runtime
  gives for an integer \<open>i\<close> outside that range, a neighbour of \<open>i\<close> or an infinity: the
  rounding is not modelled.  \<open>JNegZero\<close> is the double \<open>-0\<close>, and \<open>JNaN\<close> the number
  \<open>parseInt\<close> returns for a text without digits.  A floating-point literal keeps the text
  of its token: \<open>JFloat t\<close> is the number \<open>parseFloat(t)\<close>.  \<open>JRegExp body flags\<close> is
  \<open>new RegExp(body, flags)\<close>.
\<close>

datatype jsval =
    JStr string | JNum int | JRounded int | JNegZero | JNaN | JFloat string | JBool bool
  | JNull | JRegExp string string

datatype (plugins only: code size) node =
    Null | Undefined
  | Root pos "node list"
  | NodeList pos "node list"
  | Output pos "node list"
  | TemplateData pos string
  | Literal pos jsval
  | Symbol pos string
  | Group pos "node list"
  | Array pos "node list"
  | Dict pos "node list"
  | Pair_node pos node node
  | KeywordArgs pos "node list"
  | FunCall pos node node
  | Filter pos node node
  | LookupVal pos node node
  | If_node pos node node node
  | IfAsync pos node node node
  | InlineIf pos node node node
  | For pos node node node node
  | AsyncEach pos node node node node
  | AsyncAll pos node node node node
  | Macro pos node node node
  | Caller pos node node node
  | Import pos node node "bool option"
  | FromImport pos node node "bool option"
  | Block pos node node
  | Extends pos node
  | Include pos node bool
  | Set pos "node list" node node
  | Capture pos node
  | Compare pos node "node list"
  | CompareOperand pos node string
  | Or pos node node
  | And pos node node
  | Not_node pos node
  | In pos node node
  | Concat pos node node
  | Add pos node node
  | Sub pos node node
  | Mul pos node node
  | Div pos node node
  | FloorDiv pos node node
  | Mod pos node node
  | Pow_node pos node node
  | Neg pos node
  | Pos pos node

text \<open>
  \<open>node.lineno\<close> and \<open>node.colno\<close>, read together.  The routines read them off nodes
  that \<open>parsePrimary\<close> has returned or that they have built themselves, never off
  \<open>null\<close> or \<open>undefined\<close>, for which the function has no better answer than none.
\<close>

primrec node_pos :: "node \<Rightarrow> pos" where
  "node_pos Null = None" | "node_pos Undefined = None"
| "node_pos (Root p ns) = p" | "node_pos (NodeList p ns) = p" | "node_pos (Output p ns) = p"
| "node_pos (TemplateData p d) = p" | "node_pos (Literal p v) = p"
| "node_pos (Symbol p v) = p" | "node_pos (Group p ns) = p" | "node_pos (Array p ns) = p"
| "node_pos (Dict p ns) = p" | "node_pos (Pair_node p k v) = p"
| "node_pos (KeywordArgs p ns) = p" | "node_pos (FunCall p f a) = p"
| "node_pos (Filter p f a) = p" | "node_pos (LookupVal p t v) = p"
| "node_pos (If_node p c b e) = p" | "node_pos (IfAsync p c b e) = p"
| "node_pos (InlineIf p c b e) = p" | "node_pos (For p n a b e) = p"
| "node_pos (AsyncEach p n a b e) = p" | "node_pos (AsyncAll p n a b e) = p"
| "node_pos (Macro p n a b) = p" | "node_pos (Caller p n a b) = p"
| "node_pos (Import p t g w) = p" | "node_pos (FromImport p t ns w) = p"
| "node_pos (Block p n b) = p" | "node_pos (Extends p t) = p"
| "node_pos (Include p t i) = p" | "node_pos (Set p ts v b) = p"
| "node_pos (Capture p b) = p" | "node_pos (Compare p e ops) = p"
| "node_pos (CompareOperand p e t) = p" | "node_pos (Or p l r) = p"
| "node_pos (And p l r) = p" | "node_pos (Not_node p t) = p" | "node_pos (In p l r) = p"
| "node_pos (Concat p l r) = p" | "node_pos (Add p l r) = p" | "node_pos (Sub p l r) = p"
| "node_pos (Mul p l r) = p" | "node_pos (Div p l r) = p" | "node_pos (FloorDiv p l r) = p"
| "node_pos (Mod p l r) = p" | "node_pos (Pow_node p l r) = p" | "node_pos (Neg p t) = p"
| "node_pos (Pos p t) = p"

text \<open>\<open>node.children\<close>, for the classes that have the field.\<close>

definition children :: "node \<Rightarrow> node list option" where
  "children n =
     (case n of
        Root p ns \<Rightarrow> Some ns | NodeList p ns \<Rightarrow> Some ns | Output p ns \<Rightarrow> Some ns
      | Group p ns \<Rightarrow> Some ns | Array p ns \<Rightarrow> Some ns | Dict p ns \<Rightarrow> Some ns
      | KeywordArgs p ns \<Rightarrow> Some ns
      | _ \<Rightarrow> None)"

text \<open>\<open>node.addChild(child)\<close>.\<close>

definition addChild :: "node \<Rightarrow> node \<Rightarrow> node" where
  "addChild n c =
     (case n of
        Root p ns \<Rightarrow> Root p (ns @ [c]) | NodeList p ns \<Rightarrow> NodeList p (ns @ [c])
      | Output p ns \<Rightarrow> Output p (ns @ [c]) | Group p ns \<Rightarrow> Group p (ns @ [c])
      | Array p ns \<Rightarrow> Array p (ns @ [c]) | Dict p ns \<Rightarrow> Dict p (ns @ [c])
      | KeywordArgs p ns \<Rightarrow> KeywordArgs p (ns @ [c])
      | _ \<Rightarrow> n)"

text \<open>\<open>node instanceof nodes.Symbol\<close> and its like; \<open>if(node)\<close>.\<close>

definition is_Symbol :: "node \<Rightarrow> bool" where
  "is_Symbol n = (case n of Symbol p v \<Rightarrow> True | _ \<Rightarrow> False)"

definition is_Dict :: "node \<Rightarrow> bool" where
  "is_Dict n = (case n of Dict p ns \<Rightarrow> True | _ \<Rightarrow> False)"

definition is_KeywordArgs :: "node \<Rightarrow> bool" where
  "is_KeywordArgs n = (case n of KeywordArgs p ns \<Rightarrow> True | _ \<Rightarrow> False)"

definition truthy :: "node \<Rightarrow> bool" where
  "truthy n = (case n of Null \<Rightarrow> False | Undefined \<Rightarrow> False | _ \<Rightarrow> True)"

subsection \<open>The token cursor and the parser state\<close>

text \<open>
  \<open>this.tokens\<close> is the lexer.  Its \<open>nextToken\<close> hands out the tokens of the template
  in order and \<open>null\<close> at the end: \<open>pending\<close> is the list of tokens it has yet to hand
  out.  \<open>tags\<close> holds the delimiter strings.  The lexer's two character-level entry
  points, \<open>_extractRegex\<close> and \<open>backN\<close>, used by \<open>parseRaw\<close> only, are carried as
  functions on the pending tokens, since lexer.js is not among the sources: \<open>extractRegex\<close>
  takes the tag name that determines the regular expression and returns the match
  (\<open>all\<close>, \<open>pre\<close>, \<open>blockName\<close>) if there is one.
\<close>

record tags =
  VARIABLE_START :: string
  VARIABLE_END :: string
  COMMENT_START :: string
  COMMENT_END :: string

record lexer =
  pending :: "token list"
  tags :: tags
  extractRegex :: "string \<Rightarrow> token list \<Rightarrow> (string \<times> string \<times> string) option \<times> token list"
  backN :: "nat \<Rightarrow> token list \<Rightarrow> token list"

record cursor =
  tokens :: lexer
  peeked :: "token option"
  breakOnBlocks :: "string list option"
  dropLeadingWhitespace :: bool

text \<open>
  An extension claims the tag names \<open>ext_tags\<close>; its hook \<open>parse(parser, nodes, lexer)\<close>
  may consume tokens and change the fields of the parser, and returns a node or throws.
\<close>

record extension =
  ext_tags :: "string list"
  ext_parse :: "cursor \<Rightarrow> (error + node) \<times> cursor"

record pstate = cursor +
  extensions :: "extension list"

type_synonym 'a parser = "pstate \<Rightarrow> (error + 'a) \<times> pstate"

definition ret :: "'a \<Rightarrow> 'a parser" where
  "ret x = (\<lambda>s. (Inr x, s))"

definition throw :: "error \<Rightarrow> 'a parser" where
  "throw e = (\<lambda>s. (Inl e, s))"

definition bnd :: "'a parser \<Rightarrow> ('a \<Rightarrow> 'b parser) \<Rightarrow> 'b parser" where
  "bnd m f = (\<lambda>s. case m s of (Inl e, s') \<Rightarrow> (Inl e, s') | (Inr x, s') \<Rightarrow> f x s')"

definition seq :: "'a parser \<Rightarrow> 'b parser \<Rightarrow> 'b parser" where
  "seq m k = bnd m (\<lambda>_. k)"

definition modify :: "(pstate \<Rightarrow> pstate) \<Rightarrow> unit parser" where
  "modify f = (\<lambda>s. (Inr (), f s))"

definition get :: "(pstate \<Rightarrow> 'a) \<Rightarrow> 'a parser" where
  "get f = (\<lambda>s. (Inr (f s), s))"

subsection \<open>nextToken, peekToken, pushToken\<close>

text \<open>\<open>this.tokens.nextToken()\<close>.\<close>

definition lexer_nextToken :: "token option parser" where
  "lexer_nextToken = (\<lambda>s.
     case pending (tokens s) of
       [] \<Rightarrow> (Inr None, s)
     | t # ts \<Rightarrow> (Inr (Some t), s\<lparr>tokens := (tokens s)\<lparr>pending := ts\<rparr>\<rparr>))"

text \<open>
  The loop \<open>while(tok && tok.type === lexer.TOKEN_WHITESPACE) tok = this.tokens.nextToken()\<close>
  of \<open>nextToken\<close>, on the pending tokens: it returns the token the loop ends with and
  the tokens left after it.
\<close>

fun skip_whitespace :: "token option \<Rightarrow> token list \<Rightarrow> token option \<times> token list" where
  "skip_whitespace None ts = (None, ts)"
| "skip_whitespace (Some tok) [] =
     (if ttype tok = TOKEN_WHITESPACE then (None, []) else (Some tok, []))"
| "skip_whitespace (Some tok) (t # ts) =
     (if ttype tok = TOKEN_WHITESPACE then skip_whitespace (Some t) ts
      else (Some tok, t # ts))"

text \<open>Lines 33 to 41 of \<open>nextToken\<close>: the read from the lexer.\<close>

definition read_lexer :: "bool \<Rightarrow> token option parser" where
  "read_lexer withWhitespace =
     bnd lexer_nextToken (\<lambda>tok.
       if \<not> withWhitespace
       then (\<lambda>s. case skip_whitespace tok (pending (tokens s)) of
                   (tok', ts) \<Rightarrow> (Inr tok', s\<lparr>tokens := (tokens s)\<lparr>pending := ts\<rparr>\<rparr>))
       else ret tok)"

definition nextToken :: "bool \<Rightarrow> token option parser" where
  "nextToken withWhitespace = (\<lambda>s.
     case peeked s of
       Some p \<Rightarrow>
         if \<not> withWhitespace \<and> ttype p = TOKEN_WHITESPACE
         then read_lexer withWhitespace (s\<lparr>peeked := None\<rparr>)
         else (Inr (Some p), s\<lparr>peeked := None\<rparr>)
     | None \<Rightarrow> read_lexer withWhitespace s)"

definition peekToken :: "token option parser" where
  "peekToken = (\<lambda>s.
     case peeked s of
       Some p \<Rightarrow> (Inr (Some p), s)
     | None \<Rightarrow>
         (case nextToken False s of
            (Inl e, s1) \<Rightarrow> (Inl e, s1)
          | (Inr tok, s1) \<Rightarrow> (Inr tok, s1\<lparr>peeked := tok\<rparr>)))"

definition pushToken :: "token option \<Rightarrow> unit parser" where
  "pushToken tok = (\<lambda>s.
     case peeked s of
       Some p \<Rightarrow> (Inl (Error ''pushToken: can only push one token on between reads''), s)
     | None \<Rightarrow> (Inr (), s\<lparr>peeked := tok\<rparr>))"

subsection \<open>fail, skip, expect, skipValue, skipSymbol\<close>

text \<open>
  \<open>fail(msg, lineno, colno)\<close>: the two coordinates are passed together or not at all,
  so they are one optional pair.  Without them the position is that of the next token,
  if there is one; a coordinate that is defined is incremented.
\<close>

definition fail :: "string \<Rightarrow> (nat \<times> nat) option \<Rightarrow> 'a parser" where
  "fail msg pos =
     (case pos of
        Some (l, c) \<Rightarrow> throw (TemplateError msg (Some (l + 1)) (Some (c + 1)))
      | None \<Rightarrow>
          bnd peekToken (\<lambda>tok.
            case tok of
              Some t \<Rightarrow> throw (TemplateError msg (Some (lineno t + 1)) (Some (colno t + 1)))
            | None \<Rightarrow> throw (TemplateError msg None None)))"

definition tok_pos :: "token \<Rightarrow> (nat \<times> nat) option" where
  "tok_pos t = Some (lineno t, colno t)"

definition skip :: "toktype \<Rightarrow> bool parser" where
  "skip type =
     bnd (nextToken False) (\<lambda>tok.
       case tok of
         None \<Rightarrow> seq (pushToken tok) (ret False)
       | Some t \<Rightarrow>
           if ttype t \<noteq> type then seq (pushToken tok) (ret False)
           else ret True)"

definition expect :: "toktype \<Rightarrow> token parser" where
  "expect type =
     bnd (nextToken False) (\<lambda>tok.
       case tok of
         None \<Rightarrow> throw TypeError
       | Some t \<Rightarrow>
           if ttype t \<noteq> type
           then fail (''expected '' @ type_name type @ '', got '' @ type_name (ttype t))
                  (tok_pos t)
           else ret t)"

definition skipValue :: "toktype \<Rightarrow> string \<Rightarrow> bool parser" where
  "skipValue type val =
     bnd (nextToken False) (\<lambda>tok.
       case tok of
         None \<Rightarrow> seq (pushToken tok) (ret False)
       | Some t \<Rightarrow>
           if ttype t \<noteq> type \<or> tvalue t \<noteq> Str val then seq (pushToken tok) (ret False)
           else ret True)"

definition skipSymbol :: "string \<Rightarrow> bool parser" where
  "skipSymbol val = skipValue TOKEN_SYMBOL val"

subsection \<open>Construction\<close>

text \<open>\<open>init(tokens)\<close>, the constructor.\<close>

definition init :: "lexer \<Rightarrow> pstate" where
  "init lx = \<lparr>tokens = lx, peeked = None, breakOnBlocks = None,
              dropLeadingWhitespace = False, extensions = []\<rparr>"

text \<open>
  Modelled from the spec: \<open>lexer.lex(src, opts)\<close> is not among the sources.
  \<open>token_stream ts\<close> is a lexer that is about to hand out the tokens \<open>ts\<close>, with the
  delimiters \<open>{{\<close> and \<open>}}\<close> of a variable expression and Jinja's \<open>{#\<close> and \<open>#}\<close> for a
  comment, and with a raw scan that finds no match.  The concrete inputs below are token
  streams given through it.
\<close>

definition jinja_tags :: tags where
  "jinja_tags = \<lparr>VARIABLE_START = ''{{'', VARIABLE_END = ''}}'',
                  COMMENT_START = ''{#'', COMMENT_END = ''#}''\<rparr>"

definition token_stream :: "token list \<Rightarrow> lexer" where
  "token_stream ts = \<lparr>pending = ts, tags = jinja_tags,
                       extractRegex = (\<lambda>tagName rest. (None, rest)),
                       backN = (\<lambda>k rest. rest)\<rparr>"

definition Tok :: "toktype \<Rightarrow> string \<Rightarrow> nat \<Rightarrow> nat \<Rightarrow> token" where
  "Tok ty v l c = \<lparr>ttype = ty, tvalue = Str v, lineno = l, colno = c\<rparr>"

text \<open>Whether a run ended in a \<open>TemplateError\<close> with the given message.\<close>

definition raises_TemplateError :: "string \<Rightarrow> (error + 'a) \<times> pstate \<Rightarrow> bool" where
  "raises_TemplateError msg r =
     (case fst r of Inl (TemplateError m l c) \<Rightarrow> m = msg | _ \<Rightarrow> False)"

section \<open>The expression parser\<close>

subsection \<open>Auxiliary notions\<close>

text \<open>
  A \<open>while\<close> loop of the source runs its body until the body leaves the loop.  The body
  answers \<open>Inl x\<close> to go round again with the loop variables \<open>x\<close>, and \<open>Inr y\<close> to leave
  the loop with \<open>y\<close>.  The first argument bounds the number of rounds.
\<close>

fun while_loop :: "nat \<Rightarrow> ('a \<Rightarrow> ('a + 'b) parser) \<Rightarrow> 'a \<Rightarrow> 'b parser" where
  "while_loop 0 body x = throw OutOfFuel"
| "while_loop (Suc k) body x =
     bnd (body x) (\<lambda>r. case r of Inl x' \<Rightarrow> while_loop k body x' | Inr y \<Rightarrow> ret y)"

text \<open>Reading a property of \<open>tok\<close>: the runtime throws if \<open>tok\<close> is \<open>null\<close>.\<close>

definition deref :: "token option \<Rightarrow> token parser" where
  "deref tok = (case tok of None \<Rightarrow> throw TypeError | Some t \<Rightarrow> ret t)"

text \<open>
  The white space of JavaScript (\<open>\s\<close> in a regular expression, and what \<open>parseInt\<close>
  skips), among the code units below 256: tab, line feed, vertical tab, form feed,
  carriage return, space and no-break space.
\<close>

definition is_space :: "char \<Rightarrow> bool" where
  "is_space c = (c \<in> set [CHR 0x09, CHR 0x0A, CHR 0x0B, CHR 0x0C, CHR 0x0D, CHR '' '', CHR 0xA0])"

definition digit_of :: "char \<Rightarrow> nat option" where
  "digit_of = map_of [(CHR ''0'', 0), (CHR ''1'', 1), (CHR ''2'', 2), (CHR ''3'', 3),
     (CHR ''4'', 4), (CHR ''5'', 5), (CHR ''6'', 6), (CHR ''7'', 7), (CHR ''8'', 8),
     (CHR ''9'', 9)]"

text \<open>The value of a run of decimal digits, most significant first.\<close>

fun digits_value :: "nat \<Rightarrow> string \<Rightarrow> nat" where
  "digits_value acc [] = acc"
| "digits_value acc (c # cs) =
     (case digit_of c of None \<Rightarrow> acc | Some d \<Rightarrow> digits_value (10 * acc + d) cs)"

text \<open>
  \<open>parseInt(s, 10)\<close>: leading white space is skipped, a sign is read, then the longest
  run of decimal digits; without a digit the result is \<open>NaN\<close>.  The result is a double:
  the integer the digits denote where its magnitude is at most \<open>2^53 = 9007199254740992\<close>,
  that integer rounded beyond, and \<open>-0\<close> for zero behind a negative sign.
\<close>

definition parseInt :: "string \<Rightarrow> jsval" where
  "parseInt s =
     (let t = dropWhile is_space s;
          (neg, u) = (case t of
                        c # r \<Rightarrow> if c = CHR ''-'' then (True, r)
                                 else if c = CHR ''+'' then (False, r) else (False, t)
                      | [] \<Rightarrow> (False, t))
      in case u of
           [] \<Rightarrow> JNaN
         | c # r \<Rightarrow>
             (case digit_of c of
                None \<Rightarrow> JNaN
              | Some d \<Rightarrow>
                  (let v = digits_value 0 u;
                       i = (if neg then - 1 else 1) * int v
                   in if neg \<and> v = 0 then JNegZero
                      else if v \<le> 9007199254740992 then JNum i else JRounded i)))"

definition compareOps :: "string list" where
  "compareOps = [''=='', ''==='', ''!='', ''!=='', ''<'', ''>'', ''<='', ''>='']"

text \<open>\<open>node.args\<close>, for the classes that have the field.\<close>

definition args_of :: "node \<Rightarrow> node option" where
  "args_of n =
     (case n of
        FunCall p f a \<Rightarrow> Some a | Filter p f a \<Rightarrow> Some a
      | Macro p m a b \<Rightarrow> Some a | Caller p m a b \<Rightarrow> Some a
      | _ \<Rightarrow> None)"

definition num_children :: "node \<Rightarrow> nat" where
  "num_children n = (case children n of Some ns \<Rightarrow> length ns | None \<Rightarrow> 0)"

text \<open>
  The first part of \<open>parsePrimary\<close>: the value \<open>val\<close> of a literal token, \<open>None\<close> where
  \<open>val\<close> stays \<open>undefined\<close>.
\<close>

definition literal_val :: "token \<Rightarrow> jsval option parser" where
  "literal_val t =
     (if ttype t = TOKEN_STRING then ret (Some (JStr (to_string (tvalue t))))
      else if ttype t = TOKEN_INT then ret (Some (parseInt (to_string (tvalue t))))
      else if ttype t = TOKEN_FLOAT then ret (Some (JFloat (to_string (tvalue t))))
      else if ttype t = TOKEN_BOOLEAN then
        (if tvalue t = Str ''true'' then ret (Some (JBool True))
         else if tvalue t = Str ''false'' then ret (Some (JBool False))
         else fail (''invalid boolean: '' @ to_string (tvalue t)) (tok_pos t))
      else if ttype t = TOKEN_NONE then ret (Some JNull)
      else if ttype t = TOKEN_REGEX then
        ret (Some (case tvalue t of Regex b f \<Rightarrow> JRegExp b f | Str v \<Rightarrow> JRegExp ''(?:)'' []))
      else ret None)"

subsection \<open>parseFilterName\<close>

definition parseFilterName :: "nat \<Rightarrow> node parser" where
  "parseFilterName n =
     bnd (expect TOKEN_SYMBOL) (\<lambda>tok.
     bnd (while_loop n (\<lambda>name.
            bnd (skipValue TOKEN_OPERATOR ''.'') (\<lambda>dot.
              if dot then bnd (expect TOKEN_SYMBOL) (\<lambda>t.
                            ret (Inl (name @ ''.'' @ to_string (tvalue t))))
              else ret (Inr name)))
          (to_string (tvalue tok))) (\<lambda>name.
     ret (Symbol (tok_pos tok) name)))"

subsection \<open>The mutually recursive routines\<close>

text \<open>
  Every routine takes a fuel argument first and calls the others with one unit less;
  a loop may go round as often as there is fuel left.  With no fuel a routine ends in
  \<open>OutOfFuel\<close>.
\<close>

fun parseExpression :: "nat \<Rightarrow> node parser"
  and parseInlineIf :: "nat \<Rightarrow> node parser"
  and parseOr :: "nat \<Rightarrow> node parser"
  and parseAnd :: "nat \<Rightarrow> node parser"
  and parseNot :: "nat \<Rightarrow> node parser"
  and parseIn :: "nat \<Rightarrow> node parser"
  and parseCompare :: "nat \<Rightarrow> node parser"
  and parseConcat :: "nat \<Rightarrow> node parser"
  and parseAdd :: "nat \<Rightarrow> node parser"
  and parseSub :: "nat \<Rightarrow> node parser"
  and parseMul :: "nat \<Rightarrow> node parser"
  and parseDiv :: "nat \<Rightarrow> node parser"
  and parseFloorDiv :: "nat \<Rightarrow> node parser"
  and parseMod :: "nat \<Rightarrow> node parser"
  and parsePow :: "nat \<Rightarrow> node parser"
  and parseUnary :: "nat \<Rightarrow> bool \<Rightarrow> node parser"
  and parsePrimary :: "nat \<Rightarrow> bool \<Rightarrow> node parser"
  and parsePostfix :: "nat \<Rightarrow> node \<Rightarrow> node parser"
  and parseFilterArgs :: "nat \<Rightarrow> node \<Rightarrow> node list parser"
  and parseFilter :: "nat \<Rightarrow> node \<Rightarrow> node parser"
  and parseAggregate :: "nat \<Rightarrow> node parser"
  and parseSignature :: "nat \<Rightarrow> bool \<Rightarrow> bool \<Rightarrow> node parser"
where
  "parseExpression 0 = throw OutOfFuel"
| "parseExpression (Suc n) = parseInlineIf n"

| "parseInlineIf 0 = throw OutOfFuel"
| "parseInlineIf (Suc n) =
     bnd (parseOr n) (\<lambda>node.
     bnd (skipSymbol ''if'') (\<lambda>is_if.
       if is_if then
         bnd (parseOr n) (\<lambda>cond_node.
         bnd (skipSymbol ''else'') (\<lambda>is_else.
           if is_else then
             bnd (parseOr n) (\<lambda>else_node.
               ret (InlineIf (node_pos node) cond_node node else_node))
           else ret (InlineIf (node_pos node) cond_node node Null)))
       else ret node))"

| "parseOr 0 = throw OutOfFuel"
| "parseOr (Suc n) =
     bnd (parseAnd n) (while_loop n (\<lambda>node.
       bnd (skipSymbol ''or'') (\<lambda>found.
         if found then bnd (parseAnd n) (\<lambda>node2. ret (Inl (Or (node_pos node) node node2)))
         else ret (Inr node))))"

| "parseAnd 0 = throw OutOfFuel"
| "parseAnd (Suc n) =
     bnd (parseNot n) (while_loop n (\<lambda>node.
       bnd (skipSymbol ''and'') (\<lambda>found.
         if found then bnd (parseNot n) (\<lambda>node2. ret (Inl (And (node_pos node) node node2)))
         else ret (Inr node))))"

| "parseNot 0 = throw OutOfFuel"
| "parseNot (Suc n) =
     bnd peekToken (\<lambda>tok.
     bnd (skipSymbol ''not'') (\<lambda>found.
       if found then
         bnd (deref tok) (\<lambda>t.
         bnd (parseNot n) (\<lambda>target. ret (Not_node (tok_pos t) target)))
       else parseIn n))"

| "parseIn 0 = throw OutOfFuel"
| "parseIn (Suc n) =
     bnd (parseCompare n) (while_loop n (\<lambda>node.
       bnd (nextToken False) (\<lambda>tok.
         case tok of
           None \<Rightarrow> ret (Inr node)
         | Some t \<Rightarrow>
             (let invert = (ttype t = TOKEN_SYMBOL \<and> tvalue t = Str ''not'') in
              bnd (if \<not> invert then pushToken tok else ret ()) (\<lambda>_.
              bnd (skipSymbol ''in'') (\<lambda>found.
                if found then
                  bnd (parseCompare n) (\<lambda>node2.
                    let node' = In (node_pos node) node node2 in
                    ret (Inl (if invert then Not_node (node_pos node') node' else node')))
                else
                  bnd (if invert then pushToken tok else ret ()) (\<lambda>_.
                    ret (Inr node))))))))"

| "parseCompare 0 = throw OutOfFuel"
| "parseCompare (Suc n) =
     bnd (parseConcat n) (\<lambda>expr.
     bnd (while_loop n (\<lambda>ops.
            bnd (nextToken False) (\<lambda>tok.
              case tok of
                None \<Rightarrow> ret (Inr ops)
              | Some t \<Rightarrow>
                  if tvalue t \<in> set (map Str compareOps) then
                    bnd (parseConcat n) (\<lambda>e.
                      ret (Inl (ops @ [CompareOperand (tok_pos t) e (to_string (tvalue t))])))
                  else seq (pushToken tok) (ret (Inr ops))))
          []) (\<lambda>ops.
       case ops of
         [] \<Rightarrow> ret expr
       | op # _ \<Rightarrow> ret (Compare (node_pos op) expr ops)))"

| "parseConcat 0 = throw OutOfFuel"
| "parseConcat (Suc n) =
     bnd (parseAdd n) (while_loop n (\<lambda>node.
       bnd (skipValue TOKEN_TILDE ''~'') (\<lambda>found.
         if found then bnd (parseAdd n) (\<lambda>node2. ret (Inl (Concat (node_pos node) node node2)))
         else ret (Inr node))))"

| "parseAdd 0 = throw OutOfFuel"
| "parseAdd (Suc n) =
     bnd (parseSub n) (while_loop n (\<lambda>node.
       bnd (skipValue TOKEN_OPERATOR ''+'') (\<lambda>found.
         if found then bnd (parseSub n) (\<lambda>node2. ret (Inl (Add (node_pos node) node node2)))
         else ret (Inr node))))"

| "parseSub 0 = throw OutOfFuel"
| "parseSub (Suc n) =
     bnd (parseMul n) (while_loop n (\<lambda>node.
       bnd (skipValue TOKEN_OPERATOR ''-'') (\<lambda>found.
         if found then bnd (parseMul n) (\<lambda>node2. ret (Inl (Sub (node_pos node) node node2)))
         else ret (Inr node))))"

| "parseMul 0 = throw OutOfFuel"
| "parseMul (Suc n) =
     bnd (parseDiv n) (while_loop n (\<lambda>node.
       bnd (skipValue TOKEN_OPERATOR ''*'') (\<lambda>found.
         if found then bnd (parseDiv n) (\<lambda>node2. ret (Inl (Mul (node_pos node) node node2)))
         else ret (Inr node))))"

| "parseDiv 0 = throw OutOfFuel"
| "parseDiv (Suc n) =
     bnd (parseFloorDiv n) (while_loop n (\<lambda>node.
       bnd (skipValue TOKEN_OPERATOR ''/'') (\<lambda>found.
         if found then
           bnd (parseFloorDiv n) (\<lambda>node2. ret (Inl (Div (node_pos node) node node2)))
         else ret (Inr node))))"

| "parseFloorDiv 0 = throw OutOfFuel"
| "parseFloorDiv (Suc n) =
     bnd (parseMod n) (while_loop n (\<lambda>node.
       bnd (skipValue TOKEN_OPERATOR ''//'') (\<lambda>found.
         if found then
           bnd (parseMod n) (\<lambda>node2. ret (Inl (FloorDiv (node_pos node) node node2)))
         else ret (Inr node))))"

| "parseMod 0 = throw OutOfFuel"
| "parseMod (Suc n) =
     bnd (parsePow n) (while_loop n (\<lambda>node.
       bnd (skipValue TOKEN_OPERATOR ''%'') (\<lambda>found.
         if found then bnd (parsePow n) (\<lambda>node2. ret (Inl (Mod (node_pos node) node node2)))
         else ret (Inr node))))"

| "parsePow 0 = throw OutOfFuel"
| "parsePow (Suc n) =
     bnd (parseUnary n False) (while_loop n (\<lambda>node.
       bnd (skipValue TOKEN_OPERATOR ''**'') (\<lambda>found.
         if found then
           bnd (parseUnary n False) (\<lambda>node2.
             ret (Inl (Pow_node (node_pos node) node node2)))
         else ret (Inr node))))"

| "parseUnary 0 noFilters = throw OutOfFuel"
| "parseUnary (Suc n) noFilters =
     bnd peekToken (\<lambda>tok.
     bnd (bnd (skipValue TOKEN_OPERATOR ''-'') (\<lambda>minus.
            if minus then
              bnd (deref tok) (\<lambda>t.
              bnd (parseUnary n True) (\<lambda>target. ret (Neg (tok_pos t) target)))
            else
              bnd (skipValue TOKEN_OPERATOR ''+'') (\<lambda>plus.
                if plus then
                  bnd (deref tok) (\<lambda>t.
                  bnd (parseUnary n True) (\<lambda>target. ret (Pos (tok_pos t) target)))
                else parsePrimary n False))) (\<lambda>node.
       if \<not> noFilters then parseFilter n node else ret node))"

| "parsePrimary 0 noPostfix = throw OutOfFuel"
| "parsePrimary (Suc n) noPostfix =
     bnd (nextToken False) (\<lambda>tok.
       case tok of
         None \<Rightarrow> fail ''expected expression, got end of file'' None
       | Some t \<Rightarrow>
           bnd (literal_val t) (\<lambda>val.
           bnd (case val of
                  Some v \<Rightarrow> ret (Literal (tok_pos t) v)
                | None \<Rightarrow>
                    if ttype t = TOKEN_SYMBOL
                    then ret (Symbol (tok_pos t) (to_string (tvalue t)))
                    else seq (pushToken tok) (parseAggregate n)) (\<lambda>node.
           bnd (if \<not> noPostfix then parsePostfix n node else ret node) (\<lambda>node.
             if truthy node then ret node
             else fail (''unexpected token: '' @ to_string (tvalue t)) (tok_pos t)))))"

| "parsePostfix 0 node = throw OutOfFuel"
| "parsePostfix (Suc n) node =
     bnd peekToken (\<lambda>tok.
       while_loop n (\<lambda>(tok, node).
         case tok of
           None \<Rightarrow> ret (Inr node)
         | Some t \<Rightarrow>
             if ttype t = TOKEN_LEFT_PAREN then
               bnd (parseSignature n False False) (\<lambda>args.
               bnd peekToken (\<lambda>tok'. ret (Inl (tok', FunCall (tok_pos t) node args))))
             else if ttype t = TOKEN_LEFT_BRACKET then
               bnd (parseAggregate n) (\<lambda>lookup.
                 case children lookup of
                   None \<Rightarrow> throw TypeError
                 | Some cs \<Rightarrow>
                     if length cs > 1 then fail ''invalid index'' None
                     else
                       bnd peekToken (\<lambda>tok'.
                         ret (Inl (tok', LookupVal (tok_pos t) node
                                           (case cs of [] \<Rightarrow> Undefined | c # _ \<Rightarrow> c)))))
             else if ttype t = TOKEN_OPERATOR \<and> tvalue t = Str ''.'' then
               seq (nextToken False)
                 (bnd (nextToken False) (\<lambda>val.
                  bnd (deref val) (\<lambda>v.
                    if ttype v \<noteq> TOKEN_SYMBOL then
                      fail (''expected name as lookup value, got '' @ to_string (tvalue v))
                        (tok_pos v)
                    else
                      bnd peekToken (\<lambda>tok'.
                        ret (Inl (tok', LookupVal (tok_pos t) node
                                          (Literal (tok_pos v) (JStr (to_string (tvalue v))))))))))
             else ret (Inr node))
         (tok, node))"

| "parseFilterArgs 0 node = throw OutOfFuel"
| "parseFilterArgs (Suc n) node =
     bnd peekToken (\<lambda>tok.
     bnd (deref tok) (\<lambda>t.
       if ttype t = TOKEN_LEFT_PAREN then
         bnd (parsePostfix n node) (\<lambda>call.
           case args_of call of
             None \<Rightarrow> throw TypeError
           | Some args \<Rightarrow>
               (case children args of None \<Rightarrow> throw TypeError | Some cs \<Rightarrow> ret cs))
       else ret []))"

| "parseFilter 0 node = throw OutOfFuel"
| "parseFilter (Suc n) node =
     while_loop n (\<lambda>node.
       bnd (skip TOKEN_PIPE) (\<lambda>found.
         if found then
           bnd (parseFilterName n) (\<lambda>name.
           bnd (parseFilterArgs n node) (\<lambda>args.
             ret (Inl (Filter (node_pos name) name (NodeList (node_pos name) (node # args))))))
         else ret (Inr node)))
       node"

| "parseAggregate 0 = throw OutOfFuel"
| "parseAggregate (Suc n) =
     bnd (nextToken False) (\<lambda>tok.
     bnd (deref tok) (\<lambda>t.
       let node = (if ttype t = TOKEN_LEFT_PAREN then Group (tok_pos t) []
                   else if ttype t = TOKEN_LEFT_BRACKET then Array (tok_pos t) []
                   else if ttype t = TOKEN_LEFT_CURLY then Dict (tok_pos t) []
                   else Null)
       in
       if \<not> truthy node then ret Null
       else
         while_loop n (\<lambda>node.
           bnd peekToken (\<lambda>p.
           bnd (deref p) (\<lambda>pt.
             if ttype pt = TOKEN_RIGHT_PAREN \<or> ttype pt = TOKEN_RIGHT_BRACKET \<or>
                ttype pt = TOKEN_RIGHT_CURLY
             then seq (nextToken False) (ret (Inr node))
             else
               bnd (if num_children node > 0 then
                      bnd (skip TOKEN_COMMA) (\<lambda>comma.
                        if \<not> comma then
                          fail ''parseAggregate: expected comma after expression'' (tok_pos t)
                        else ret ())
                    else ret ()) (\<lambda>_.
                 if is_Dict node then
                   bnd (parsePrimary n False) (\<lambda>key.
                   bnd (skip TOKEN_COLON) (\<lambda>colon.
                     if \<not> colon then
                       fail ''parseAggregate: expected colon after dict key'' (tok_pos t)
                     else
                       bnd (parseExpression n) (\<lambda>value.
                         ret (Inl (addChild node (Pair_node (node_pos key) key value))))))
                 else
                   bnd (parseExpression n) (\<lambda>expr. ret (Inl (addChild node expr)))))))
           node))"

| "parseSignature 0 tolerant noParens = throw OutOfFuel"
| "parseSignature (Suc n) tolerant noParens =
     bnd peekToken (\<lambda>tok.
     bnd (deref tok) (\<lambda>t.
       if \<not> noParens \<and> ttype t \<noteq> TOKEN_LEFT_PAREN then
         (if tolerant then ret Null else fail ''expected arguments'' (tok_pos t))
       else
         bnd (if ttype t = TOKEN_LEFT_PAREN then nextToken False else ret tok) (\<lambda>tok.
         bnd (deref tok) (\<lambda>t.
         bnd (while_loop n (\<lambda>(args, kwargs, checkComma).
                bnd peekToken (\<lambda>p.
                bnd (deref p) (\<lambda>pt.
                  if \<not> noParens \<and> ttype pt = TOKEN_RIGHT_PAREN then
                    seq (nextToken False) (ret (Inr (args, kwargs)))
                  else if noParens \<and> ttype pt = TOKEN_BLOCK_END then
                    ret (Inr (args, kwargs))
                  else
                    bnd (if checkComma then skip TOKEN_COMMA else ret True) (\<lambda>comma.
                      if \<not> comma then
                        fail ''parseSignature: expected comma after expression'' (tok_pos pt)
                      else
                        bnd (parseExpression n) (\<lambda>arg.
                        bnd (skipValue TOKEN_OPERATOR ''='') (\<lambda>eq.
                          if eq then
                            bnd (parseExpression n) (\<lambda>v.
                              ret (Inl (args,
                                        addChild kwargs (Pair_node (node_pos arg) arg v),
                                        True)))
                          else ret (Inl (addChild args arg, kwargs, True))))))))
              (NodeList (tok_pos t) [], KeywordArgs (tok_pos t) [], False))
           (\<lambda>(args, kwargs).
              ret (if num_children kwargs > 0 then addChild args kwargs else args))))))"

section \<open>The statement parser\<close>

subsection \<open>Strings\<close>

text \<open>
  \<open>s.charAt(i)\<close>: the character at index \<open>i\<close> as a string, the empty string when \<open>i\<close>
  is out of range.  \<open>str_value\<close> is the receiver of a string method called on a token
  value: the runtime throws when the value is not a string.  \<open>trim_leading\<close> is
  \<open>data.replace(/^\s*/, '')\<close> and \<open>trim_trailing\<close> is \<open>data.replace(/\s*$/, '')\<close>.
\<close>

definition charAt :: "string \<Rightarrow> int \<Rightarrow> string" where
  "charAt s i = (if 0 \<le> i \<and> i < int (length s) then [s ! nat i] else [])"

definition str_value :: "tokval \<Rightarrow> string parser" where
  "str_value v = (case v of Str s \<Rightarrow> ret s | Regex b f \<Rightarrow> throw TypeError)"

definition trim_leading :: "string \<Rightarrow> string" where
  "trim_leading s = dropWhile is_space s"

definition trim_trailing :: "string \<Rightarrow> string" where
  "trim_trailing s = rev (dropWhile is_space (rev s))"

subsection \<open>advanceAfterBlockEnd, advanceAfterVariableEnd\<close>

text \<open>
  The argument \<open>name\<close> is \<open>None\<close> where the source passes none; \<open>!name\<close> also holds
  of the empty string.
\<close>

definition falsy_name :: "tokval option \<Rightarrow> bool" where
  "falsy_name name = (name = None \<or> name = Some (Str []))"

definition advanceAfterBlockEnd :: "tokval option \<Rightarrow> token parser" where
  "advanceAfterBlockEnd name =
     bnd (if falsy_name name then
            bnd peekToken (\<lambda>tok.
              case tok of
                None \<Rightarrow> fail ''unexpected end of file'' None
              | Some t \<Rightarrow>
                  if ttype t \<noteq> TOKEN_SYMBOL then
                    fail (''advanceAfterBlockEnd: expected symbol token or '' @
                          ''explicit name to be passed'') None
                  else bnd (nextToken False) (\<lambda>nt. bnd (deref nt) (\<lambda>t'. ret (Some (tvalue t')))))
          else ret name) (\<lambda>name.
     bnd (nextToken False) (\<lambda>tok.
       case tok of
         None \<Rightarrow> fail (''expected block end in '' @ (case name of Some v \<Rightarrow> to_string v | None \<Rightarrow> ''undefined'')
                        @ '' statement'') None
       | Some t \<Rightarrow>
           if ttype t = TOKEN_BLOCK_END then
             bnd (str_value (tvalue t)) (\<lambda>v.
               seq (if charAt v 0 = ''-''
                    then modify (\<lambda>s. s\<lparr>dropLeadingWhitespace := True\<rparr>) else ret ())
                   (ret t))
           else fail (''expected block end in '' @ (case name of Some v \<Rightarrow> to_string v | None \<Rightarrow> ''undefined'')
                      @ '' statement'') None))"

definition advanceAfterVariableEnd :: "unit parser" where
  "advanceAfterVariableEnd =
     bnd (nextToken False) (\<lambda>tok.
       case tok of
         None \<Rightarrow> seq (pushToken tok) (fail ''expected variable end'' None)
       | Some t \<Rightarrow>
           if ttype t = TOKEN_VARIABLE_END then
             bnd (str_value (tvalue t)) (\<lambda>v.
             bnd (get (\<lambda>s. VARIABLE_END (tags (tokens s)))) (\<lambda>tag.
               modify (\<lambda>s. s\<lparr>dropLeadingWhitespace :=
                 (charAt v (int (length v) - int (length tag) - 1) = ''-'')\<rparr>)))
           else seq (pushToken tok) (fail ''expected variable end'' None))"

subsection \<open>Statements without a body\<close>

definition parseWithContext :: "bool option parser" where
  "parseWithContext =
     bnd peekToken (\<lambda>tok.
     bnd (bnd (skipSymbol ''with'') (\<lambda>w.
            if w then ret (Some True)
            else bnd (skipSymbol ''without'') (\<lambda>wo.
                   if wo then ret (Some False) else ret None))) (\<lambda>withContext.
     bnd (if withContext \<noteq> None then
            bnd (skipSymbol ''context'') (\<lambda>c.
              if \<not> c then
                bnd (deref tok) (\<lambda>t.
                  fail ''parseFrom: expected context after with/without'' (tok_pos t))
              else ret ())
          else ret ()) (\<lambda>_.
     ret withContext)))"

definition parseImport :: "nat \<Rightarrow> node parser" where
  "parseImport n =
     bnd peekToken (\<lambda>importTok.
     bnd (skipSymbol ''import'') (\<lambda>found.
     bnd (deref importTok) (\<lambda>it.
     bnd (if \<not> found then fail ''parseImport: expected import'' (tok_pos it) else ret ()) (\<lambda>_.
     bnd (parseExpression n) (\<lambda>template.
     bnd (skipSymbol ''as'') (\<lambda>as.
     bnd (if \<not> as then fail (''parseImport: expected '' @ [CHR 0x22] @ ''as'' @ [CHR 0x22] @ '' keyword'') (tok_pos it)
          else ret ()) (\<lambda>_.
     bnd (parseExpression n) (\<lambda>target.
     bnd parseWithContext (\<lambda>withContext.
     seq (advanceAfterBlockEnd (Some (tvalue it)))
         (ret (Import (tok_pos it) template target withContext)))))))))))"

text \<open>\<open>name.value.charAt(0)\<close> for a node \<open>name\<close>; \<open>None\<close> where the runtime throws.\<close>

definition value_charAt0 :: "node \<Rightarrow> string option" where
  "value_charAt0 nd =
     (case nd of
        Symbol p v \<Rightarrow> Some (charAt v 0)
      | Literal p (JStr v) \<Rightarrow> Some (charAt v 0)
      | _ \<Rightarrow> None)"

definition parseFrom :: "nat \<Rightarrow> node parser" where
  "parseFrom n =
     bnd peekToken (\<lambda>fromTok.
     bnd (skipSymbol ''from'') (\<lambda>found.
     bnd (if \<not> found then fail ''parseFrom: expected from'' None else ret ()) (\<lambda>_.
     bnd (parseExpression n) (\<lambda>template.
     bnd (skipSymbol ''import'') (\<lambda>imp.
     bnd (deref fromTok) (\<lambda>ft.
     bnd (if \<not> imp then fail ''parseFrom: expected import'' (tok_pos ft) else ret ()) (\<lambda>_.
     bnd (while_loop n (\<lambda>(names, withContext).
            bnd peekToken (\<lambda>nextTok.
            bnd (deref nextTok) (\<lambda>nt.
              if ttype nt = TOKEN_BLOCK_END then
                bnd (if num_children names = 0 then
                       fail ''parseFrom: Expected at least one import name'' (tok_pos ft)
                     else ret ()) (\<lambda>_.
                bnd (str_value (tvalue nt)) (\<lambda>v.
                seq (if charAt v 0 = ''-''
                     then modify (\<lambda>s. s\<lparr>dropLeadingWhitespace := True\<rparr>) else ret ())
               (seq (nextToken False)
                    (ret (Inr (names, withContext))))))
              else
                bnd (if num_children names > 0 then
                       bnd (skip TOKEN_COMMA) (\<lambda>comma.
                         if \<not> comma then fail ''parseFrom: expected comma'' (tok_pos ft)
                         else ret ())
                     else ret ()) (\<lambda>_.
                bnd (parsePrimary n False) (\<lambda>name.
                bnd (case value_charAt0 name of
                       None \<Rightarrow> throw TypeError
                     | Some c \<Rightarrow>
                         if c = ''_'' then
                           fail (''parseFrom: names starting with an underscore '' @
                                 ''cannot be imported'') (node_pos name)
                         else ret ()) (\<lambda>_.
                bnd (skipSymbol ''as'') (\<lambda>as.
                bnd (if as then
                       bnd (parsePrimary n False) (\<lambda>alias.
                         ret (addChild names (Pair_node (node_pos name) name alias)))
                     else ret (addChild names name)) (\<lambda>names.
                bnd parseWithContext (\<lambda>withContext.
                  ret (Inl (names, withContext)))))))))))
          (NodeList None [], None)) (\<lambda>(names, withContext).
     ret (FromImport (tok_pos ft) template names withContext)))))))))"

definition parseExtends :: "nat \<Rightarrow> node parser" where
  "parseExtends n =
     bnd peekToken (\<lambda>tag.
     bnd (skipSymbol ''extends'') (\<lambda>found.
     bnd (if \<not> found then fail ''parseTemplateRef: expected extends'' None else ret ()) (\<lambda>_.
     bnd (deref tag) (\<lambda>tg.
     bnd (parseExpression n) (\<lambda>template.
     seq (advanceAfterBlockEnd (Some (tvalue tg)))
         (ret (Extends (tok_pos tg) template)))))))"

definition parseInclude :: "nat \<Rightarrow> node parser" where
  "parseInclude n =
     bnd peekToken (\<lambda>tag.
     bnd (skipSymbol ''include'') (\<lambda>found.
     bnd (if \<not> found then fail ''parseInclude: expected include'' None else ret ()) (\<lambda>_.
     bnd (deref tag) (\<lambda>tg.
     bnd (parseExpression n) (\<lambda>template.
     bnd (bnd (skipSymbol ''ignore'') (\<lambda>ig.
            if ig then skipSymbol ''missing'' else ret False)) (\<lambda>ignoreMissing.
     seq (advanceAfterBlockEnd (Some (tvalue tg)))
         (ret (Include (tok_pos tg) template ignoreMissing))))))))"

subsection \<open>parseRaw\<close>

text \<open>
  \<open>this.tokens._extractRegex(rawBlockRegex)\<close> and \<open>this.tokens.backN(k)\<close>, through the
  functions the lexer carries.  The loop condition calls \<open>_extractRegex\<close> before it tests
  \<open>rawLevel\<close>.
\<close>

definition lexer_extractRegex :: "string \<Rightarrow> (string \<times> string \<times> string) option parser" where
  "lexer_extractRegex tagName = (\<lambda>s.
     case extractRegex (tokens s) tagName (pending (tokens s)) of
       (m, rest) \<Rightarrow> (Inr m, s\<lparr>tokens := (tokens s)\<lparr>pending := rest\<rparr>\<rparr>))"

definition lexer_backN :: "nat \<Rightarrow> unit parser" where
  "lexer_backN k =
     modify (\<lambda>s. s\<lparr>tokens := (tokens s)\<lparr>pending := backN (tokens s) k (pending (tokens s))\<rparr>\<rparr>)"

definition parseRaw :: "nat \<Rightarrow> string option \<Rightarrow> node parser" where
  "parseRaw n tagName' =
     (let tagName = (case tagName' of None \<Rightarrow> ''raw'' | Some x \<Rightarrow> if x = [] then ''raw'' else x);
          endTagName = ''end'' @ tagName
      in
      bnd (advanceAfterBlockEnd None) (\<lambda>begun.
      bnd (while_loop n (\<lambda>(rawLevel, str).
             bnd (lexer_extractRegex tagName) (\<lambda>matches.
               case matches of
                 None \<Rightarrow> ret (Inr str)
               | Some (all, pre, blockName) \<Rightarrow>
                   if \<not> (rawLevel > 0) then ret (Inr str)
                   else
                     (let rawLevel' = (if blockName = tagName then rawLevel + 1
                                       else if blockName = endTagName then rawLevel - 1
                                       else rawLevel)
                      in if rawLevel' = 0 then
                           seq (lexer_backN (length all - length pre))
                               (ret (Inl (rawLevel', str @ pre)))
                         else ret (Inl (rawLevel', str @ all)))))
           (1::int, [])) (\<lambda>str.
      ret (Output (tok_pos begun) [TemplateData (tok_pos begun) str]))))"

subsection \<open>Extensions\<close>

text \<open>
  \<open>ext.parse(this, nodes, lexer)\<close>: the hook runs on the fields of the parser; the list
  of extensions stays as it is.
\<close>

definition run_extension :: "extension \<Rightarrow> node parser" where
  "run_extension ext = (\<lambda>s.
     case ext_parse ext (cursor.truncate s) of
       (r, c) \<Rightarrow> (r, s\<lparr>tokens := tokens c, peeked := peeked c,
                        breakOnBlocks := breakOnBlocks c,
                        dropLeadingWhitespace := dropLeadingWhitespace c\<rparr>))"

text \<open>The first extension whose tags contain the tag name, in the order of registration.\<close>

fun find_extension :: "extension list \<Rightarrow> tokval \<Rightarrow> extension option" where
  "find_extension [] v = None"
| "find_extension (ext # exts) v =
     (if v \<in> set (map Str (ext_tags ext)) then Some ext else find_extension exts v)"

subsection \<open>Statements with a body, and the driver\<close>

text \<open>
  Where the source creates a node and assigns its fields one after the other, the model
  builds the node when the routine returns, from the values the fields then have; a
  field the source leaves unassigned is \<open>Null\<close>, and the \<open>body\<close> that \<open>parseSet\<close> adds to a
  \<open>Set\<close> in its block form only is \<open>Undefined\<close> otherwise.
\<close>

text \<open>
  \<open>macroCall.args.children\<close> with the \<open>caller\<close> keyword argument added, as \<open>parseCall\<close>
  adds it; \<open>None\<close> where the runtime throws because \<open>macroCall\<close> has no \<open>args\<close>.  Of the
  classes with the field \<open>args\<close>, \<open>parsePrimary\<close> returns \<open>FunCall\<close> only.
\<close>

definition add_caller :: "node \<Rightarrow> node \<Rightarrow> node option" where
  "add_caller macroCall pair =
     (case macroCall of
        FunCall p f (NodeList q args) \<Rightarrow>
          Some (FunCall p f (NodeList q
            (if args \<noteq> [] \<and> is_KeywordArgs (last args)
             then butlast args @ [addChild (last args) pair]
             else args @ [KeywordArgs None [pair]])))
      | _ \<Rightarrow> None)"

fun parseNodes :: "nat \<Rightarrow> node list parser"
  and parse :: "nat \<Rightarrow> node parser"
  and parseUntilBlocks :: "nat \<Rightarrow> string list \<Rightarrow> node parser"
  and parseStatement :: "nat \<Rightarrow> node parser"
  and parseIf :: "nat \<Rightarrow> node parser"
  and parseFor :: "nat \<Rightarrow> node parser"
  and parseBlock :: "nat \<Rightarrow> node parser"
  and parseSet :: "nat \<Rightarrow> node parser"
  and parseMacro :: "nat \<Rightarrow> node parser"
  and parseCall :: "nat \<Rightarrow> node parser"
  and parseFilterStatement :: "nat \<Rightarrow> node parser"
where
  "parseNodes 0 = throw OutOfFuel"
| "parseNodes (Suc n) =
     while_loop n (\<lambda>buf.
       bnd (nextToken False) (\<lambda>tok.
         case tok of
           None \<Rightarrow> ret (Inr buf)
         | Some t \<Rightarrow>
             if ttype t = TOKEN_DATA then
               bnd (str_value (tvalue t)) (\<lambda>data.
               bnd peekToken (\<lambda>nextToken.
               bnd (get dropLeadingWhitespace) (\<lambda>drop.
               bnd (if drop then
                      seq (modify (\<lambda>s. s\<lparr>dropLeadingWhitespace := False\<rparr>))
                          (ret (trim_leading data))
                    else ret data) (\<lambda>data.
               bnd (get (\<lambda>s. tags (tokens s))) (\<lambda>tgs.
               bnd (case nextToken of
                      None \<Rightarrow> ret False
                    | Some nt \<Rightarrow>
                        if ttype nt = TOKEN_BLOCK_START then
                          bnd (str_value (tvalue nt)) (\<lambda>nextVal.
                            ret (charAt nextVal (int (length nextVal) - 1) = ''-''))
                        else if ttype nt = TOKEN_VARIABLE_START then
                          bnd (str_value (tvalue nt)) (\<lambda>nextVal.
                            ret (charAt nextVal (int (length (VARIABLE_START tgs))) = ''-''))
                        else if ttype nt = TOKEN_COMMENT then
                          bnd (str_value (tvalue nt)) (\<lambda>nextVal.
                            ret (charAt nextVal (int (length (COMMENT_START tgs))) = ''-''))
                        else ret False) (\<lambda>trim.
                 ret (Inl (buf @ [Output (tok_pos t)
                                    [TemplateData (tok_pos t)
                                       (if trim then trim_trailing data else data)]]))))))))
             else if ttype t = TOKEN_BLOCK_START then
               seq (modify (\<lambda>s. s\<lparr>dropLeadingWhitespace := False\<rparr>))
                   (bnd (parseStatement n) (\<lambda>nd.
                      if \<not> truthy nd then ret (Inr buf) else ret (Inl (buf @ [nd]))))
             else if ttype t = TOKEN_VARIABLE_START then
               bnd (parseExpression n) (\<lambda>e.
               seq (modify (\<lambda>s. s\<lparr>dropLeadingWhitespace := False\<rparr>))
              (seq advanceAfterVariableEnd
                   (ret (Inl (buf @ [Output (tok_pos t) [e]])))))
             else if ttype t = TOKEN_COMMENT then
               bnd (str_value (tvalue t)) (\<lambda>v.
               bnd (get (\<lambda>s. COMMENT_END (tags (tokens s)))) (\<lambda>tag.
               seq (modify (\<lambda>s. s\<lparr>dropLeadingWhitespace :=
                      (charAt v (int (length v) - int (length tag) - 1) = ''-'')\<rparr>))
                   (ret (Inl buf))))
             else
               fail (''Unexpected token at top-level: '' @ type_name (ttype t)) (tok_pos t)))
       []"

| "parse 0 = throw OutOfFuel"
| "parse (Suc n) = bnd (parseNodes n) (\<lambda>ns. ret (NodeList (Some (0, 0)) ns))"

| "parseUntilBlocks 0 blockNames = throw OutOfFuel"
| "parseUntilBlocks (Suc n) blockNames =
     bnd (get breakOnBlocks) (\<lambda>prev.
     seq (modify (\<lambda>s. s\<lparr>breakOnBlocks := Some blockNames\<rparr>))
    (bnd (parse n) (\<lambda>r.
     seq (modify (\<lambda>s. s\<lparr>breakOnBlocks := prev\<rparr>))
         (ret r))))"

| "parseStatement 0 = throw OutOfFuel"
| "parseStatement (Suc n) =
     bnd peekToken (\<lambda>tok.
     bnd (deref tok) (\<lambda>t.
     bnd (if ttype t \<noteq> TOKEN_SYMBOL then fail ''tag name expected'' (tok_pos t) else ret ()) (\<lambda>_.
     bnd (get breakOnBlocks) (\<lambda>bob.
       if (case bob of None \<Rightarrow> False | Some names \<Rightarrow> tvalue t \<in> set (map Str names))
       then ret Null
       else if tvalue t = Str ''raw'' then parseRaw n None
       else if tvalue t = Str ''verbatim'' then parseRaw n (Some ''verbatim'')
       else if tvalue t = Str ''if'' \<or> tvalue t = Str ''ifAsync'' then parseIf n
       else if tvalue t = Str ''for'' \<or> tvalue t = Str ''asyncEach'' \<or>
               tvalue t = Str ''asyncAll'' then parseFor n
       else if tvalue t = Str ''block'' then parseBlock n
       else if tvalue t = Str ''extends'' then parseExtends n
       else if tvalue t = Str ''include'' then parseInclude n
       else if tvalue t = Str ''set'' then parseSet n
       else if tvalue t = Str ''macro'' then parseMacro n
       else if tvalue t = Str ''call'' then parseCall n
       else if tvalue t = Str ''import'' then parseImport n
       else if tvalue t = Str ''from'' then parseFrom n
       else if tvalue t = Str ''filter'' then parseFilterStatement n
       else
         bnd (get extensions) (\<lambda>exts.
           case find_extension exts (tvalue t) of
             Some ext \<Rightarrow> run_extension ext
           | None \<Rightarrow>
               fail (''unknown block tag: '' @ to_string (tvalue t)) (tok_pos t))))))"

| "parseIf 0 = throw OutOfFuel"
| "parseIf (Suc n) =
     bnd peekToken (\<lambda>tag.
     bnd (bnd (skipSymbol ''if'') (\<lambda>a. if a then ret True else
          bnd (skipSymbol ''elif'') (\<lambda>b. if b then ret True else
          skipSymbol ''elseif''))) (\<lambda>is_if.
     bnd (if is_if then ret False else skipSymbol ''ifAsync'') (\<lambda>is_async.
     bnd (deref tag) (\<lambda>tg.
     bnd (if \<not> is_if \<and> \<not> is_async
          then fail ''parseIf: expected if, elif, or elseif'' (tok_pos tg) else ret ()) (\<lambda>_.
     bnd (parseExpression n) (\<lambda>cond.
     seq (advanceAfterBlockEnd (Some (tvalue tg)))
    (bnd (parseUntilBlocks n [''elif'', ''elseif'', ''else'', ''endif'']) (\<lambda>body.
     bnd peekToken (\<lambda>tok.
     bnd (case tok of
            None \<Rightarrow> fail (''parseIf: expected elif, else, or endif, '' @ ''got end of file'') None
          | Some t \<Rightarrow>
              if tvalue t = Str ''elseif'' \<or> tvalue t = Str ''elif'' then parseIf n
              else if tvalue t = Str ''else'' then
                seq (advanceAfterBlockEnd None)
               (bnd (parseUntilBlocks n [''endif'']) (\<lambda>e.
                seq (advanceAfterBlockEnd None) (ret e)))
              else if tvalue t = Str ''endif'' then
                seq (advanceAfterBlockEnd None) (ret Null)
              else fail (''parseIf: expected elif, else, or endif, '' @ ''got end of file'') None)
       (\<lambda>else_node.
     ret (if is_if then If_node (tok_pos tg) cond body else_node
          else IfAsync (tok_pos tg) cond body else_node)))))))))))"

| "parseFor 0 = throw OutOfFuel"
| "parseFor (Suc n) =
     bnd peekToken (\<lambda>forTok.
     bnd (bnd (skipSymbol ''for'') (\<lambda>a. if a then ret (Some (For, ''endfor'')) else
          bnd (skipSymbol ''asyncEach'') (\<lambda>b. if b then ret (Some (AsyncEach, ''endeach'')) else
          bnd (skipSymbol ''asyncAll'') (\<lambda>c. if c then ret (Some (AsyncAll, ''endall'')) else
          ret None)))) (\<lambda>kind.
     bnd (deref forTok) (\<lambda>ft.
     bnd (case kind of
            None \<Rightarrow> fail ''parseFor: expected for{Async}'' (tok_pos ft)
          | Some k \<Rightarrow> ret k) (\<lambda>(mk, endBlock).
     bnd (parsePrimary n False) (\<lambda>name.
     bnd (if \<not> is_Symbol name
          then fail ''parseFor: variable name expected for loop'' None else ret ()) (\<lambda>_.
     bnd peekToken (\<lambda>p.
     bnd (deref p) (\<lambda>pt.
     bnd (if ttype pt = TOKEN_COMMA then
            while_loop n (\<lambda>arr.
              bnd (skip TOKEN_COMMA) (\<lambda>comma.
                if comma then bnd (parsePrimary n False) (\<lambda>prim. ret (Inl (addChild arr prim)))
                else ret (Inr arr)))
              (Array (node_pos name) [name])
          else ret name) (\<lambda>name.
     bnd (skipSymbol ''in'') (\<lambda>is_in.
     bnd (if \<not> is_in
          then fail (''parseFor: expected '' @ [CHR 0x22] @ ''in'' @ [CHR 0x22] @ '' keyword for loop'') (tok_pos ft) else ret ()) (\<lambda>_.
     bnd (parseExpression n) (\<lambda>arr.
     seq (advanceAfterBlockEnd (Some (tvalue ft)))
    (bnd (parseUntilBlocks n [endBlock, ''else'']) (\<lambda>body.
     bnd (skipSymbol ''else'') (\<lambda>has_else.
     bnd (if has_else then
            seq (advanceAfterBlockEnd (Some (Str ''else''))) (parseUntilBlocks n [endBlock])
          else ret Null) (\<lambda>else_node.
     seq (advanceAfterBlockEnd None)
         (ret (mk (tok_pos ft) name arr body else_node))))))))))))))))))"

| "parseBlock 0 = throw OutOfFuel"
| "parseBlock (Suc n) =
     bnd peekToken (\<lambda>tag.
     bnd (skipSymbol ''block'') (\<lambda>found.
     bnd (deref tag) (\<lambda>tg.
     bnd (if \<not> found then fail ''parseBlock: expected block'' (tok_pos tg) else ret ()) (\<lambda>_.
     bnd (parsePrimary n False) (\<lambda>name.
     bnd (case name of
            Symbol p v \<Rightarrow> ret v
          | _ \<Rightarrow> fail ''parseBlock: variable name expected'' (tok_pos tg)) (\<lambda>name_value.
     seq (advanceAfterBlockEnd (Some (tvalue tg)))
    (bnd (parseUntilBlocks n [''endblock'']) (\<lambda>body.
     seq (skipSymbol ''endblock'')
    (seq (skipSymbol name_value)
    (bnd peekToken (\<lambda>tok.
       case tok of
         None \<Rightarrow> fail ''parseBlock: expected endblock, got end of file'' None
       | Some t \<Rightarrow>
           seq (advanceAfterBlockEnd (Some (tvalue t)))
               (ret (Block (tok_pos tg) name body)))))))))))))"

| "parseSet 0 = throw OutOfFuel"
| "parseSet (Suc n) =
     bnd peekToken (\<lambda>tag.
     bnd (skipSymbol ''set'') (\<lambda>found.
     bnd (deref tag) (\<lambda>tg.
     bnd (if \<not> found then fail ''parseSet: expected set'' (tok_pos tg) else ret ()) (\<lambda>_.
     bnd (while_loop n (\<lambda>targets.
            bnd (parsePrimary n False) (\<lambda>target.
              if \<not> truthy target then ret (Inr targets)
              else
                bnd (skip TOKEN_COMMA) (\<lambda>comma.
                  if \<not> comma then ret (Inr (targets @ [target]))
                  else ret (Inl (targets @ [target])))))
          []) (\<lambda>targets.
     bnd (skipValue TOKEN_OPERATOR ''='') (\<lambda>eq.
       if \<not> eq then
         bnd (skip TOKEN_BLOCK_END) (\<lambda>block_end.
           if \<not> block_end then
             fail ''parseSet: expected = or block end in set tag'' (tok_pos tg)
           else
             bnd (parseUntilBlocks n [''endset'']) (\<lambda>body.
             seq (advanceAfterBlockEnd None)
                 (ret (Set (tok_pos tg) targets Null (Capture (tok_pos tg) body)))))
       else
         bnd (parseExpression n) (\<lambda>v.
         seq (advanceAfterBlockEnd (Some (tvalue tg)))
             (ret (Set (tok_pos tg) targets v Undefined)))))))))"

| "parseMacro 0 = throw OutOfFuel"
| "parseMacro (Suc n) =
     bnd peekToken (\<lambda>macroTok.
     bnd (skipSymbol ''macro'') (\<lambda>found.
     bnd (if \<not> found then fail ''expected macro'' None else ret ()) (\<lambda>_.
     bnd (parsePrimary n True) (\<lambda>name.
     bnd (parseSignature n False False) (\<lambda>args.
     bnd (deref macroTok) (\<lambda>mt.
     seq (advanceAfterBlockEnd (Some (tvalue mt)))
    (bnd (parseUntilBlocks n [''endmacro'']) (\<lambda>body.
     seq (advanceAfterBlockEnd None)
         (ret (Macro (tok_pos mt) name args body))))))))))"

| "parseCall 0 = throw OutOfFuel"
| "parseCall (Suc n) =
     bnd peekToken (\<lambda>callTok.
     bnd (skipSymbol ''call'') (\<lambda>found.
     bnd (if \<not> found then fail ''expected call'' None else ret ()) (\<lambda>_.
     bnd (parseSignature n True False) (\<lambda>sig.
     bnd (ret (if truthy sig then sig else NodeList None [])) (\<lambda>callerArgs.
     bnd (parsePrimary n False) (\<lambda>macroCall.
     bnd (deref callTok) (\<lambda>ct.
     seq (advanceAfterBlockEnd (Some (tvalue ct)))
    (bnd (parseUntilBlocks n [''endcall'']) (\<lambda>body.
     seq (advanceAfterBlockEnd None)
         (let callerName = Symbol (tok_pos ct) ''caller'';
              callerNode = Caller (tok_pos ct) callerName callerArgs body
          in case add_caller macroCall (Pair_node (tok_pos ct) callerName callerNode) of
               None \<Rightarrow> throw TypeError
             | Some macroCall' \<Rightarrow> ret (Output (tok_pos ct) [macroCall'])))))))))))"

| "parseFilterStatement 0 = throw OutOfFuel"
| "parseFilterStatement (Suc n) =
     bnd peekToken (\<lambda>filterTok.
     bnd (skipSymbol ''filter'') (\<lambda>found.
     bnd (if \<not> found then fail ''parseFilterStatement: expected filter'' None else ret ()) (\<lambda>_.
     bnd (parseFilterName n) (\<lambda>name.
     bnd (parseFilterArgs n name) (\<lambda>args.
     bnd (deref filterTok) (\<lambda>ft.
     seq (advanceAfterBlockEnd (Some (tvalue ft)))
    (bnd (parseUntilBlocks n [''endfilter'']) (\<lambda>b.
     seq (advanceAfterBlockEnd None)
         (ret (Output (node_pos name)
                 [Filter (node_pos name) name
                    (NodeList (node_pos name) (Capture (node_pos name) b # args))]))))))))))"

text \<open>\<open>parseAsRoot\<close>, and the exported \<open>parse(src, extensions, opts)\<close> on the lexer of \<open>src\<close>.\<close>

definition parseAsRoot :: "nat \<Rightarrow> node parser" where
  "parseAsRoot n = bnd (parseNodes n) (\<lambda>ns. ret (Root (Some (0, 0)) ns))"

definition parse_template :: "nat \<Rightarrow> lexer \<Rightarrow> extension list option \<Rightarrow> (error + node) \<times> pstate" where
  "parse_template n lx exts =
     parseAsRoot n (case exts of None \<Rightarrow> init lx | Some es \<Rightarrow> (init lx)\<lparr>extensions := es\<rparr>)"

section \<open>Notions used to state the properties\<close>

text \<open>
  \<open>fuel_le p q\<close>: wherever the run \<open>p\<close> ends otherwise than by lack of fuel, the run
  \<open>q\<close> ends in the same result and the same state.
\<close>

definition fuel_le :: "'a parser \<Rightarrow> 'a parser \<Rightarrow> bool" where
  "fuel_le p q \<longleftrightarrow> (\<forall>s. fst (p s) \<noteq> Inl OutOfFuel \<longrightarrow> q s = p s)"

text \<open>
  \<open>is_op v t\<close>: the token \<open>t\<close> is the operator \<open>v\<close>.  \<open>ends_chain r\<close>: the lookahead \<open>r\<close>
  ends a chain of \<open>+\<close> and \<open>-\<close>, the stream having ended or the next token being neither
  operator.  \<open>sub_body\<close> and \<open>add_body\<close> name the loop bodies of \<open>parseSub\<close> and \<open>parseAdd\<close>.
\<close>

definition is_op :: "string \<Rightarrow> token \<Rightarrow> bool" where
  "is_op v t \<longleftrightarrow> ttype t = TOKEN_OPERATOR \<and> tvalue t = Str v"

definition ends_chain :: "token option \<Rightarrow> bool" where
  "ends_chain r =
     (case r of
        None \<Rightarrow> True
      | Some t \<Rightarrow> ttype t \<noteq> TOKEN_WHITESPACE \<and> \<not> is_op ''+'' t \<and> \<not> is_op ''-'' t)"

definition sub_body :: "nat \<Rightarrow> node \<Rightarrow> (node + node) parser" where
  "sub_body n = (\<lambda>node.
     bnd (skipValue TOKEN_OPERATOR ''-'') (\<lambda>found.
       if found then bnd (parseMul n) (\<lambda>node2. ret (Inl (Sub (node_pos node) node node2)))
       else ret (Inr node)))"

definition add_body :: "nat \<Rightarrow> node \<Rightarrow> (node + node) parser" where
  "add_body n = (\<lambda>node.
     bnd (skipValue TOKEN_OPERATOR ''+'') (\<lambda>found.
       if found then bnd (parseSub n) (\<lambda>node2. ret (Inl (Add (node_pos node) node node2)))
       else ret (Inr node)))"

text \<open>
  \<open>from_body n ft\<close> names the loop body of \<open>parseFrom\<close>, one round of which reads one
  imported name; \<open>ft\<close> is the token of the keyword \<open>from\<close> and the loop variables are the
  list \<open>names\<close> and \<open>withContext\<close>.  \<open>rounds k body x s\<close> runs \<open>k\<close> rounds of a loop from the
  loop variables \<open>x\<close> and the state \<open>s\<close>: it is the loop variables and the state before round
  \<open>k + 1\<close>, and \<open>None\<close> where the loop has been left or an error thrown before.
\<close>

definition from_body ::
  "nat \<Rightarrow> token \<Rightarrow> node \<times> bool option \<Rightarrow>
     ((node \<times> bool option) + (node \<times> bool option)) parser" where
  "from_body n ft = (\<lambda>(names, withContext).
     bnd peekToken (\<lambda>nextTok.
     bnd (deref nextTok) (\<lambda>nt.
       if ttype nt = TOKEN_BLOCK_END then
         bnd (if num_children names = 0 then
                fail ''parseFrom: Expected at least one import name'' (tok_pos ft)
              else ret ()) (\<lambda>_.
         bnd (str_value (tvalue nt)) (\<lambda>v.
         seq (if charAt v 0 = ''-''
              then modify (\<lambda>s. s\<lparr>dropLeadingWhitespace := True\<rparr>) else ret ())
        (seq (nextToken False)
             (ret (Inr (names, withContext))))))
       else
         bnd (if num_children names > 0 then
                bnd (skip TOKEN_COMMA) (\<lambda>comma.
                  if \<not> comma then fail ''parseFrom: expected comma'' (tok_pos ft)
                  else ret ())
              else ret ()) (\<lambda>_.
         bnd (parsePrimary n False) (\<lambda>name.
         bnd (case value_charAt0 name of
                None \<Rightarrow> throw TypeError
              | Some c \<Rightarrow>
                  if c = ''_'' then
                    fail (''parseFrom: names starting with an underscore '' @
                          ''cannot be imported'') (node_pos name)
                  else ret ()) (\<lambda>_.
         bnd (skipSymbol ''as'') (\<lambda>as.
         bnd (if as then
                bnd (parsePrimary n False) (\<lambda>alias.
                  ret (addChild names (Pair_node (node_pos name) name alias)))
              else ret (addChild names name)) (\<lambda>names.
         bnd parseWithContext (\<lambda>withContext.
           ret (Inl (names, withContext)))))))))))"

fun rounds :: "nat \<Rightarrow> ('a \<Rightarrow> ('a + 'b) parser) \<Rightarrow> 'a \<Rightarrow> pstate \<Rightarrow> ('a \<times> pstate) option" where
  "rounds 0 body x s = Some (x, s)"
| "rounds (Suc k) body x s =
     (case body x s of
        (Inr (Inl x'), s') \<Rightarrow> rounds k body x' s'
      | _ \<Rightarrow> None)"

section \<open>Concrete templates\<close>

text \<open>
  The lexer is not among the sources, so a template is given as a token stream: the
  delimiters, the names, literals and operators, and the white space inside a tag as
  tokens of type \<open>WHITESPACE\<close>, each with a line and a column counted from zero.  The
  parser copies the positions into the nodes and the errors it builds, and decides
  nothing by them.  \<open>st ts p\<close> is a fresh parser that is about to read \<open>ts\<close> and holds \<open>p\<close>
  in its pushback slot.
\<close>

definition sp :: "nat \<Rightarrow> nat \<Rightarrow> token" where
  "sp l c = Tok TOKEN_WHITESPACE '' '' l c"

definition st :: "token list \<Rightarrow> token option \<Rightarrow> pstate" where
  "st ts p = (init (token_stream ts))\<lparr>peeked := p\<rparr>"

text \<open>The template \<open>{{ 1 + 2 * 3 ** 2 }}\<close>.\<close>

definition arith_tokens :: "token list" where
  "arith_tokens =
     [Tok TOKEN_VARIABLE_START ''{{'' 0 0, sp 0 2, Tok TOKEN_INT ''1'' 0 3, sp 0 4,
      Tok TOKEN_OPERATOR ''+'' 0 5, sp 0 6, Tok TOKEN_INT ''2'' 0 7, sp 0 8,
      Tok TOKEN_OPERATOR ''*'' 0 9, sp 0 10, Tok TOKEN_INT ''3'' 0 11, sp 0 12,
      Tok TOKEN_OPERATOR ''**'' 0 13, sp 0 15, Tok TOKEN_INT ''2'' 0 16, sp 0 17,
      Tok TOKEN_VARIABLE_END ''}}'' 0 18]"

text \<open>
  \<open>place shapes ps\<close> puts the tokens of the given types and values at the positions \<open>ps\<close>.
  \<open>from_import_shape x\<close> is the template \<open>{% from "t" import _x %}\<close>, for any text \<open>x\<close> after
  the underscore; the name is the token at index 8.  \<open>from_first_shape\<close> and
  \<open>from_second_shape\<close> are \<open>{% from "t" import _x, a %}\<close> and \<open>{% from "t" import a, _x %}\<close>,
  where the name with the underscore is the token at index 8 and at index 11.  In
  \<open>from_import_tokens\<close>, \<open>from_first_tokens\<close> and \<open>from_second_tokens\<close> the tokens of the
  three templates stand on line 0, the opening delimiter in column 0 and what follows it
  in the columns counted from behind the delimiter.
\<close>

definition place :: "(toktype \<times> string) list \<Rightarrow> (nat \<times> nat) list \<Rightarrow> token list" where
  "place shapes ps = map (\<lambda>((ty, v), (l, c)). Tok ty v l c) (zip shapes ps)"

definition from_import_shape :: "string \<Rightarrow> (toktype \<times> string) list" where
  "from_import_shape x =
     [(TOKEN_BLOCK_START, ''{%''), (TOKEN_WHITESPACE, '' ''), (TOKEN_SYMBOL, ''from''),
      (TOKEN_WHITESPACE, '' ''), (TOKEN_STRING, ''t''), (TOKEN_WHITESPACE, '' ''),
      (TOKEN_SYMBOL, ''import''), (TOKEN_WHITESPACE, '' ''), (TOKEN_SYMBOL, CHR ''_'' # x),
      (TOKEN_WHITESPACE, '' ''), (TOKEN_BLOCK_END, ''%}'')]"

definition from_first_shape :: "(toktype \<times> string) list" where
  "from_first_shape =
     [(TOKEN_BLOCK_START, ''{%''), (TOKEN_WHITESPACE, '' ''), (TOKEN_SYMBOL, ''from''),
      (TOKEN_WHITESPACE, '' ''), (TOKEN_STRING, ''t''), (TOKEN_WHITESPACE, '' ''),
      (TOKEN_SYMBOL, ''import''), (TOKEN_WHITESPACE, '' ''), (TOKEN_SYMBOL, ''_x''),
      (TOKEN_COMMA, '',''), (TOKEN_WHITESPACE, '' ''), (TOKEN_SYMBOL, ''a''),
      (TOKEN_WHITESPACE, '' ''), (TOKEN_BLOCK_END, ''%}'')]"

definition from_second_shape :: "(toktype \<times> string) list" where
  "from_second_shape =
     [(TOKEN_BLOCK_START, ''{%''), (TOKEN_WHITESPACE, '' ''), (TOKEN_SYMBOL, ''from''),
      (TOKEN_WHITESPACE, '' ''), (TOKEN_STRING, ''t''), (TOKEN_WHITESPACE, '' ''),
      (TOKEN_SYMBOL, ''import''), (TOKEN_WHITESPACE, '' ''), (TOKEN_SYMBOL, ''a''),
      (TOKEN_COMMA, '',''), (TOKEN_WHITESPACE, '' ''), (TOKEN_SYMBOL, ''_x''),
      (TOKEN_WHITESPACE, '' ''), (TOKEN_BLOCK_END, ''%}'')]"

definition from_import_tokens :: "token list" where
  "from_import_tokens =
     place (from_import_shape ''x'')
       [(0, 0), (0, 0), (0, 1), (0, 5), (0, 6), (0, 9), (0, 10), (0, 16), (0, 17), (0, 19),
        (0, 20)]"

definition from_first_tokens :: "token list" where
  "from_first_tokens =
     place from_first_shape
       [(0, 0), (0, 0), (0, 1), (0, 5), (0, 6), (0, 9), (0, 10), (0, 16), (0, 17), (0, 19),
        (0, 20), (0, 21), (0, 22), (0, 23)]"

definition from_second_tokens :: "token list" where
  "from_second_tokens =
     place from_second_shape
       [(0, 0), (0, 0), (0, 1), (0, 5), (0, 6), (0, 9), (0, 10), (0, 16), (0, 17), (0, 18),
        (0, 19), (0, 20), (0, 22), (0, 23)]"

text \<open>The templates \<open>{% set x -%}  hi{% endset %}\<close> and \<open>{% if x -%}  hi{% endif %}\<close>.\<close>

definition set_block_tokens :: "token list" where
  "set_block_tokens =
     [Tok TOKEN_BLOCK_START ''{%'' 0 0, sp 0 2, Tok TOKEN_SYMBOL ''set'' 0 3, sp 0 6,
      Tok TOKEN_SYMBOL ''x'' 0 7, sp 0 8, Tok TOKEN_BLOCK_END ''-%}'' 0 9,
      Tok TOKEN_DATA ''  hi'' 0 12,
      Tok TOKEN_BLOCK_START ''{%'' 0 16, sp 0 18, Tok TOKEN_SYMBOL ''endset'' 0 19, sp 0 25,
      Tok TOKEN_BLOCK_END ''%}'' 0 26]"

definition if_block_tokens :: "token list" where
  "if_block_tokens =
     [Tok TOKEN_BLOCK_START ''{%'' 0 0, sp 0 2, Tok TOKEN_SYMBOL ''if'' 0 3, sp 0 5,
      Tok TOKEN_SYMBOL ''x'' 0 6, sp 0 7, Tok TOKEN_BLOCK_END ''-%}'' 0 8,
      Tok TOKEN_DATA ''  hi'' 0 11,
      Tok TOKEN_BLOCK_START ''{%'' 0 15, sp 0 17, Tok TOKEN_SYMBOL ''endif'' 0 18, sp 0 23,
      Tok TOKEN_BLOCK_END ''%}'' 0 24]"

text \<open>The template \<open>{{ a |\<close>, which ends inside the variable tag.\<close>

definition open_filter_tokens :: "token list" where
  "open_filter_tokens =
     [Tok TOKEN_VARIABLE_START ''{{'' 0 0, sp 0 2, Tok TOKEN_SYMBOL ''a'' 0 3, sp 0 4,
      Tok TOKEN_PIPE ''|'' 0 5]"

text \<open>The template \<open>{% for k, 1, "s", [2] in d %}{% endfor %}\<close>.\<close>

definition for_targets_tokens :: "token list" where
  "for_targets_tokens =
     [Tok TOKEN_BLOCK_START ''{%'' 0 0, sp 0 2, Tok TOKEN_SYMBOL ''for'' 0 3, sp 0 6,
      Tok TOKEN_SYMBOL ''k'' 0 7, Tok TOKEN_COMMA '','' 0 8, sp 0 9,
      Tok TOKEN_INT ''1'' 0 10, Tok TOKEN_COMMA '','' 0 11, sp 0 12,
      Tok TOKEN_STRING ''s'' 0 13, Tok TOKEN_COMMA '','' 0 16, sp 0 17,
      Tok TOKEN_LEFT_BRACKET ''['' 0 18, Tok TOKEN_INT ''2'' 0 19,
      Tok TOKEN_RIGHT_BRACKET '']'' 0 20, sp 0 21, Tok TOKEN_SYMBOL ''in'' 0 22, sp 0 24,
      Tok TOKEN_SYMBOL ''d'' 0 25, sp 0 26, Tok TOKEN_BLOCK_END ''%}'' 0 27,
      Tok TOKEN_BLOCK_START ''{%'' 0 29, sp 0 31, Tok TOKEN_SYMBOL ''endfor'' 0 32, sp 0 38,
      Tok TOKEN_BLOCK_END ''%}'' 0 39]"

text \<open>The template \<open>{% for 1 in d %}{% endfor %}\<close>.\<close>

definition for_literal_tokens :: "token list" where
  "for_literal_tokens =
     [Tok TOKEN_BLOCK_START ''{%'' 0 0, sp 0 2, Tok TOKEN_SYMBOL ''for'' 0 3, sp 0 6,
      Tok TOKEN_INT ''1'' 0 7, sp 0 8, Tok TOKEN_SYMBOL ''in'' 0 9, sp 0 11,
      Tok TOKEN_SYMBOL ''d'' 0 12, sp 0 13, Tok TOKEN_BLOCK_END ''%}'' 0 14,
      Tok TOKEN_BLOCK_START ''{%'' 0 16, sp 0 18, Tok TOKEN_SYMBOL ''endfor'' 0 19, sp 0 25,
      Tok TOKEN_BLOCK_END ''%}'' 0 26]"

text \<open>
  The expression \<open>a o1 b o2 c\<close> with two operators, as it stands inside a variable tag
  before the closing \<open>}}\<close>.
\<close>

definition chain_tokens :: "string \<Rightarrow> string \<Rightarrow> token list" where
  "chain_tokens o1 o2 =
     [Tok TOKEN_SYMBOL ''a'' 0 3, sp 0 4, Tok TOKEN_OPERATOR o1 0 5, sp 0 6,
      Tok TOKEN_SYMBOL ''b'' 0 7, sp 0 8, Tok TOKEN_OPERATOR o2 0 9, sp 0 10,
      Tok TOKEN_SYMBOL ''c'' 0 11, sp 0 12, Tok TOKEN_VARIABLE_END ''}}'' 0 13]"

text \<open>The body \<open>{{ }}{% endif %}\<close> of an \<open>if\<close> block, whose expression is missing.\<close>

definition broken_body_tokens :: "token list" where
  "broken_body_tokens =
     [Tok TOKEN_VARIABLE_START ''{{'' 0 10, sp 0 12, Tok TOKEN_VARIABLE_END ''}}'' 0 13,
      Tok TOKEN_BLOCK_START ''{%'' 0 15, sp 0 17, Tok TOKEN_SYMBOL ''endif'' 0 18, sp 0 23,
      Tok TOKEN_BLOCK_END ''%}'' 0 24]"

text \<open>The body \<open>a{% endif %}\<close> of an \<open>if\<close> block.\<close>

definition plain_body_tokens :: "token list" where
  "plain_body_tokens =
     [Tok TOKEN_DATA ''a'' 0 10,
      Tok TOKEN_BLOCK_START ''{%'' 0 11, sp 0 13, Tok TOKEN_SYMBOL ''endif'' 0 14, sp 0 19,
      Tok TOKEN_BLOCK_END ''%}'' 0 20]"


section \<open>Running the parser on a given input\<close>

text \<open>
  The equations of the routines at a numeral of fuel, and the definitions a run unfolds.
\<close>

lemmas fuel_numeral =
  while_loop.simps(2) [of "pred_numeral k", folded numeral_eq_Suc]
  parseExpression.simps(2) [of "pred_numeral k", folded numeral_eq_Suc]
  parseInlineIf.simps(2) [of "pred_numeral k", folded numeral_eq_Suc]
  parseOr.simps(2) [of "pred_numeral k", folded numeral_eq_Suc]
  parseAnd.simps(2) [of "pred_numeral k", folded numeral_eq_Suc]
  parseNot.simps(2) [of "pred_numeral k", folded numeral_eq_Suc]
  parseIn.simps(2) [of "pred_numeral k", folded numeral_eq_Suc]
  parseCompare.simps(2) [of "pred_numeral k", folded numeral_eq_Suc]
  parseConcat.simps(2) [of "pred_numeral k", folded numeral_eq_Suc]
  parseAdd.simps(2) [of "pred_numeral k", folded numeral_eq_Suc]
  parseSub.simps(2) [of "pred_numeral k", folded numeral_eq_Suc]
  parseMul.simps(2) [of "pred_numeral k", folded numeral_eq_Suc]
  parseDiv.simps(2) [of "pred_numeral k", folded numeral_eq_Suc]
  parseFloorDiv.simps(2) [of "pred_numeral k", folded numeral_eq_Suc]
  parseMod.simps(2) [of "pred_numeral k", folded numeral_eq_Suc]
  parsePow.simps(2) [of "pred_numeral k", folded numeral_eq_Suc]
  parseUnary.simps(2) [of "pred_numeral k", folded numeral_eq_Suc]
  parsePrimary.simps(2) [of "pred_numeral k", folded numeral_eq_Suc]
  parsePostfix.simps(2) [of "pred_numeral k", folded numeral_eq_Suc]
  parseFilterArgs.simps(2) [of "pred_numeral k", folded numeral_eq_Suc]
  parseFilter.simps(2) [of "pred_numeral k", folded numeral_eq_Suc]
  parseAggregate.simps(2) [of "pred_numeral k", folded numeral_eq_Suc]
  parseSignature.simps(2) [of "pred_numeral k", folded numeral_eq_Suc]
  parseNodes.simps(2) [of "pred_numeral k", folded numeral_eq_Suc]
  parse.simps(2) [of "pred_numeral k", folded numeral_eq_Suc]
  parseUntilBlocks.simps(2) [of "pred_numeral k", folded numeral_eq_Suc]
  parseStatement.simps(2) [of "pred_numeral k", folded numeral_eq_Suc]
  parseIf.simps(2) [of "pred_numeral k", folded numeral_eq_Suc]
  parseFor.simps(2) [of "pred_numeral k", folded numeral_eq_Suc]
  parseBlock.simps(2) [of "pred_numeral k", folded numeral_eq_Suc]
  parseSet.simps(2) [of "pred_numeral k", folded numeral_eq_Suc]
  parseMacro.simps(2) [of "pred_numeral k", folded numeral_eq_Suc]
  parseCall.simps(2) [of "pred_numeral k", folded numeral_eq_Suc]
  parseFilterStatement.simps(2) [of "pred_numeral k", folded numeral_eq_Suc]
  for k

lemmas monad_defs = ret_def throw_def bnd_def seq_def modify_def get_def
lemmas cursor_defs = lexer_nextToken_def read_lexer_def nextToken_def peekToken_def pushToken_def
  fail_def tok_pos_def skip_def expect_def skipValue_def skipSymbol_def deref_def
lemmas node_defs = children_def addChild_def is_Symbol_def is_Dict_def is_KeywordArgs_def
  truthy_def args_of_def num_children_def value_charAt0_def add_caller_def
lemmas aux_defs = is_space_def digit_of_def parseInt_def compareOps_def literal_val_def
  charAt_def str_value_def trim_leading_def trim_trailing_def falsy_name_def
lemmas routine_defs = parseFilterName_def advanceAfterBlockEnd_def advanceAfterVariableEnd_def
  parseWithContext_def parseImport_def parseFrom_def parseExtends_def parseInclude_def
  lexer_extractRegex_def lexer_backN_def parseRaw_def run_extension_def
  parseAsRoot_def parse_template_def
lemmas input_defs = init_def token_stream_def jinja_tags_def Tok_def

lemmas run_simps =
  fuel_numeral monad_defs cursor_defs node_defs aux_defs routine_defs input_defs sp_def st_def
  Let_def

text \<open>\<open>parseInt\<close> on a small literal, beyond \<open>2^53\<close>, on a negative zero and without a digit.\<close>

lemma parseInt_examples:
  "parseInt ''12'' = JNum 12"
  "parseInt ''9007199254740992'' = JNum 9007199254740992"
  "parseInt ''9007199254740993'' = JRounded 9007199254740993"
  "parseInt '' -7x'' = JNum (- 7)"
  "parseInt ''-0'' = JNegZero"
  "parseInt ''x1'' = JNaN"
  by (simp_all add: parseInt_def is_space_def digit_of_def Let_def)

section \<open>Properties of the token cursor\<close>

lemma skip_whitespace_not_whitespace:
  "skip_whitespace t ts = (Some t', ts') \<Longrightarrow> ttype t' \<noteq> TOKEN_WHITESPACE"
  by (induction t ts rule: skip_whitespace.induct) (auto split: if_splits)

lemma read_lexer_not_whitespace:
  "read_lexer False s = (Inr (Some t), s') \<Longrightarrow> ttype t \<noteq> TOKEN_WHITESPACE"
  by (auto simp: read_lexer_def bnd_def lexer_nextToken_def
           split: list.splits prod.splits dest: skip_whitespace_not_whitespace)

lemma read_lexer_returns: "\<exists>r s'. read_lexer w s = (Inr r, s')"
  by (auto simp: read_lexer_def bnd_def lexer_nextToken_def ret_def
           split: list.splits prod.splits)

lemma nextToken_returns: "\<exists>r s'. nextToken w s = (Inr r, s')"
  using read_lexer_returns by (auto simp: nextToken_def split: option.splits)

text \<open>
  C5.  \<open>nextToken\<close> always returns; called with \<open>withWhitespace\<close> false it never returns
  a token of type \<open>WHITESPACE\<close>; and a whitespace token in the pushback slot is dropped:
  the call answers as it does on the same parser with the slot empty.
\<close>

theorem nextToken_never_whitespace:
  "(\<exists>r s'. nextToken w s = (Inr r, s')) \<and>
   (\<forall>t s'. nextToken False s = (Inr (Some t), s') \<longrightarrow> ttype t \<noteq> TOKEN_WHITESPACE) \<and>
   (\<forall>p. peeked s = Some p \<and> ttype p = TOKEN_WHITESPACE \<longrightarrow>
        nextToken False s = nextToken False (s\<lparr>peeked := None\<rparr>))"
proof (intro conjI allI impI)
  show "\<exists>r s'. nextToken w s = (Inr r, s')"
    using read_lexer_returns by (auto simp: nextToken_def split: option.splits)
next
  fix t s' assume "nextToken False s = (Inr (Some t), s')"
  then show "ttype t \<noteq> TOKEN_WHITESPACE"
    by (auto simp: nextToken_def split: option.splits if_splits
             dest: read_lexer_not_whitespace)
next
  fix p assume "peeked s = Some p \<and> ttype p = TOKEN_WHITESPACE"
  then show "nextToken False s = nextToken False (s\<lparr>peeked := None\<rparr>)"
    by (simp add: nextToken_def)
qed

theorem nextToken_never_whitespace_witness:
  "peeked ((init (token_stream [Tok TOKEN_WHITESPACE '' '' 0 1, Tok TOKEN_SYMBOL ''x'' 0 2]))
      \<lparr>peeked := Some (Tok TOKEN_WHITESPACE '' '' 0 0)\<rparr>) = Some (Tok TOKEN_WHITESPACE '' '' 0 0) \<and>
   ttype (Tok TOKEN_WHITESPACE '' '' 0 0) = TOKEN_WHITESPACE \<and>
   nextToken False
     ((init (token_stream [Tok TOKEN_WHITESPACE '' '' 0 1, Tok TOKEN_SYMBOL ''x'' 0 2]))
        \<lparr>peeked := Some (Tok TOKEN_WHITESPACE '' '' 0 0)\<rparr>)
     = (Inr (Some (Tok TOKEN_SYMBOL ''x'' 0 2)), init (token_stream [])) \<and>
   ttype (Tok TOKEN_SYMBOL ''x'' 0 2) \<noteq> TOKEN_WHITESPACE"
  using nextToken_never_whitespace
    [of False "(init (token_stream [Tok TOKEN_WHITESPACE '' '' 0 1, Tok TOKEN_SYMBOL ''x'' 0 2]))
        \<lparr>peeked := Some (Tok TOKEN_WHITESPACE '' '' 0 0)\<rparr>"]
  by (simp add: nextToken_def read_lexer_def bnd_def lexer_nextToken_def init_def
        token_stream_def Tok_def)

text \<open>
  C6.  On a parser whose pushback slot is empty, \<open>pushToken(tok)\<close> followed by
  \<open>peekToken()\<close> returns \<open>tok\<close> and leaves it in the slot, and \<open>pushToken(tok)\<close> followed
  by \<open>nextToken(true)\<close> returns \<open>tok\<close> and leaves the parser as it was before the push.
\<close>

theorem pushToken_then_read:
  "peeked s = None \<Longrightarrow>
   bnd (pushToken (Some t)) (\<lambda>_. peekToken) s = (Inr (Some t), s\<lparr>peeked := Some t\<rparr>) \<and>
   bnd (pushToken (Some t)) (\<lambda>_. nextToken True) s = (Inr (Some t), s)"
  by (simp add: bnd_def pushToken_def peekToken_def nextToken_def)

theorem pushToken_then_read_witness:
  "peeked (init (token_stream [])) = None \<and>
   bnd (pushToken (Some (Tok TOKEN_WHITESPACE '' '' 3 4))) (\<lambda>_. peekToken) (init (token_stream []))
     = (Inr (Some (Tok TOKEN_WHITESPACE '' '' 3 4)),
        (init (token_stream []))\<lparr>peeked := Some (Tok TOKEN_WHITESPACE '' '' 3 4)\<rparr>) \<and>
   bnd (pushToken (Some (Tok TOKEN_WHITESPACE '' '' 3 4))) (\<lambda>_. nextToken True)
       (init (token_stream []))
     = (Inr (Some (Tok TOKEN_WHITESPACE '' '' 3 4)), init (token_stream []))"
  using pushToken_then_read [of "init (token_stream [])" "Tok TOKEN_WHITESPACE '' '' 3 4"]
  by (simp add: init_def)

text \<open>
  C7, as the code has it.  \<open>pushToken\<close> on a parser whose pushback slot holds a token
  throws a plain \<open>Error\<close>, which has no line and no column, with the message
  \<open>pushToken: can only push one token on between reads\<close>, and leaves the parser unchanged.
\<close>

theorem pushToken_full_slot:
  "peeked s = Some p \<Longrightarrow>
   pushToken t s = (Inl (Error ''pushToken: can only push one token on between reads''), s)"
  by (simp add: pushToken_def)

theorem pushToken_full_slot_witness:
  "peeked ((init (token_stream []))\<lparr>peeked := Some (Tok TOKEN_SYMBOL ''a'' 0 0)\<rparr>)
     = Some (Tok TOKEN_SYMBOL ''a'' 0 0) \<and>
   pushToken (Some (Tok TOKEN_SYMBOL ''b'' 0 2))
       ((init (token_stream []))\<lparr>peeked := Some (Tok TOKEN_SYMBOL ''a'' 0 0)\<rparr>)
     = (Inl (Error ''pushToken: can only push one token on between reads''),
        (init (token_stream []))\<lparr>peeked := Some (Tok TOKEN_SYMBOL ''a'' 0 0)\<rparr>)"
  using pushToken_full_slot
    [of "(init (token_stream []))\<lparr>peeked := Some (Tok TOKEN_SYMBOL ''a'' 0 0)\<rparr>"
        "Tok TOKEN_SYMBOL ''a'' 0 0" "Some (Tok TOKEN_SYMBOL ''b'' 0 2)"]
  by simp

text \<open>
  C7 as the specification states it fails: the second push below does not end in a
  \<open>TemplateError\<close> with the message \<open>pushToken: can only push one token between reads\<close>.
\<close>

theorem pushToken_not_TemplateError:
  "\<not> raises_TemplateError ''pushToken: can only push one token between reads''
       (pushToken (Some (Tok TOKEN_SYMBOL ''b'' 0 2))
          ((init (token_stream []))\<lparr>peeked := Some (Tok TOKEN_SYMBOL ''a'' 0 0)\<rparr>))"
  by (simp add: raises_TemplateError_def pushToken_def)

lemma expect_matching:
  "nextToken False s = (Inr (Some t), s') \<Longrightarrow> ttype t = type \<Longrightarrow> expect type s = (Inr t, s')"
  by (simp add: expect_def bnd_def ret_def)

lemma expect_mismatch:
  "nextToken False s = (Inr (Some t), s') \<Longrightarrow> ttype t \<noteq> type \<Longrightarrow>
   expect type s =
     (Inl (TemplateError (''expected '' @ type_name type @ '', got '' @ type_name (ttype t))
             (Some (lineno t + 1)) (Some (colno t + 1))), s')"
  by (simp add: expect_def bnd_def fail_def tok_pos_def throw_def)

text \<open>
  C8.  On an exhausted token stream \<open>expect\<close> reads \<open>tok.type\<close> of \<open>null\<close>: the run ends
  in the runtime's \<open>TypeError\<close>, not in a \<open>TemplateError\<close> with the message
  \<open>unexpected end of file\<close>.  A template reaches this: \<open>{{ a |\<close> ends where
  \<open>parseFilterName\<close> expects the name of a filter.
\<close>

theorem expect_end_of_stream:
  "expect TOKEN_SYMBOL (init (token_stream [])) = (Inl TypeError, init (token_stream [])) \<and>
   \<not> raises_TemplateError ''unexpected end of file''
       (expect TOKEN_SYMBOL (init (token_stream []))) \<and>
   fst (parse_template 40 (token_stream open_filter_tokens) None) = Inl TypeError"
  by (simp add: open_filter_tokens_def raises_TemplateError_def run_simps)

section \<open>More fuel never changes a result\<close>

lemma fuel_le_refl: "fuel_le p p"
  by (simp add: fuel_le_def)

lemma fuel_le_throw: "fuel_le (throw OutOfFuel) q"
  by (simp add: fuel_le_def throw_def)

lemma fuel_le_bnd:
  assumes "fuel_le p p'" and "\<And>x. fuel_le (f x) (f' x)"
  shows "fuel_le (bnd p f) (bnd p' f')"
  unfolding fuel_le_def
proof (intro allI impI)
  fix s assume ne: "fst (bnd p f s) \<noteq> Inl OutOfFuel"
  obtain r s1 where ps: "p s = (r, s1)" by (cases "p s")
  show "bnd p' f' s = bnd p f s"
  proof (cases r)
    case (Inl e)
    with ps ne have "e \<noteq> OutOfFuel" by (simp add: bnd_def)
    with ps Inl assms(1) have "p' s = p s" by (simp add: fuel_le_def)
    with ps Inl show ?thesis by (simp add: bnd_def)
  next
    case (Inr x)
    with ps assms(1) have p': "p' s = p s" by (simp add: fuel_le_def)
    from ps Inr ne have "fst (f x s1) \<noteq> Inl OutOfFuel" by (simp add: bnd_def)
    with assms(2) have "f' x s1 = f x s1" by (simp add: fuel_le_def)
    with ps Inr p' show ?thesis by (simp add: bnd_def)
  qed
qed

lemma fuel_le_seq:
  "fuel_le p p' \<Longrightarrow> fuel_le q q' \<Longrightarrow> fuel_le (seq p q) (seq p' q')"
  unfolding seq_def by (rule fuel_le_bnd)

lemma fuel_le_if:
  "(c \<Longrightarrow> fuel_le p p') \<Longrightarrow> (\<not> c \<Longrightarrow> fuel_le q q') \<Longrightarrow>
   fuel_le (if c then p else q) (if c then p' else q')"
  by simp

lemma fuel_le_option:
  "fuel_le a a' \<Longrightarrow> (\<And>t. fuel_le (b t) (b' t)) \<Longrightarrow>
   fuel_le (case x of None \<Rightarrow> a | Some t \<Rightarrow> b t) (case x of None \<Rightarrow> a' | Some t \<Rightarrow> b' t)"
  by (cases x) simp_all

lemma fuel_le_list:
  "fuel_le a a' \<Longrightarrow> (\<And>y ys. fuel_le (b y ys) (b' y ys)) \<Longrightarrow>
   fuel_le (case x of [] \<Rightarrow> a | y # ys \<Rightarrow> b y ys) (case x of [] \<Rightarrow> a' | y # ys \<Rightarrow> b' y ys)"
  by (cases x) simp_all

lemma fuel_le_prod:
  "(\<And>a b. fuel_le (f a b) (f' a b)) \<Longrightarrow>
   fuel_le (case x of (a, b) \<Rightarrow> f a b) (case x of (a, b) \<Rightarrow> f' a b)"
  by (cases x) simp

lemma fuel_le_let:
  "(\<And>v. fuel_le (f v) (f' v)) \<Longrightarrow> fuel_le (Let x f) (Let x f')"
  by (simp add: Let_def)

lemma fuel_le_while_loop:
  "k \<le> k' \<Longrightarrow> (\<And>x. fuel_le (body x) (body' x)) \<Longrightarrow>
   fuel_le (while_loop k body x) (while_loop k' body' x)"
proof (induction k arbitrary: k' x)
  case 0
  show ?case by (simp add: fuel_le_throw)
next
  case (Suc k)
  then obtain j where k': "k' = Suc j" and "k \<le> j" by (cases k') auto
  have "fuel_le (case r of Inl x' \<Rightarrow> while_loop k body x' | Inr y \<Rightarrow> ret y)
          (case r of Inl x' \<Rightarrow> while_loop j body' x' | Inr y \<Rightarrow> ret y)" for r
    using Suc.IH [OF \<open>k \<le> j\<close> Suc.prems(2)] by (cases r) (simp_all add: fuel_le_refl)
  then show ?case
    unfolding k' while_loop.simps by (intro fuel_le_bnd Suc.prems(2))
qed

lemmas fuel_le_intros =
  fuel_le_refl fuel_le_throw fuel_le_bnd fuel_le_seq fuel_le_if fuel_le_option fuel_le_list
  fuel_le_prod fuel_le_let fuel_le_while_loop

lemma parseFilterName_mono: "n \<le> m \<Longrightarrow> fuel_le (parseFilterName n) (parseFilterName m)"
  unfolding parseFilterName_def by (intro fuel_le_intros) simp_all

lemma expr_mono_step:
  "\<forall>m. n \<le> m \<longrightarrow>
     (fuel_le (parseExpression n) (parseExpression m) \<and>
      fuel_le (parseInlineIf n) (parseInlineIf m) \<and>
      fuel_le (parseOr n) (parseOr m) \<and>
      fuel_le (parseAnd n) (parseAnd m) \<and>
      fuel_le (parseNot n) (parseNot m) \<and>
      fuel_le (parseIn n) (parseIn m) \<and>
      fuel_le (parseCompare n) (parseCompare m) \<and>
      fuel_le (parseConcat n) (parseConcat m) \<and>
      fuel_le (parseAdd n) (parseAdd m) \<and>
      fuel_le (parseSub n) (parseSub m) \<and>
      fuel_le (parseMul n) (parseMul m) \<and>
      fuel_le (parseDiv n) (parseDiv m) \<and>
      fuel_le (parseFloorDiv n) (parseFloorDiv m) \<and>
      fuel_le (parseMod n) (parseMod m) \<and>
      fuel_le (parsePow n) (parsePow m) \<and>
      (\<forall>a0. fuel_le (parseUnary n a0) (parseUnary m a0)) \<and>
      (\<forall>a0. fuel_le (parsePrimary n a0) (parsePrimary m a0)) \<and>
      (\<forall>a0. fuel_le (parsePostfix n a0) (parsePostfix m a0)) \<and>
      (\<forall>a0. fuel_le (parseFilterArgs n a0) (parseFilterArgs m a0)) \<and>
      (\<forall>a0. fuel_le (parseFilter n a0) (parseFilter m a0)) \<and>
      fuel_le (parseAggregate n) (parseAggregate m) \<and>
      (\<forall>a0 a1. fuel_le (parseSignature n a0 a1) (parseSignature m a0 a1)))"
proof (induction n)
  case 0
  show ?case by (simp add: fuel_le_throw)
next
  case (Suc n)
  show ?case
  proof (intro allI impI)
    fix m assume "Suc n \<le> m"
    then obtain j where m: "m = Suc j" and le: "n \<le> j" by (cases m) auto
    from Suc.IH [rule_format, OF le] have ih:
      "\<And>u::unit. fuel_le (parseExpression n ) (parseExpression j )"
      "\<And>u::unit. fuel_le (parseInlineIf n ) (parseInlineIf j )"
      "\<And>u::unit. fuel_le (parseOr n ) (parseOr j )"
      "\<And>u::unit. fuel_le (parseAnd n ) (parseAnd j )"
      "\<And>u::unit. fuel_le (parseNot n ) (parseNot j )"
      "\<And>u::unit. fuel_le (parseIn n ) (parseIn j )"
      "\<And>u::unit. fuel_le (parseCompare n ) (parseCompare j )"
      "\<And>u::unit. fuel_le (parseConcat n ) (parseConcat j )"
      "\<And>u::unit. fuel_le (parseAdd n ) (parseAdd j )"
      "\<And>u::unit. fuel_le (parseSub n ) (parseSub j )"
      "\<And>u::unit. fuel_le (parseMul n ) (parseMul j )"
      "\<And>u::unit. fuel_le (parseDiv n ) (parseDiv j )"
      "\<And>u::unit. fuel_le (parseFloorDiv n ) (parseFloorDiv j )"
      "\<And>u::unit. fuel_le (parseMod n ) (parseMod j )"
      "\<And>u::unit. fuel_le (parsePow n ) (parsePow j )"
      "\<And>a0. fuel_le (parseUnary n a0) (parseUnary j a0)"
      "\<And>a0. fuel_le (parsePrimary n a0) (parsePrimary j a0)"
      "\<And>a0. fuel_le (parsePostfix n a0) (parsePostfix j a0)"
      "\<And>a0. fuel_le (parseFilterArgs n a0) (parseFilterArgs j a0)"
      "\<And>a0. fuel_le (parseFilter n a0) (parseFilter j a0)"
      "\<And>u::unit. fuel_le (parseAggregate n ) (parseAggregate j )"
      "\<And>a0 a1. fuel_le (parseSignature n a0 a1) (parseSignature j a0 a1)"
      by simp_all
    show "fuel_le (parseExpression (Suc n)) (parseExpression m) \<and>
      fuel_le (parseInlineIf (Suc n)) (parseInlineIf m) \<and>
      fuel_le (parseOr (Suc n)) (parseOr m) \<and>
      fuel_le (parseAnd (Suc n)) (parseAnd m) \<and>
      fuel_le (parseNot (Suc n)) (parseNot m) \<and>
      fuel_le (parseIn (Suc n)) (parseIn m) \<and>
      fuel_le (parseCompare (Suc n)) (parseCompare m) \<and>
      fuel_le (parseConcat (Suc n)) (parseConcat m) \<and>
      fuel_le (parseAdd (Suc n)) (parseAdd m) \<and>
      fuel_le (parseSub (Suc n)) (parseSub m) \<and>
      fuel_le (parseMul (Suc n)) (parseMul m) \<and>
      fuel_le (parseDiv (Suc n)) (parseDiv m) \<and>
      fuel_le (parseFloorDiv (Suc n)) (parseFloorDiv m) \<and>
      fuel_le (parseMod (Suc n)) (parseMod m) \<and>
      fuel_le (parsePow (Suc n)) (parsePow m) \<and>
      (\<forall>a0. fuel_le (parseUnary (Suc n) a0) (parseUnary m a0)) \<and>
      (\<forall>a0. fuel_le (parsePrimary (Suc n) a0) (parsePrimary m a0)) \<and>
      (\<forall>a0. fuel_le (parsePostfix (Suc n) a0) (parsePostfix m a0)) \<and>
      (\<forall>a0. fuel_le (parseFilterArgs (Suc n) a0) (parseFilterArgs m a0)) \<and>
      (\<forall>a0. fuel_le (parseFilter (Suc n) a0) (parseFilter m a0)) \<and>
      fuel_le (parseAggregate (Suc n)) (parseAggregate m) \<and>
      (\<forall>a0 a1. fuel_le (parseSignature (Suc n) a0 a1) (parseSignature m a0 a1))"
      unfolding m
    proof (intro conjI allI)
      show "fuel_le (parseExpression (Suc n) ) (parseExpression (Suc j) )"
        unfolding parseExpression.simps by (intro fuel_le_intros ih le parseFilterName_mono)
    next
      show "fuel_le (parseInlineIf (Suc n) ) (parseInlineIf (Suc j) )"
        unfolding parseInlineIf.simps by (intro fuel_le_intros ih le parseFilterName_mono)
    next
      show "fuel_le (parseOr (Suc n) ) (parseOr (Suc j) )"
        unfolding parseOr.simps by (intro fuel_le_intros ih le parseFilterName_mono)
    next
      show "fuel_le (parseAnd (Suc n) ) (parseAnd (Suc j) )"
        unfolding parseAnd.simps by (intro fuel_le_intros ih le parseFilterName_mono)
    next
      show "fuel_le (parseNot (Suc n) ) (parseNot (Suc j) )"
        unfolding parseNot.simps by (intro fuel_le_intros ih le parseFilterName_mono)
    next
      show "fuel_le (parseIn (Suc n) ) (parseIn (Suc j) )"
        unfolding parseIn.simps by (intro fuel_le_intros ih le parseFilterName_mono)
    next
      show "fuel_le (parseCompare (Suc n) ) (parseCompare (Suc j) )"
        unfolding parseCompare.simps by (intro fuel_le_intros ih le parseFilterName_mono)
    next
      show "fuel_le (parseConcat (Suc n) ) (parseConcat (Suc j) )"
        unfolding parseConcat.simps by (intro fuel_le_intros ih le parseFilterName_mono)
    next
      show "fuel_le (parseAdd (Suc n) ) (parseAdd (Suc j) )"
        unfolding parseAdd.simps by (intro fuel_le_intros ih le parseFilterName_mono)
    next
      show "fuel_le (parseSub (Suc n) ) (parseSub (Suc j) )"
        unfolding parseSub.simps by (intro fuel_le_intros ih le parseFilterName_mono)
    next
      show "fuel_le (parseMul (Suc n) ) (parseMul (Suc j) )"
        unfolding parseMul.simps by (intro fuel_le_intros ih le parseFilterName_mono)
    next
      show "fuel_le (parseDiv (Suc n) ) (parseDiv (Suc j) )"
        unfolding parseDiv.simps by (intro fuel_le_intros ih le parseFilterName_mono)
    next
      show "fuel_le (parseFloorDiv (Suc n) ) (parseFloorDiv (Suc j) )"
        unfolding parseFloorDiv.simps by (intro fuel_le_intros ih le parseFilterName_mono)
    next
      show "fuel_le (parseMod (Suc n) ) (parseMod (Suc j) )"
        unfolding parseMod.simps by (intro fuel_le_intros ih le parseFilterName_mono)
    next
      show "fuel_le (parsePow (Suc n) ) (parsePow (Suc j) )"
        unfolding parsePow.simps by (intro fuel_le_intros ih le parseFilterName_mono)
    next
      fix a0
      show "fuel_le (parseUnary (Suc n) a0) (parseUnary (Suc j) a0)"
        unfolding parseUnary.simps by (intro fuel_le_intros ih le parseFilterName_mono)
    next
      fix a0
      show "fuel_le (parsePrimary (Suc n) a0) (parsePrimary (Suc j) a0)"
        unfolding parsePrimary.simps by (intro fuel_le_intros ih le parseFilterName_mono)
    next
      fix a0
      show "fuel_le (parsePostfix (Suc n) a0) (parsePostfix (Suc j) a0)"
        unfolding parsePostfix.simps by (intro fuel_le_intros ih le parseFilterName_mono)
    next
      fix a0
      show "fuel_le (parseFilterArgs (Suc n) a0) (parseFilterArgs (Suc j) a0)"
        unfolding parseFilterArgs.simps by (intro fuel_le_intros ih le parseFilterName_mono)
    next
      fix a0
      show "fuel_le (parseFilter (Suc n) a0) (parseFilter (Suc j) a0)"
        unfolding parseFilter.simps by (intro fuel_le_intros ih le parseFilterName_mono)
    next
      show "fuel_le (parseAggregate (Suc n) ) (parseAggregate (Suc j) )"
        unfolding parseAggregate.simps by (intro fuel_le_intros ih le parseFilterName_mono)
    next
      fix a0 a1
      show "fuel_le (parseSignature (Suc n) a0 a1) (parseSignature (Suc j) a0 a1)"
        unfolding parseSignature.simps by (intro fuel_le_intros ih le parseFilterName_mono)
    qed
  qed
qed

lemma expr_mono:
  assumes "n \<le> m"
  shows
    "fuel_le (parseExpression n ) (parseExpression m )"
    "fuel_le (parseInlineIf n ) (parseInlineIf m )"
    "fuel_le (parseOr n ) (parseOr m )"
    "fuel_le (parseAnd n ) (parseAnd m )"
    "fuel_le (parseNot n ) (parseNot m )"
    "fuel_le (parseIn n ) (parseIn m )"
    "fuel_le (parseCompare n ) (parseCompare m )"
    "fuel_le (parseConcat n ) (parseConcat m )"
    "fuel_le (parseAdd n ) (parseAdd m )"
    "fuel_le (parseSub n ) (parseSub m )"
    "fuel_le (parseMul n ) (parseMul m )"
    "fuel_le (parseDiv n ) (parseDiv m )"
    "fuel_le (parseFloorDiv n ) (parseFloorDiv m )"
    "fuel_le (parseMod n ) (parseMod m )"
    "fuel_le (parsePow n ) (parsePow m )"
    "fuel_le (parseUnary n a0_unary) (parseUnary m a0_unary)"
    "fuel_le (parsePrimary n a0_primary) (parsePrimary m a0_primary)"
    "fuel_le (parsePostfix n a0_postfix) (parsePostfix m a0_postfix)"
    "fuel_le (parseFilterArgs n a0_filterargs) (parseFilterArgs m a0_filterargs)"
    "fuel_le (parseFilter n a0_filter) (parseFilter m a0_filter)"
    "fuel_le (parseAggregate n ) (parseAggregate m )"
    "fuel_le (parseSignature n a0_signature a1_signature) (parseSignature m a0_signature a1_signature)"
  using expr_mono_step [rule_format, OF assms] by simp_all

lemma parseImport_mono: "n \<le> m \<Longrightarrow> fuel_le (parseImport n) (parseImport m)"
  unfolding parseImport_def by (intro fuel_le_intros expr_mono)

lemma parseFrom_mono: "n \<le> m \<Longrightarrow> fuel_le (parseFrom n) (parseFrom m)"
  unfolding parseFrom_def by (intro fuel_le_intros expr_mono)

lemma parseExtends_mono: "n \<le> m \<Longrightarrow> fuel_le (parseExtends n) (parseExtends m)"
  unfolding parseExtends_def by (intro fuel_le_intros expr_mono)

lemma parseInclude_mono: "n \<le> m \<Longrightarrow> fuel_le (parseInclude n) (parseInclude m)"
  unfolding parseInclude_def by (intro fuel_le_intros expr_mono)

lemma parseRaw_mono: "n \<le> m \<Longrightarrow> fuel_le (parseRaw n t) (parseRaw m t)"
  unfolding parseRaw_def by (intro fuel_le_intros)

lemmas routine_mono =
  parseFilterName_mono expr_mono parseImport_mono parseFrom_mono parseExtends_mono
  parseInclude_mono parseRaw_mono

lemma stmt_mono_step:
  "\<forall>m. n \<le> m \<longrightarrow>
     (fuel_le (parseNodes n) (parseNodes m) \<and>
      fuel_le (parse n) (parse m) \<and>
      (\<forall>a0. fuel_le (parseUntilBlocks n a0) (parseUntilBlocks m a0)) \<and>
      fuel_le (parseStatement n) (parseStatement m) \<and>
      fuel_le (parseIf n) (parseIf m) \<and>
      fuel_le (parseFor n) (parseFor m) \<and>
      fuel_le (parseBlock n) (parseBlock m) \<and>
      fuel_le (parseSet n) (parseSet m) \<and>
      fuel_le (parseMacro n) (parseMacro m) \<and>
      fuel_le (parseCall n) (parseCall m) \<and>
      fuel_le (parseFilterStatement n) (parseFilterStatement m))"
proof (induction n)
  case 0
  show ?case by (simp add: fuel_le_throw)
next
  case (Suc n)
  show ?case
  proof (intro allI impI)
    fix m assume "Suc n \<le> m"
    then obtain j where m: "m = Suc j" and le: "n \<le> j" by (cases m) auto
    from Suc.IH [rule_format, OF le] have ih:
      "\<And>u::unit. fuel_le (parseNodes n ) (parseNodes j )"
      "\<And>u::unit. fuel_le (parse n ) (parse j )"
      "\<And>a0. fuel_le (parseUntilBlocks n a0) (parseUntilBlocks j a0)"
      "\<And>u::unit. fuel_le (parseStatement n ) (parseStatement j )"
      "\<And>u::unit. fuel_le (parseIf n ) (parseIf j )"
      "\<And>u::unit. fuel_le (parseFor n ) (parseFor j )"
      "\<And>u::unit. fuel_le (parseBlock n ) (parseBlock j )"
      "\<And>u::unit. fuel_le (parseSet n ) (parseSet j )"
      "\<And>u::unit. fuel_le (parseMacro n ) (parseMacro j )"
      "\<And>u::unit. fuel_le (parseCall n ) (parseCall j )"
      "\<And>u::unit. fuel_le (parseFilterStatement n ) (parseFilterStatement j )"
      by simp_all
    show "fuel_le (parseNodes (Suc n)) (parseNodes m) \<and>
      fuel_le (parse (Suc n)) (parse m) \<and>
      (\<forall>a0. fuel_le (parseUntilBlocks (Suc n) a0) (parseUntilBlocks m a0)) \<and>
      fuel_le (parseStatement (Suc n)) (parseStatement m) \<and>
      fuel_le (parseIf (Suc n)) (parseIf m) \<and>
      fuel_le (parseFor (Suc n)) (parseFor m) \<and>
      fuel_le (parseBlock (Suc n)) (parseBlock m) \<and>
      fuel_le (parseSet (Suc n)) (parseSet m) \<and>
      fuel_le (parseMacro (Suc n)) (parseMacro m) \<and>
      fuel_le (parseCall (Suc n)) (parseCall m) \<and>
      fuel_le (parseFilterStatement (Suc n)) (parseFilterStatement m)"
      unfolding m
    proof (intro conjI allI)
      show "fuel_le (parseNodes (Suc n) ) (parseNodes (Suc j) )"
        unfolding parseNodes.simps by (intro fuel_le_intros ih le routine_mono)
    next
      show "fuel_le (parse (Suc n) ) (parse (Suc j) )"
        unfolding parse.simps by (intro fuel_le_intros ih le routine_mono)
    next
      fix a0
      show "fuel_le (parseUntilBlocks (Suc n) a0) (parseUntilBlocks (Suc j) a0)"
        unfolding parseUntilBlocks.simps by (intro fuel_le_intros ih le routine_mono)
    next
      show "fuel_le (parseStatement (Suc n) ) (parseStatement (Suc j) )"
        unfolding parseStatement.simps by (intro fuel_le_intros ih le routine_mono)
    next
      show "fuel_le (parseIf (Suc n) ) (parseIf (Suc j) )"
        unfolding parseIf.simps by (intro fuel_le_intros ih le routine_mono)
    next
      show "fuel_le (parseFor (Suc n) ) (parseFor (Suc j) )"
        unfolding parseFor.simps by (intro fuel_le_intros ih le routine_mono)
    next
      show "fuel_le (parseBlock (Suc n) ) (parseBlock (Suc j) )"
        unfolding parseBlock.simps by (intro fuel_le_intros ih le routine_mono)
    next
      show "fuel_le (parseSet (Suc n) ) (parseSet (Suc j) )"
        unfolding parseSet.simps by (intro fuel_le_intros ih le routine_mono)
    next
      show "fuel_le (parseMacro (Suc n) ) (parseMacro (Suc j) )"
        unfolding parseMacro.simps by (intro fuel_le_intros ih le routine_mono)
    next
      show "fuel_le (parseCall (Suc n) ) (parseCall (Suc j) )"
        unfolding parseCall.simps by (intro fuel_le_intros ih le routine_mono)
    next
      show "fuel_le (parseFilterStatement (Suc n) ) (parseFilterStatement (Suc j) )"
        unfolding parseFilterStatement.simps by (intro fuel_le_intros ih le routine_mono)
    qed
  qed
qed

lemma stmt_mono:
  assumes "n \<le> m"
  shows
    "fuel_le (parseNodes n ) (parseNodes m )"
    "fuel_le (parse n ) (parse m )"
    "fuel_le (parseUntilBlocks n a0_untilblocks) (parseUntilBlocks m a0_untilblocks)"
    "fuel_le (parseStatement n ) (parseStatement m )"
    "fuel_le (parseIf n ) (parseIf m )"
    "fuel_le (parseFor n ) (parseFor m )"
    "fuel_le (parseBlock n ) (parseBlock m )"
    "fuel_le (parseSet n ) (parseSet m )"
    "fuel_le (parseMacro n ) (parseMacro m )"
    "fuel_le (parseCall n ) (parseCall m )"
    "fuel_le (parseFilterStatement n ) (parseFilterStatement m )"
  using stmt_mono_step [rule_format, OF assms] by simp_all

lemma parseAsRoot_mono: "n \<le> m \<Longrightarrow> fuel_le (parseAsRoot n) (parseAsRoot m)"
  unfolding parseAsRoot_def by (intro fuel_le_intros stmt_mono)

text \<open>
  A result reached with some fuel, other than \<open>OutOfFuel\<close>, is the result with any
  larger amount of fuel.
\<close>

lemma more_fuel:
  "fuel_le p q \<Longrightarrow> p s = (r, s') \<Longrightarrow> r \<noteq> Inl OutOfFuel \<Longrightarrow> q s = (r, s')"
  by (simp add: fuel_le_def)

lemma parse_template_more_fuel:
  "n \<le> m \<Longrightarrow> fst (parse_template n lx exts) \<noteq> Inl OutOfFuel \<Longrightarrow>
   parse_template m lx exts = parse_template n lx exts"
  using parseAsRoot_mono [of n m] by (simp add: parse_template_def fuel_le_def)

section \<open>Lookahead\<close>

text \<open>
  What \<open>skipValue\<close> does, told from what \<open>peekToken\<close> shows.  The pushback slot never
  holds a whitespace token in a run of the parser, which reads with \<open>nextToken()\<close> only;
  the lemmas ask for it where it matters.
\<close>

lemma skip_whitespace_None:
  "skip_whitespace t ts = (None, ts') \<Longrightarrow> t \<noteq> None \<Longrightarrow> ts' = []"
  by (induction t ts rule: skip_whitespace.induct) (auto split: if_splits)

lemma skip_whitespace_other:
  "ttype t \<noteq> TOKEN_WHITESPACE \<Longrightarrow> skip_whitespace (Some t) ts = (Some t, ts)"
  by (cases ts) simp_all

lemma read_lexer_None:
  "read_lexer False s = (Inr None, s') \<Longrightarrow> peeked s' = peeked s \<and> pending (tokens s') = []"
  by (auto simp: read_lexer_def bnd_def lexer_nextToken_def
           split: list.splits prod.splits dest: skip_whitespace_None)

lemma read_lexer_peeked: "read_lexer w s = (r, s') \<Longrightarrow> peeked s' = peeked s"
  by (auto simp: read_lexer_def bnd_def lexer_nextToken_def ret_def
           split: list.splits prod.splits if_splits)

lemma read_lexer_empty:
  "pending (tokens s) = [] \<Longrightarrow> read_lexer False s = (Inr None, s)"
  by (simp add: read_lexer_def bnd_def lexer_nextToken_def)

lemma peekToken_Some:
  "peekToken s = (Inr (Some t), s') \<Longrightarrow> peeked s' = Some t"
  by (auto simp: peekToken_def split: option.splits prod.splits sum.splits)

lemma peekToken_None:
  "peekToken s = (Inr None, s') \<Longrightarrow> peeked s' = None \<and> pending (tokens s') = []"
  by (auto simp: peekToken_def nextToken_def split: option.splits prod.splits sum.splits
           dest: read_lexer_None)

lemma peekToken_idem: "peekToken s = (Inr r, s') \<Longrightarrow> peekToken s' = (Inr r, s')"
proof (cases r)
  case None
  assume "peekToken s = (Inr r, s')"
  with None have "peeked s' = None" "pending (tokens s') = []"
    using peekToken_None by blast+
  then have "peekToken s' = (Inr None, s')"
    by (simp add: peekToken_def nextToken_def read_lexer_empty)
  with None show ?thesis by simp
next
  case (Some t)
  assume "peekToken s = (Inr r, s')"
  with Some have "peeked s' = Some t" using peekToken_Some by blast
  with Some show ?thesis by (simp add: peekToken_def)
qed

lemma nextToken_after_peek:
  assumes "peekToken s = (Inr (Some t), s')" and "ttype t \<noteq> TOKEN_WHITESPACE"
  shows "nextToken False s = (Inr (Some t), s'\<lparr>peeked := None\<rparr>)"
proof (cases "peeked s")
  case None
  obtain r s1 where nt: "nextToken False s = (r, s1)" by (cases "nextToken False s")
  with None have "peeked s1 = None"
    using read_lexer_peeked [of False s r s1] by (simp add: nextToken_def)
  with assms None nt show ?thesis
    by (auto simp: peekToken_def split: sum.splits)
next
  case (Some p)
  with assms show ?thesis by (auto simp: peekToken_def nextToken_def)
qed

lemma nextToken_after_peek_None:
  assumes "peekToken s = (Inr None, s')"
  shows "nextToken False s = (Inr None, s')"
proof -
  from assms have "peeked s = None" by (auto simp: peekToken_def split: option.splits)
  obtain r s1 where nt: "nextToken False s = (r, s1)" by (cases "nextToken False s")
  with \<open>peeked s = None\<close> have "peeked s1 = None"
    using read_lexer_peeked [of False s r s1] by (simp add: nextToken_def)
  with assms \<open>peeked s = None\<close> nt show ?thesis
    by (auto simp: peekToken_def split: sum.splits)
qed

lemma skipValue_hit:
  assumes "peekToken s = (Inr (Some t), s')" and "ttype t = ty" and "tvalue t = Str v"
    and "ty \<noteq> TOKEN_WHITESPACE"
  shows "skipValue ty v s = (Inr True, s'\<lparr>peeked := None\<rparr>)"
  using nextToken_after_peek [OF assms(1)] assms(2-)
  by (simp add: skipValue_def bnd_def ret_def)

lemma skipValue_miss:
  assumes "peekToken s = (Inr (Some t), s')" and "ttype t \<noteq> TOKEN_WHITESPACE"
    and "ttype t \<noteq> ty \<or> tvalue t \<noteq> Str v"
  shows "skipValue ty v s = (Inr False, s')"
proof -
  have "s'\<lparr>peeked := Some t\<rparr> = s'" using peekToken_Some [OF assms(1)] by simp
  with nextToken_after_peek [OF assms(1,2)] assms(3) show ?thesis
    by (auto simp: skipValue_def bnd_def seq_def ret_def pushToken_def)
qed

lemma skipValue_end:
  assumes "peekToken s = (Inr None, s')"
  shows "skipValue ty v s = (Inr False, s')"
proof -
  have "s'\<lparr>peeked := None\<rparr> = s'" using peekToken_None [OF assms] by simp
  with nextToken_after_peek_None [OF assms] peekToken_None [OF assms] show ?thesis
    by (simp add: skipValue_def bnd_def seq_def ret_def pushToken_def)
qed

text \<open>\<open>peekToken\<close> and \<open>fail\<close>: the one always returns, the other always throws.\<close>

lemma nextToken_latch:
  "nextToken w a = (r, b) \<Longrightarrow> dropLeadingWhitespace b = dropLeadingWhitespace a"
  by (auto simp: nextToken_def read_lexer_def bnd_def ret_def lexer_nextToken_def
           split: option.splits if_splits list.splits prod.splits)

lemma peekToken_latch:
  "peekToken a = (r, b) \<Longrightarrow> dropLeadingWhitespace b = dropLeadingWhitespace a"
  by (auto simp: peekToken_def split: option.splits prod.splits sum.splits
           dest: nextToken_latch)

lemma peekToken_returns: "\<exists>r s'. peekToken s = (Inr r, s')"
  using nextToken_returns [of False s]
  by (auto simp: peekToken_def split: option.splits)

lemma fail_throws: "\<exists>a b s'. fail msg pos s = (Inl (TemplateError msg a b), s')"
  using peekToken_returns [of s]
  by (auto simp: fail_def bnd_def throw_def split: option.splits)

lemma fail_not_Inr: "fail msg pos s \<noteq> (Inr x, s')"
  using peekToken_returns [of s]
  by (auto simp: fail_def bnd_def throw_def split: option.splits)

lemma bnd_Inr:
  "bnd m f s = (Inr x, s') \<Longrightarrow> \<exists>y s1. m s = (Inr y, s1) \<and> f y s1 = (Inr x, s')"
  by (auto simp: bnd_def split: prod.splits sum.splits)

text \<open>
  \<open>parsePrimary\<close> never returns \<open>null\<close> or \<open>undefined\<close>: the nodes whose position the
  expression routines read are nodes.
\<close>

lemma parsePrimary_truthy:
  assumes "parsePrimary n noPostfix s = (Inr nd, s')"
  shows "truthy nd"
proof (cases n)
  case 0
  with assms show ?thesis by (simp add: throw_def)
next
  case (Suc k)
  from assms [unfolded Suc parsePrimary.simps] obtain tok s1 where
    "(case tok of
         None \<Rightarrow> fail ''expected expression, got end of file'' None
       | Some t \<Rightarrow>
           bnd (literal_val t) (\<lambda>val.
           bnd (case val of
                  Some v \<Rightarrow> ret (Literal (tok_pos t) v)
                | None \<Rightarrow>
                    if ttype t = TOKEN_SYMBOL
                    then ret (Symbol (tok_pos t) (to_string (tvalue t)))
                    else seq (pushToken tok) (parseAggregate k)) (\<lambda>node.
           bnd (if \<not> noPostfix then parsePostfix k node else ret node) (\<lambda>node.
             if truthy node then ret node
             else fail (''unexpected token: '' @ to_string (tvalue t)) (tok_pos t))))) s1
     = (Inr nd, s')"
    by (blast dest: bnd_Inr)
  then obtain t s2 node where
    "(if truthy node then ret node
      else fail (''unexpected token: '' @ to_string (tvalue t)) (tok_pos t)) s2 = (Inr nd, s')"
    by (cases tok) (auto simp: fail_not_Inr dest!: bnd_Inr)
  then show ?thesis
    by (cases "truthy node") (auto simp: ret_def fail_not_Inr)
qed
section \<open>Addition and subtraction\<close>

lemma parseSub_unfold: "parseSub (Suc n) = bnd (parseMul n) (while_loop n (sub_body n))"
  by (simp add: sub_body_def)

lemma parseAdd_unfold: "parseAdd (Suc n) = bnd (parseSub n) (while_loop n (add_body n))"
  by (simp add: add_body_def)

lemma parseMul_fuel: "parseMul n s = (Inr a, s') \<Longrightarrow> 3 \<le> n"
proof (rule ccontr)
  assume r: "parseMul n s = (Inr a, s')" and "\<not> 3 \<le> n"
  then have "n = 0 \<or> n = Suc 0 \<or> n = Suc (Suc 0)" by arith
  with r show False by (auto simp: bnd_def throw_def)
qed

lemma sub_loop_stop:
  assumes "peekToken s = (Inr r, s')"
    and "case r of None \<Rightarrow> True | Some t \<Rightarrow> ttype t \<noteq> TOKEN_WHITESPACE \<and> \<not> is_op ''-'' t"
    and "0 < k"
  shows "while_loop k (sub_body n) node s = (Inr node, s')"
proof -
  have "skipValue TOKEN_OPERATOR ''-'' s = (Inr False, s')"
  proof (cases r)
    case None
    with assms(1) show ?thesis by (simp add: skipValue_end)
  next
    case (Some t)
    with assms show ?thesis
      by (intro skipValue_miss [where t = t]) (auto simp: is_op_def)
  qed
  moreover obtain j where "k = Suc j" using assms(3) by (cases k) auto
  ultimately show ?thesis by (simp add: sub_body_def bnd_def ret_def)
qed

lemma sub_loop_step:
  assumes "peekToken s = (Inr (Some t), s')" and "is_op ''-'' t"
    and "parseMul n (s'\<lparr>peeked := None\<rparr>) = (Inr b, s2)" and "0 < k"
  shows "while_loop k (sub_body n) node s
       = while_loop (k - 1) (sub_body n) (Sub (node_pos node) node b) s2"
proof -
  from assms(1,2) have "skipValue TOKEN_OPERATOR ''-'' s = (Inr True, s'\<lparr>peeked := None\<rparr>)"
    by (intro skipValue_hit [where t = t]) (auto simp: is_op_def)
  moreover obtain j where "k = Suc j" using assms(4) by (cases k) auto
  ultimately show ?thesis using assms(3)
    by (simp add: sub_body_def [of n] bnd_def ret_def)
qed

lemma add_loop_stop:
  assumes "peekToken s = (Inr r, s')"
    and "case r of None \<Rightarrow> True | Some t \<Rightarrow> ttype t \<noteq> TOKEN_WHITESPACE \<and> \<not> is_op ''+'' t"
    and "0 < k"
  shows "while_loop k (add_body m) node s = (Inr node, s')"
proof -
  have "skipValue TOKEN_OPERATOR ''+'' s = (Inr False, s')"
  proof (cases r)
    case None
    with assms(1) show ?thesis by (simp add: skipValue_end)
  next
    case (Some t)
    with assms show ?thesis
      by (intro skipValue_miss [where t = t]) (auto simp: is_op_def)
  qed
  moreover obtain j where "k = Suc j" using assms(3) by (cases k) auto
  ultimately show ?thesis by (simp add: add_body_def bnd_def ret_def)
qed

lemma add_loop_step:
  assumes "peekToken s = (Inr (Some t), s')" and "is_op ''+'' t"
    and "parseSub m (s'\<lparr>peeked := None\<rparr>) = (Inr b, s2)" and "0 < k"
  shows "while_loop k (add_body m) node s
       = while_loop (k - 1) (add_body m) (Add (node_pos node) node b) s2"
proof -
  from assms(1,2) have "skipValue TOKEN_OPERATOR ''+'' s = (Inr True, s'\<lparr>peeked := None\<rparr>)"
    by (intro skipValue_hit [where t = t]) (auto simp: is_op_def)
  moreover obtain j where "k = Suc j" using assms(4) by (cases k) auto
  ultimately show ?thesis using assms(3)
    by (simp add: add_body_def [of m] bnd_def ret_def)
qed

text \<open>\<open>parseSub\<close> on one, two and three operands of the next level.\<close>

lemma parseSub_one:
  assumes "parseMul n s0 = (Inr a, s1)" and "peekToken s1 = (Inr r, s1')"
    and "case r of None \<Rightarrow> True | Some t \<Rightarrow> ttype t \<noteq> TOKEN_WHITESPACE \<and> \<not> is_op ''-'' t"
  shows "parseSub (Suc n) s0 = (Inr a, s1')"
proof -
  from parseMul_fuel [OF assms(1)] have n: "0 < n" by simp
  have "parseSub (Suc n) s0 = while_loop n (sub_body n) a s1"
    by (simp only: parseSub_unfold bnd_def assms(1) prod.case sum.case)
  also have "\<dots> = (Inr a, s1')" by (rule sub_loop_stop [OF assms(2,3) n])
  finally show ?thesis .
qed

lemma parseSub_two:
  assumes "parseMul n s0 = (Inr a, s1)"
    and "peekToken s1 = (Inr (Some t1), s1')" and "is_op ''-'' t1"
    and "parseMul n (s1'\<lparr>peeked := None\<rparr>) = (Inr b, s2)"
    and "peekToken s2 = (Inr r, s2')"
    and "case r of None \<Rightarrow> True | Some t \<Rightarrow> ttype t \<noteq> TOKEN_WHITESPACE \<and> \<not> is_op ''-'' t"
  shows "parseSub (Suc n) s0 = (Inr (Sub (node_pos a) a b), s2')"
proof -
  from parseMul_fuel [OF assms(1)] have n: "0 < n" "0 < n - 1" by simp_all
  have "parseSub (Suc n) s0 = while_loop n (sub_body n) a s1"
    by (simp only: parseSub_unfold bnd_def assms(1) prod.case sum.case)
  also have "\<dots> = while_loop (n - 1) (sub_body n) (Sub (node_pos a) a b) s2"
    by (rule sub_loop_step [OF assms(2,3,4) n(1)])
  also have "\<dots> = (Inr (Sub (node_pos a) a b), s2')"
    by (rule sub_loop_stop [OF assms(5,6) n(2)])
  finally show ?thesis .
qed

lemma parseSub_three:
  assumes "parseMul n s0 = (Inr a, s1)"
    and "peekToken s1 = (Inr (Some t1), s1')" and "is_op ''-'' t1"
    and "parseMul n (s1'\<lparr>peeked := None\<rparr>) = (Inr b, s2)"
    and "peekToken s2 = (Inr (Some t2), s2')" and "is_op ''-'' t2"
    and "parseMul n (s2'\<lparr>peeked := None\<rparr>) = (Inr c, s3)"
    and "peekToken s3 = (Inr r, s3')"
    and "case r of None \<Rightarrow> True | Some t \<Rightarrow> ttype t \<noteq> TOKEN_WHITESPACE \<and> \<not> is_op ''-'' t"
  shows "parseSub (Suc n) s0 = (Inr (Sub (node_pos a) (Sub (node_pos a) a b) c), s3')"
proof -
  from parseMul_fuel [OF assms(1)] have n: "0 < n" "0 < n - 1" "0 < n - 1 - 1" by simp_all
  have "parseSub (Suc n) s0 = while_loop n (sub_body n) a s1"
    by (simp only: parseSub_unfold bnd_def assms(1) prod.case sum.case)
  also have "\<dots> = while_loop (n - 1) (sub_body n) (Sub (node_pos a) a b) s2"
    by (rule sub_loop_step [OF assms(2,3,4) n(1)])
  also have "\<dots> = while_loop (n - 1 - 1) (sub_body n)
                     (Sub (node_pos (Sub (node_pos a) a b)) (Sub (node_pos a) a b) c) s3"
    by (rule sub_loop_step [OF assms(5,6,7) n(2)])
  also have "\<dots> = (Inr (Sub (node_pos (Sub (node_pos a) a b)) (Sub (node_pos a) a b) c), s3')"
    by (rule sub_loop_stop [OF assms(8,9) n(3)])
  finally show ?thesis by simp
qed

text \<open>\<open>parseAdd\<close> on one, two and three operands of the next level.\<close>

lemma parseAdd_one:
  assumes "parseSub m s0 = (Inr a, s1)" and "peekToken s1 = (Inr r, s1')"
    and "case r of None \<Rightarrow> True | Some t \<Rightarrow> ttype t \<noteq> TOKEN_WHITESPACE \<and> \<not> is_op ''+'' t"
    and "0 < m"
  shows "parseAdd (Suc m) s0 = (Inr a, s1')"
proof -
  have "parseAdd (Suc m) s0 = while_loop m (add_body m) a s1"
    by (simp only: parseAdd_unfold bnd_def assms(1) prod.case sum.case)
  also have "\<dots> = (Inr a, s1')" by (rule add_loop_stop [OF assms(2,3,4)])
  finally show ?thesis .
qed

lemma parseAdd_two:
  assumes "parseSub m s0 = (Inr a, s1)"
    and "peekToken s1 = (Inr (Some t1), s1')" and "is_op ''+'' t1"
    and "parseSub m (s1'\<lparr>peeked := None\<rparr>) = (Inr b, s2)"
    and "peekToken s2 = (Inr r, s2')"
    and "case r of None \<Rightarrow> True | Some t \<Rightarrow> ttype t \<noteq> TOKEN_WHITESPACE \<and> \<not> is_op ''+'' t"
    and "1 < m"
  shows "parseAdd (Suc m) s0 = (Inr (Add (node_pos a) a b), s2')"
proof -
  from assms(7) have m: "0 < m" "0 < m - 1" by simp_all
  have "parseAdd (Suc m) s0 = while_loop m (add_body m) a s1"
    by (simp only: parseAdd_unfold bnd_def assms(1) prod.case sum.case)
  also have "\<dots> = while_loop (m - 1) (add_body m) (Add (node_pos a) a b) s2"
    by (rule add_loop_step [OF assms(2,3,4) m(1)])
  also have "\<dots> = (Inr (Add (node_pos a) a b), s2')"
    by (rule add_loop_stop [OF assms(5,6) m(2)])
  finally show ?thesis .
qed

lemma parseAdd_three:
  assumes "parseSub m s0 = (Inr a, s1)"
    and "peekToken s1 = (Inr (Some t1), s1')" and "is_op ''+'' t1"
    and "parseSub m (s1'\<lparr>peeked := None\<rparr>) = (Inr b, s2)"
    and "peekToken s2 = (Inr (Some t2), s2')" and "is_op ''+'' t2"
    and "parseSub m (s2'\<lparr>peeked := None\<rparr>) = (Inr c, s3)"
    and "peekToken s3 = (Inr r, s3')"
    and "case r of None \<Rightarrow> True | Some t \<Rightarrow> ttype t \<noteq> TOKEN_WHITESPACE \<and> \<not> is_op ''+'' t"
    and "2 < m"
  shows "parseAdd (Suc m) s0 = (Inr (Add (node_pos a) (Add (node_pos a) a b) c), s3')"
proof -
  from assms(10) have m: "0 < m" "0 < m - 1" "0 < m - 1 - 1" by simp_all
  have "parseAdd (Suc m) s0 = while_loop m (add_body m) a s1"
    by (simp only: parseAdd_unfold bnd_def assms(1) prod.case sum.case)
  also have "\<dots> = while_loop (m - 1) (add_body m) (Add (node_pos a) a b) s2"
    by (rule add_loop_step [OF assms(2,3,4) m(1)])
  also have "\<dots> = while_loop (m - 1 - 1) (add_body m)
                     (Add (node_pos (Add (node_pos a) a b)) (Add (node_pos a) a b) c) s3"
    by (rule add_loop_step [OF assms(5,6,7) m(2)])
  also have "\<dots> = (Inr (Add (node_pos (Add (node_pos a) a b)) (Add (node_pos a) a b) c), s3')"
    by (rule add_loop_stop [OF assms(8,9) m(3)])
  finally show ?thesis by simp
qed

lemma ends_chain_cases:
  assumes "ends_chain r"
  shows "case r of None \<Rightarrow> True | Some t \<Rightarrow> ttype t \<noteq> TOKEN_WHITESPACE \<and> \<not> is_op ''-'' t"
    and "case r of None \<Rightarrow> True | Some t \<Rightarrow> ttype t \<noteq> TOKEN_WHITESPACE \<and> \<not> is_op ''+'' t"
  using assms by (auto simp: ends_chain_def split: option.splits)

text \<open>
  C2, as the code has it.  \<open>+\<close> and \<open>-\<close> are two levels: \<open>parseAdd\<close> takes its operands
  from \<open>parseSub\<close>, which takes its own from \<open>parseMul\<close>, so \<open>-\<close> binds tighter than \<open>+\<close>,
  and each of the two is left-associative on its level.  Let \<open>a\<close>, \<open>b\<close>, \<open>c\<close> be three
  operands of the next level (what \<open>parseMul\<close> returns), the first two each followed by
  an operator token \<open>t1\<close>, \<open>t2\<close>, and the third by a token that is neither \<open>+\<close> nor \<open>-\<close>
  or by the end of the stream.  Then \<open>parseAdd\<close> returns, with any sufficient fuel:
  \<open>Add(a, Sub(b, c))\<close> for \<open>a + b - c\<close>; \<open>Add(Sub(a, b), c)\<close> for \<open>a - b + c\<close>;
  \<open>Add(Add(a, b), c)\<close> for \<open>a + b + c\<close>; \<open>Sub(Sub(a, b), c)\<close> for \<open>a - b - c\<close>.
\<close>

theorem parseAdd_grouping:
  assumes a: "parseMul n s0 = (Inr a, s1)"
    and t1: "peekToken s1 = (Inr (Some t1), s1')"
    and b: "parseMul n (s1'\<lparr>peeked := None\<rparr>) = (Inr b, s2)"
    and t2: "peekToken s2 = (Inr (Some t2), s2')"
    and c: "parseMul n (s2'\<lparr>peeked := None\<rparr>) = (Inr c, s3)"
    and r: "peekToken s3 = (Inr r, s3')" "ends_chain r"
    and m: "n + 2 \<le> m"
  shows
    "(is_op ''+'' t1 \<and> is_op ''-'' t2 \<longrightarrow>
        parseAdd m s0 = (Inr (Add (node_pos a) a (Sub (node_pos b) b c)), s3')) \<and>
     (is_op ''-'' t1 \<and> is_op ''+'' t2 \<longrightarrow>
        parseAdd m s0 = (Inr (Add (node_pos a) (Sub (node_pos a) a b) c), s3')) \<and>
     (is_op ''+'' t1 \<and> is_op ''+'' t2 \<longrightarrow>
        parseAdd m s0 = (Inr (Add (node_pos a) (Add (node_pos a) a b) c), s3')) \<and>
     (is_op ''-'' t1 \<and> is_op ''-'' t2 \<longrightarrow>
        parseAdd m s0 = (Inr (Sub (node_pos a) (Sub (node_pos a) a b) c), s3'))"
proof -
  note i1 = peekToken_idem [OF t1] and i2 = peekToken_idem [OF t2]
    and i3 = peekToken_idem [OF r(1)]
  note e = ends_chain_cases [OF r(2)]
  from parseMul_fuel [OF a] have n: "0 < Suc n" "1 < Suc n" "2 < Suc n" by simp_all
  have up: "parseAdd m s0 = x" if "parseAdd (Suc (Suc n)) s0 = x" and "fst x \<noteq> Inl OutOfFuel" for x
    using expr_mono(9) [of "Suc (Suc n)" m] m that by (cases x) (simp add: fuel_le_def)
  have "parseAdd (Suc (Suc n)) s0 = (Inr (Add (node_pos a) a (Sub (node_pos b) b c)), s3')"
    if "is_op ''+'' t1" "is_op ''-'' t2"
  proof -
    have "parseSub (Suc n) s0 = (Inr a, s1')"
      using that(1) by (intro parseSub_one [OF a t1]) (auto simp: is_op_def)
    moreover have "parseSub (Suc n) (s1'\<lparr>peeked := None\<rparr>) = (Inr (Sub (node_pos b) b c), s3')"
      by (rule parseSub_two [OF b t2 that(2) c r(1) e(1)])
    ultimately show ?thesis
      by (rule parseAdd_two [OF _ i1 that(1) _ i3 e(2) n(2)])
  qed
  moreover have "parseAdd (Suc (Suc n)) s0 = (Inr (Add (node_pos a) (Sub (node_pos a) a b) c), s3')"
    if "is_op ''-'' t1" "is_op ''+'' t2"
  proof -
    have "parseSub (Suc n) s0 = (Inr (Sub (node_pos a) a b), s2')"
      using that(2) by (intro parseSub_two [OF a t1 that(1) b t2]) (auto simp: is_op_def)
    moreover have "parseSub (Suc n) (s2'\<lparr>peeked := None\<rparr>) = (Inr c, s3')"
      by (rule parseSub_one [OF c r(1) e(1)])
    ultimately have "parseAdd (Suc (Suc n)) s0
        = (Inr (Add (node_pos (Sub (node_pos a) a b)) (Sub (node_pos a) a b) c), s3')"
      by (rule parseAdd_two [OF _ i2 that(2) _ i3 e(2) n(2)])
    then show ?thesis by simp
  qed
  moreover have "parseAdd (Suc (Suc n)) s0 = (Inr (Add (node_pos a) (Add (node_pos a) a b) c), s3')"
    if "is_op ''+'' t1" "is_op ''+'' t2"
  proof -
    have "parseSub (Suc n) s0 = (Inr a, s1')"
      using that(1) by (intro parseSub_one [OF a t1]) (auto simp: is_op_def)
    moreover have "parseSub (Suc n) (s1'\<lparr>peeked := None\<rparr>) = (Inr b, s2')"
      using that(2) by (intro parseSub_one [OF b t2]) (auto simp: is_op_def)
    moreover have "parseSub (Suc n) (s2'\<lparr>peeked := None\<rparr>) = (Inr c, s3')"
      by (rule parseSub_one [OF c r(1) e(1)])
    ultimately show ?thesis
      by (rule parseAdd_three [OF _ i1 that(1) _ i2 that(2) _ i3 e(2) n(3)])
  qed
  moreover have "parseAdd (Suc (Suc n)) s0 = (Inr (Sub (node_pos a) (Sub (node_pos a) a b) c), s3')"
    if "is_op ''-'' t1" "is_op ''-'' t2"
  proof -
    have "parseSub (Suc n) s0 = (Inr (Sub (node_pos a) (Sub (node_pos a) a b) c), s3')"
      by (rule parseSub_three [OF a t1 that(1) b t2 that(2) c r(1) e(1)])
    then show ?thesis by (rule parseAdd_one [OF _ i3 e(2) n(1)])
  qed
  ultimately show ?thesis by (auto intro: up)
qed

theorem parseAdd_grouping_witness:
  "parseMul 20 (st (chain_tokens ''+'' ''-'') None)
     = (Inr (Symbol (Some (0, 3)) ''a''),
        st (drop 3 (chain_tokens ''+'' ''-'')) (Some (Tok TOKEN_OPERATOR ''+'' 0 5))) \<and>
   is_op ''+'' (Tok TOKEN_OPERATOR ''+'' 0 5) \<and> is_op ''-'' (Tok TOKEN_OPERATOR ''-'' 0 9) \<and>
   ends_chain (Some (Tok TOKEN_VARIABLE_END ''}}'' 0 13)) \<and> (20::nat) + 2 \<le> 22 \<and>
   parseAdd 22 (st (chain_tokens ''+'' ''-'') None)
     = (Inr (Add (Some (0, 3)) (Symbol (Some (0, 3)) ''a'')
               (Sub (Some (0, 7)) (Symbol (Some (0, 7)) ''b'') (Symbol (Some (0, 11)) ''c''))),
        st [] (Some (Tok TOKEN_VARIABLE_END ''}}'' 0 13))) \<and>
   parseAdd 22 (st (chain_tokens ''-'' ''+'') None)
     = (Inr (Add (Some (0, 3))
               (Sub (Some (0, 3)) (Symbol (Some (0, 3)) ''a'') (Symbol (Some (0, 7)) ''b''))
               (Symbol (Some (0, 11)) ''c'')),
        st [] (Some (Tok TOKEN_VARIABLE_END ''}}'' 0 13))) \<and>
   parseAdd 22 (st (chain_tokens ''+'' ''+'') None)
     = (Inr (Add (Some (0, 3))
               (Add (Some (0, 3)) (Symbol (Some (0, 3)) ''a'') (Symbol (Some (0, 7)) ''b''))
               (Symbol (Some (0, 11)) ''c'')),
        st [] (Some (Tok TOKEN_VARIABLE_END ''}}'' 0 13))) \<and>
   parseAdd 22 (st (chain_tokens ''-'' ''-'') None)
     = (Inr (Sub (Some (0, 3))
               (Sub (Some (0, 3)) (Symbol (Some (0, 3)) ''a'') (Symbol (Some (0, 7)) ''b''))
               (Symbol (Some (0, 11)) ''c'')),
        st [] (Some (Tok TOKEN_VARIABLE_END ''}}'' 0 13)))"
proof -
  have operand: "parseMul 20 (st (Tok TOKEN_SYMBOL x 0 k # sp 0 k' # Tok TOKEN_OPERATOR v 0 j # rest) None)
      = (Inr (Symbol (Some (0, k)) x), st rest (Some (Tok TOKEN_OPERATOR v 0 j)))"
    if "v = ''+'' \<or> v = ''-''" for x k k' v j rest
    using that by (elim disjE) (simp_all add: run_simps skip_whitespace_other)
  have operand2: "parseMul 20 (st (sp 0 k0 # Tok TOKEN_SYMBOL x 0 k # sp 0 k' # Tok TOKEN_OPERATOR v 0 j # rest) None)
      = (Inr (Symbol (Some (0, k)) x), st rest (Some (Tok TOKEN_OPERATOR v 0 j)))"
    if "v = ''+'' \<or> v = ''-''" for x k0 k k' v j rest
    using that by (elim disjE) (simp_all add: run_simps skip_whitespace_other)
  have last: "parseMul 20 (st [sp 0 10, Tok TOKEN_SYMBOL ''c'' 0 11, sp 0 12,
                               Tok TOKEN_VARIABLE_END ''}}'' 0 13] None)
      = (Inr (Symbol (Some (0, 11)) ''c''), st [] (Some (Tok TOKEN_VARIABLE_END ''}}'' 0 13)))"
    by (simp add: run_simps)
  have peek: "peekToken (st ts (Some t)) = (Inr (Some t), st ts (Some t))" for ts t
    by (simp add: st_def peekToken_def)
  have drop: "(st ts (Some t))\<lparr>peeked := None\<rparr> = st ts None" for ts t
    by (simp add: st_def)
  have e: "ends_chain (Some (Tok TOKEN_VARIABLE_END ''}}'' 0 13))"
    by (simp add: ends_chain_def is_op_def Tok_def)
  have op: "is_op v (Tok TOKEN_OPERATOR v l c)" for v l c
    by (simp add: is_op_def Tok_def)
  have m: "(20::nat) + 2 \<le> 22" by simp
  have inst: "parseMul 20 (st (chain_tokens o1 o2) None)
        = (Inr (Symbol (Some (0, 3)) ''a''),
           st (drop 3 (chain_tokens o1 o2)) (Some (Tok TOKEN_OPERATOR o1 0 5)))"
     "parseMul 20 ((st (drop 3 (chain_tokens o1 o2)) (Some (Tok TOKEN_OPERATOR o1 0 5)))
                     \<lparr>peeked := None\<rparr>)
        = (Inr (Symbol (Some (0, 7)) ''b''),
           st (drop 7 (chain_tokens o1 o2)) (Some (Tok TOKEN_OPERATOR o2 0 9)))"
     "parseMul 20 ((st (drop 7 (chain_tokens o1 o2)) (Some (Tok TOKEN_OPERATOR o2 0 9)))
                     \<lparr>peeked := None\<rparr>)
        = (Inr (Symbol (Some (0, 11)) ''c''), st [] (Some (Tok TOKEN_VARIABLE_END ''}}'' 0 13)))"
    if "o1 = ''+'' \<or> o1 = ''-''" "o2 = ''+'' \<or> o2 = ''-''" for o1 o2
    using operand [OF that(1)] operand2 [OF that(2)] last
    by (simp_all add: chain_tokens_def drop)
  note g = parseAdd_grouping [OF inst(1) peek inst(2) peek inst(3) peek e m]
  from g [of "''+''" "''-''", THEN conjunct1]
    g [of "''-''" "''+''", THEN conjunct2, THEN conjunct1]
    g [of "''+''" "''+''", THEN conjunct2, THEN conjunct2, THEN conjunct1]
    g [of "''-''" "''-''", THEN conjunct2, THEN conjunct2, THEN conjunct2]
    inst(1) [of "''+''" "''-''"] e m op
  show ?thesis by simp
qed

text \<open>
  C2 as the specification states it fails: \<open>{{ a + b - c }}\<close> parses to
  \<open>Add(a, Sub(b, c))\<close>, not to \<open>Sub(Add(a, b), c)\<close>.
\<close>

theorem add_sub_not_one_level:
  "fst (parse_template 40
          (token_stream (Tok TOKEN_VARIABLE_START ''{{'' 0 0 # sp 0 2 # chain_tokens ''+'' ''-''))
          None)
     = Inr (Root (Some (0, 0))
         [Output (Some (0, 0))
            [Add (Some (0, 3)) (Symbol (Some (0, 3)) ''a'')
               (Sub (Some (0, 7)) (Symbol (Some (0, 7)) ''b'') (Symbol (Some (0, 11)) ''c''))]]) \<and>
   fst (parse_template 40
          (token_stream (Tok TOKEN_VARIABLE_START ''{{'' 0 0 # sp 0 2 # chain_tokens ''+'' ''-''))
          None)
     \<noteq> Inr (Root (Some (0, 0))
         [Output (Some (0, 0))
            [Sub (Some (0, 3))
               (Add (Some (0, 3)) (Symbol (Some (0, 3)) ''a'') (Symbol (Some (0, 7)) ''b''))
               (Symbol (Some (0, 11)) ''c'')]])"
  by (simp add: chain_tokens_def run_simps)

section \<open>The claims about parsing\<close>

text \<open>
  C1, as the code has it.  \<open>parseUntilBlocks\<close> saves \<open>breakOnBlocks\<close> and runs the nested
  \<open>parse\<close> with its argument list in that field.  If the nested parse returns, the saved
  value is put back; if the nested parse throws, the exception passes through and the
  parser is left as the nested parse left it, the saved value not put back.  Whenever
  \<open>parseUntilBlocks\<close> returns, \<open>breakOnBlocks\<close> is what it was before the call.
\<close>

theorem parseUntilBlocks_restores:
  "(\<forall>e s'. parse n (s\<lparr>breakOnBlocks := Some names\<rparr>) = (Inl e, s') \<longrightarrow>
       parseUntilBlocks (Suc n) names s = (Inl e, s')) \<and>
   (\<forall>r s'. parse n (s\<lparr>breakOnBlocks := Some names\<rparr>) = (Inr r, s') \<longrightarrow>
       parseUntilBlocks (Suc n) names s = (Inr r, s'\<lparr>breakOnBlocks := breakOnBlocks s\<rparr>)) \<and>
   (\<forall>m r s'. parseUntilBlocks m names s = (Inr r, s') \<longrightarrow>
       breakOnBlocks s' = breakOnBlocks s)"
proof (intro conjI allI impI)
  fix e s' assume "parse n (s\<lparr>breakOnBlocks := Some names\<rparr>) = (Inl e, s')"
  then show "parseUntilBlocks (Suc n) names s = (Inl e, s')"
    by (simp add: monad_defs)
next
  fix r s' assume "parse n (s\<lparr>breakOnBlocks := Some names\<rparr>) = (Inr r, s')"
  then show "parseUntilBlocks (Suc n) names s = (Inr r, s'\<lparr>breakOnBlocks := breakOnBlocks s\<rparr>)"
    by (simp add: monad_defs)
next
  fix m r s' assume *: "parseUntilBlocks m names s = (Inr r, s')"
  show "breakOnBlocks s' = breakOnBlocks s"
  proof (cases m)
    case 0
    with * show ?thesis by (simp add: throw_def)
  next
    case (Suc k)
    with * show ?thesis
      by (cases "parse k (s\<lparr>breakOnBlocks := Some names\<rparr>)")
         (auto simp: monad_defs split: sum.splits)
  qed
qed

theorem parseUntilBlocks_restores_witness:
  "parse 39 ((st plain_body_tokens None)\<lparr>breakOnBlocks := Some [''endfor'', ''else'']\<rparr>
             \<lparr>breakOnBlocks := Some [''endif'']\<rparr>)
     = (Inr (NodeList (Some (0, 0)) [Output (Some (0, 10)) [TemplateData (Some (0, 10)) ''a'']]),
        (st [sp 0 19, Tok TOKEN_BLOCK_END ''%}'' 0 20] (Some (Tok TOKEN_SYMBOL ''endif'' 0 14)))
          \<lparr>breakOnBlocks := Some [''endif'']\<rparr>) \<and>
   parseUntilBlocks 40 [''endif'']
       ((st plain_body_tokens None)\<lparr>breakOnBlocks := Some [''endfor'', ''else'']\<rparr>)
     = (Inr (NodeList (Some (0, 0)) [Output (Some (0, 10)) [TemplateData (Some (0, 10)) ''a'']]),
        (st [sp 0 19, Tok TOKEN_BLOCK_END ''%}'' 0 20] (Some (Tok TOKEN_SYMBOL ''endif'' 0 14)))
          \<lparr>breakOnBlocks := Some [''endfor'', ''else'']\<rparr>) \<and>
   parse 39 ((st broken_body_tokens None)\<lparr>breakOnBlocks := Some [''endif'']\<rparr>)
     = (Inl (TemplateError ''unexpected token: }}'' (Some 1) (Some 14)),
        (st [sp 0 17, Tok TOKEN_SYMBOL ''endif'' 0 18, sp 0 23, Tok TOKEN_BLOCK_END ''%}'' 0 24]
            (Some (Tok TOKEN_BLOCK_START ''{%'' 0 15)))\<lparr>breakOnBlocks := Some [''endif'']\<rparr>) \<and>
   parseUntilBlocks 40 [''endif''] (st broken_body_tokens None)
     = (Inl (TemplateError ''unexpected token: }}'' (Some 1) (Some 14)),
        (st [sp 0 17, Tok TOKEN_SYMBOL ''endif'' 0 18, sp 0 23, Tok TOKEN_BLOCK_END ''%}'' 0 24]
            (Some (Tok TOKEN_BLOCK_START ''{%'' 0 15)))\<lparr>breakOnBlocks := Some [''endif'']\<rparr>)"
proof -
  have ok: "parse 39 ((st plain_body_tokens None)\<lparr>breakOnBlocks := Some [''endfor'', ''else'']\<rparr>
             \<lparr>breakOnBlocks := Some [''endif'']\<rparr>)
     = (Inr (NodeList (Some (0, 0)) [Output (Some (0, 10)) [TemplateData (Some (0, 10)) ''a'']]),
        (st [sp 0 19, Tok TOKEN_BLOCK_END ''%}'' 0 20] (Some (Tok TOKEN_SYMBOL ''endif'' 0 14)))
          \<lparr>breakOnBlocks := Some [''endif'']\<rparr>)"
    by (simp add: plain_body_tokens_def run_simps)
  have bad: "parse 39 ((st broken_body_tokens None)\<lparr>breakOnBlocks := Some [''endif'']\<rparr>)
     = (Inl (TemplateError ''unexpected token: }}'' (Some 1) (Some 14)),
        (st [sp 0 17, Tok TOKEN_SYMBOL ''endif'' 0 18, sp 0 23, Tok TOKEN_BLOCK_END ''%}'' 0 24]
            (Some (Tok TOKEN_BLOCK_START ''{%'' 0 15)))\<lparr>breakOnBlocks := Some [''endif'']\<rparr>)"
    by (simp add: broken_body_tokens_def run_simps)
  have n: "(40::nat) = Suc 39" by simp
  from ok bad
    parseUntilBlocks_restores [where n = 39 and names = "[''endif'']" and
      s = "(st plain_body_tokens None)\<lparr>breakOnBlocks := Some [''endfor'', ''else'']\<rparr>"]
    parseUntilBlocks_restores [where n = 39 and names = "[''endif'']" and
      s = "st broken_body_tokens None"]
  show ?thesis unfolding n by (simp add: st_def init_def)
qed

text \<open>
  C1 as the specification states it fails: the nested parse of \<open>{{ }}{% endif %}\<close>
  throws, and \<open>breakOnBlocks\<close>, which was \<open>null\<close> before the call, is left at the argument
  list.
\<close>

theorem parseUntilBlocks_not_restored_on_error:
  "fst (parseUntilBlocks 40 [''endif''] (st broken_body_tokens None))
     = Inl (TemplateError ''unexpected token: }}'' (Some 1) (Some 14)) \<and>
   breakOnBlocks (st broken_body_tokens None) = None \<and>
   breakOnBlocks (snd (parseUntilBlocks 40 [''endif''] (st broken_body_tokens None)))
     = Some [''endif'']"
  by (simp add: broken_body_tokens_def run_simps)

text \<open>
  C3.  Parsing \<open>{{ 1 + 2 * 3 ** 2 }}\<close>, with any fuel from 40 on, returns a root whose only
  child is \<open>Output[Add(Literal(1), Mul(Literal(2), Pow(Literal(3), Literal(2))))]\<close>.
\<close>

theorem parse_arith_precedence:
  assumes "40 \<le> n"
  shows "fst (parse_template n (token_stream arith_tokens) None) =
     Inr (Root (Some (0, 0))
       [Output (Some (0, 0))
         [Add (Some (0, 3)) (Literal (Some (0, 3)) (JNum 1))
           (Mul (Some (0, 7)) (Literal (Some (0, 7)) (JNum 2))
             (Pow_node (Some (0, 11)) (Literal (Some (0, 11)) (JNum 3))
               (Literal (Some (0, 16)) (JNum 2))))]])"
proof -
  have at: "fst (parse_template 40 (token_stream arith_tokens) None) =
     Inr (Root (Some (0, 0))
       [Output (Some (0, 0))
         [Add (Some (0, 3)) (Literal (Some (0, 3)) (JNum 1))
           (Mul (Some (0, 7)) (Literal (Some (0, 7)) (JNum 2))
             (Pow_node (Some (0, 11)) (Literal (Some (0, 11)) (JNum 3))
               (Literal (Some (0, 16)) (JNum 2))))]])"
    by (simp add: arith_tokens_def run_simps)
  then have "parse_template n (token_stream arith_tokens) None
           = parse_template 40 (token_stream arith_tokens) None"
    using assms by (intro parse_template_more_fuel) simp_all
  with at show ?thesis by simp
qed

theorem parse_arith_precedence_witness:
  "(40::nat) \<le> 64 \<and>
   fst (parse_template 64 (token_stream arith_tokens) None) =
     Inr (Root (Some (0, 0))
       [Output (Some (0, 0))
         [Add (Some (0, 3)) (Literal (Some (0, 3)) (JNum 1))
           (Mul (Some (0, 7)) (Literal (Some (0, 7)) (JNum 2))
             (Pow_node (Some (0, 11)) (Literal (Some (0, 11)) (JNum 3))
               (Literal (Some (0, 16)) (JNum 2))))]])"
  using parse_arith_precedence [of 64] by simp

text \<open>
  C4.  The block form of \<open>set\<close> consumes its \<open>BLOCK_END\<close> through \<open>skip\<close>, which does not
  look at the value of the token: in \<open>{% set x -%}  hi{% endset %}\<close> the latch stays unset
  and the text keeps its leading white space.  Where the \<open>BLOCK_END\<close> is consumed by
  \<open>advanceAfterBlockEnd\<close>, as in \<open>{% if x -%}  hi{% endif %}\<close>, the text is stripped.
\<close>

theorem set_block_keeps_leading_whitespace:
  "fst (parse_template 40 (token_stream set_block_tokens) None) =
     Inr (Root (Some (0, 0))
       [Set (Some (0, 3)) [Symbol (Some (0, 7)) ''x''] Null
          (Capture (Some (0, 3))
             (NodeList (Some (0, 0))
                [Output (Some (0, 12)) [TemplateData (Some (0, 12)) ''  hi'']]))]) \<and>
   fst (parse_template 40 (token_stream if_block_tokens) None) =
     Inr (Root (Some (0, 0))
       [If_node (Some (0, 3)) (Symbol (Some (0, 6)) ''x'')
          (NodeList (Some (0, 0)) [Output (Some (0, 11)) [TemplateData (Some (0, 11)) ''hi'']])
          Null])"
  by (simp add: set_block_tokens_def if_block_tokens_def run_simps)

text \<open>
  The first half of C4 taken for itself holds of \<open>advanceAfterBlockEnd\<close>: the token it
  returns is a \<open>BLOCK_END\<close>, and the latch is set by the call exactly if the value of that
  token begins with \<open>-\<close>.
\<close>

lemma advanceAfterBlockEnd_latch:
  assumes "advanceAfterBlockEnd name s = (Inr t, s')"
  shows "ttype t = TOKEN_BLOCK_END \<and>
         (\<exists>v. tvalue t = Str v \<and>
              dropLeadingWhitespace s' = (dropLeadingWhitespace s \<or> charAt v 0 = ''-''))"
proof -
  define first :: "tokval option parser" where
    "first = (if falsy_name name then
        bnd peekToken (\<lambda>tok.
          case tok of
            None \<Rightarrow> fail ''unexpected end of file'' None
          | Some t \<Rightarrow>
              if ttype t \<noteq> TOKEN_SYMBOL then
                fail (''advanceAfterBlockEnd: expected symbol token or '' @
                      ''explicit name to be passed'') None
              else bnd (nextToken False) (\<lambda>nt. bnd (deref nt) (\<lambda>t'. ret (Some (tvalue t')))))
      else ret name)"
  obtain nm s1 where first: "first s = (Inr nm, s1)"
    using assms unfolding advanceAfterBlockEnd_def first_def
    by (auto simp: bnd_def split: prod.splits sum.splits)
  have d1: "dropLeadingWhitespace s1 = dropLeadingWhitespace s"
  proof (cases "falsy_name name")
    case False
    with first show ?thesis by (simp add: first_def ret_def)
  next
    case True
    obtain r a where p: "peekToken s = (Inr r, a)" using peekToken_returns by blast
    obtain r' b where n: "nextToken False a = (r', b)" by (cases "nextToken False a")
    from True first p n peekToken_latch [OF p] nextToken_latch [OF n] show ?thesis
      by (auto simp: first_def bnd_def ret_def deref_def throw_def fail_not_Inr
               split: option.splits sum.splits if_splits)
  qed
  obtain r2 s2 where n2: "nextToken False s1 = (r2, s2)" by (cases "nextToken False s1")
  from assms first n2 nextToken_latch [OF n2] d1 show ?thesis
    unfolding advanceAfterBlockEnd_def first_def [symmetric]
    by (auto simp: bnd_def seq_def ret_def modify_def str_value_def throw_def fail_not_Inr
             split: option.splits sum.splits if_splits tokval.splits)
qed

text \<open>
  The second half of C4 holds of \<open>parseNodes\<close>: with the latch set, a \<open>DATA\<close> token that
  ends the template is emitted without its leading white space, and the latch is cleared.
\<close>

lemma parseNodes_strips_after_latch:
  assumes "dropLeadingWhitespace s" and "peeked s = None" and "pending (tokens s) = [t]"
    and "ttype t = TOKEN_DATA" and "tvalue t = Str d" and "3 \<le> m"
  shows "parseNodes m s =
           (Inr [Output (tok_pos t) [TemplateData (tok_pos t) (trim_leading d)]],
            s\<lparr>tokens := (tokens s)\<lparr>pending := []\<rparr>, dropLeadingWhitespace := False\<rparr>)"
proof -
  from assms(6) obtain n where m: "m = Suc (Suc (Suc n))"
    by (metis Suc_le_D numeral_3_eq_3 Suc_le_mono)
  have "s\<lparr>tokens := (tokens s)\<lparr>pending := []\<rparr>, peeked := None, dropLeadingWhitespace := False\<rparr>
        = s\<lparr>tokens := (tokens s)\<lparr>pending := []\<rparr>, dropLeadingWhitespace := False\<rparr>"
    using assms(2) by (cases s) simp
  with assms(1-5) show ?thesis
    unfolding m by (simp add: monad_defs cursor_defs str_value_def)
qed
text \<open>
  The loop of \<open>parseFrom\<close>: the routine in terms of the body of its loop, and a loop whose
  body throws after \<open>k\<close> rounds.
\<close>

lemma parseFrom_unfold:
  "parseFrom n =
     bnd peekToken (\<lambda>fromTok.
     bnd (skipSymbol ''from'') (\<lambda>found.
     bnd (if \<not> found then fail ''parseFrom: expected from'' None else ret ()) (\<lambda>_.
     bnd (parseExpression n) (\<lambda>template.
     bnd (skipSymbol ''import'') (\<lambda>imp.
     bnd (deref fromTok) (\<lambda>ft.
     bnd (if \<not> imp then fail ''parseFrom: expected import'' (tok_pos ft) else ret ()) (\<lambda>_.
     bnd (while_loop n (from_body n ft) (NodeList None [], None)) (\<lambda>(names, withContext).
     ret (FromImport (tok_pos ft) template names withContext)))))))))"
  by (simp add: parseFrom_def from_body_def)

lemma while_loop_rounds:
  "rounds k body x s = Some (x', s') \<Longrightarrow> while_loop (k + j) body x s = while_loop j body x' s'"
proof (induction k arbitrary: x s)
  case 0
  then show ?case by simp
next
  case (Suc k)
  then obtain x1 s1 where b: "body x s = (Inr (Inl x1), s1)"
    and r: "rounds k body x1 s1 = Some (x', s')"
    by (auto split: prod.splits sum.splits)
  from Suc.IH [OF r] b show ?case by (simp add: bnd_def)
qed

lemma while_loop_throws:
  "body x s = (Inl e, s') \<Longrightarrow> 0 < j \<Longrightarrow> while_loop j body x s = (Inl e, s')"
  by (cases j) (simp_all add: bnd_def)

lemma from_body_underscore:
  assumes "peekToken s = (Inr (Some nt), sf)" and "ttype nt \<noteq> TOKEN_BLOCK_END"
    and "if num_children names = 0 then sg = sf else skip TOKEN_COMMA sf = (Inr True, sg)"
    and "parsePrimary n False sg = (Inr name, sh)"
    and "value_charAt0 name = Some ''_''" and "node_pos name = Some (l, c)"
  shows "from_body n ft (names, wc) s =
           (Inl (TemplateError ''parseFrom: names starting with an underscore cannot be imported''
                   (Some (l + 1)) (Some (c + 1))), sh)"
proof (cases "num_children names = 0")
  case True
  with assms show ?thesis
    by (simp add: from_body_def bnd_def ret_def deref_def fail_def throw_def)
next
  case False
  with assms show ?thesis
    by (simp add: from_body_def bnd_def ret_def deref_def fail_def throw_def)
qed

text \<open>
  The three templates with a name that begins with an underscore, at any positions of
  their tokens.
\<close>

lemma list_of_11:
  assumes "length ps = 11"
  shows "\<exists>p0 p1 p2 p3 p4 p5 p6 p7 p8 p9 p10.
           ps = [p0, p1, p2, p3, p4, p5, p6, p7, p8, p9, p10]"
proof -
  from assms
  have "length ps = Suc (Suc (Suc (Suc (Suc (Suc (Suc (Suc (Suc (Suc (Suc 0))))))))))"
    by simp
  then show ?thesis by (auto simp: length_Suc_conv)
qed

lemma list_of_14:
  assumes "length ps = 14"
  shows "\<exists>p0 p1 p2 p3 p4 p5 p6 p7 p8 p9 p10 p11 p12 p13.
           ps = [p0, p1, p2, p3, p4, p5, p6, p7, p8, p9, p10, p11, p12, p13]"
proof -
  from assms
  have "length ps =
          Suc (Suc (Suc (Suc (Suc (Suc (Suc (Suc (Suc (Suc (Suc (Suc (Suc (Suc 0)))))))))))))"
    by simp
  then show ?thesis by (auto simp: length_Suc_conv)
qed

lemma from_import_at:
  "fst (parse_template 40 (token_stream (place (from_import_shape x)
      [(l0, c0), (l1, c1), (l2, c2), (l3, c3), (l4, c4), (l5, c5), (l6, c6), (l7, c7),
       (l8, c8), (l9, c9), (l10, c10)])) None) =
     Inl (TemplateError ''parseFrom: names starting with an underscore cannot be imported''
            (Some (l8 + 1)) (Some (c8 + 1)))"
  by (simp add: place_def from_import_shape_def run_simps)

lemma from_first_at:
  "fst (parse_template 40 (token_stream (place from_first_shape
      [(l0, c0), (l1, c1), (l2, c2), (l3, c3), (l4, c4), (l5, c5), (l6, c6), (l7, c7),
       (l8, c8), (l9, c9), (l10, c10), (l11, c11), (l12, c12), (l13, c13)])) None) =
     Inl (TemplateError ''parseFrom: names starting with an underscore cannot be imported''
            (Some (l8 + 1)) (Some (c8 + 1)))"
  by (simp add: place_def from_first_shape_def run_simps)

lemma from_second_at:
  "fst (parse_template 40 (token_stream (place from_second_shape
      [(l0, c0), (l1, c1), (l2, c2), (l3, c3), (l4, c4), (l5, c5), (l6, c6), (l7, c7),
       (l8, c8), (l9, c9), (l10, c10), (l11, c11), (l12, c12), (l13, c13)])) None) =
     Inl (TemplateError ''parseFrom: names starting with an underscore cannot be imported''
            (Some (l11 + 1)) (Some (c11 + 1)))"
  by (simp add: place_def from_second_shape_def run_simps)

lemma template_error_more_fuel:
  assumes "fst (parse_template 40 lx None) = Inl (TemplateError msg a b)" and "40 \<le> m"
  shows "fst (parse_template m lx None) = Inl (TemplateError msg a b)"
proof -
  from assms have "parse_template m lx None = parse_template 40 lx None"
    by (intro parse_template_more_fuel) simp_all
  with assms show ?thesis by simp
qed

lemma parseFrom_underscore:
  assumes "peekToken s = (Inr (Some ft), sa)" and "skipSymbol ''from'' sa = (Inr True, sb)"
    and "parseExpression n sb = (Inr template, sc)"
    and "skipSymbol ''import'' sc = (Inr True, sd)"
    and "rounds k (from_body n ft) (NodeList None [], None) sd = Some ((names, wc), se)"
    and "peekToken se = (Inr (Some nt), sf)" and "ttype nt \<noteq> TOKEN_BLOCK_END"
    and "if num_children names = 0 then sg = sf else skip TOKEN_COMMA sf = (Inr True, sg)"
    and "parsePrimary n False sg = (Inr name, sh)"
    and "value_charAt0 name = Some ''_''" and "node_pos name = Some (l, c)"
    and "k < n" and "n \<le> m"
  shows "parseFrom m s =
        (Inl (TemplateError ''parseFrom: names starting with an underscore cannot be imported''
                (Some (l + 1)) (Some (c + 1))), sh)"
proof -
  from assms(12) obtain j where n: "n = k + j" and j: "0 < j"
    by (metis less_imp_add_positive)
  have "while_loop (k + j) (from_body n ft) (NodeList None [], None) sd =
          while_loop j (from_body n ft) (names, wc) se"
    using assms(5) by (rule while_loop_rounds)
  also have "\<dots> = (Inl (TemplateError
               ''parseFrom: names starting with an underscore cannot be imported''
               (Some (l + 1)) (Some (c + 1))), sh)"
    using from_body_underscore [OF assms(6-11)] j by (rule while_loop_throws)
  finally have loop: "while_loop n (from_body n ft) (NodeList None [], None) sd =
      (Inl (TemplateError ''parseFrom: names starting with an underscore cannot be imported''
              (Some (l + 1)) (Some (c + 1))), sh)"
    unfolding n [symmetric] .
  have "parseFrom n s =
      (Inl (TemplateError ''parseFrom: names starting with an underscore cannot be imported''
              (Some (l + 1)) (Some (c + 1))), sh)"
    unfolding parseFrom_unfold
    by (simp add: bnd_def ret_def deref_def assms(1-4) loop)
  then show ?thesis
    using parseFrom_mono [OF assms(13)] by (simp add: fuel_le_def)
qed

lemma from_import_listed:
  assumes ps: "ps = [p0, p1, p2, p3, p4, p5, p6, p7, p8, p9, p10]"
  shows "fst (parse_template 40 (token_stream (place (from_import_shape x) ps)) None) =
           Inl (TemplateError ''parseFrom: names starting with an underscore cannot be imported''
                  (Some (fst (ps ! 8) + 1)) (Some (snd (ps ! 8) + 1)))"
proof -
  have n: "ps ! 8 = p8" by (simp add: ps)
  show ?thesis
    unfolding n unfolding ps
    using from_import_at [of x
        "fst p0" "snd p0" "fst p1" "snd p1" "fst p2" "snd p2" "fst p3" "snd p3" "fst p4"
        "snd p4" "fst p5" "snd p5" "fst p6" "snd p6" "fst p7" "snd p7" "fst p8" "snd p8"
        "fst p9" "snd p9" "fst p10" "snd p10"]
    unfolding prod.collapse .
qed

lemma from_import_any:
  assumes "length ps = 11"
  shows "fst (parse_template 40 (token_stream (place (from_import_shape x) ps)) None) =
           Inl (TemplateError ''parseFrom: names starting with an underscore cannot be imported''
                  (Some (fst (ps ! 8) + 1)) (Some (snd (ps ! 8) + 1)))"
  by (insert list_of_11 [OF assms], elim exE, erule from_import_listed)

lemma from_first_listed:
  assumes ps: "ps = [p0, p1, p2, p3, p4, p5, p6, p7, p8, p9, p10, p11, p12, p13]"
  shows "fst (parse_template 40 (token_stream (place from_first_shape ps)) None) =
           Inl (TemplateError ''parseFrom: names starting with an underscore cannot be imported''
                  (Some (fst (ps ! 8) + 1)) (Some (snd (ps ! 8) + 1)))"
proof -
  have n: "ps ! 8 = p8" by (simp add: ps)
  show ?thesis
    unfolding n unfolding ps
    using from_first_at [of 
        "fst p0" "snd p0" "fst p1" "snd p1" "fst p2" "snd p2" "fst p3" "snd p3" "fst p4"
        "snd p4" "fst p5" "snd p5" "fst p6" "snd p6" "fst p7" "snd p7" "fst p8" "snd p8"
        "fst p9" "snd p9" "fst p10" "snd p10" "fst p11" "snd p11" "fst p12" "snd p12" "fst
        p13" "snd p13"]
    unfolding prod.collapse .
qed

lemma from_first_any:
  assumes "length ps = 14"
  shows "fst (parse_template 40 (token_stream (place from_first_shape ps)) None) =
           Inl (TemplateError ''parseFrom: names starting with an underscore cannot be imported''
                  (Some (fst (ps ! 8) + 1)) (Some (snd (ps ! 8) + 1)))"
  by (insert list_of_14 [OF assms], elim exE, erule from_first_listed)

lemma from_second_listed:
  assumes ps: "ps = [p0, p1, p2, p3, p4, p5, p6, p7, p8, p9, p10, p11, p12, p13]"
  shows "fst (parse_template 40 (token_stream (place from_second_shape ps)) None) =
           Inl (TemplateError ''parseFrom: names starting with an underscore cannot be imported''
                  (Some (fst (ps ! 11) + 1)) (Some (snd (ps ! 11) + 1)))"
proof -
  have n: "ps ! 11 = p11" by (simp add: ps)
  show ?thesis
    unfolding n unfolding ps
    using from_second_at [of 
        "fst p0" "snd p0" "fst p1" "snd p1" "fst p2" "snd p2" "fst p3" "snd p3" "fst p4"
        "snd p4" "fst p5" "snd p5" "fst p6" "snd p6" "fst p7" "snd p7" "fst p8" "snd p8"
        "fst p9" "snd p9" "fst p10" "snd p10" "fst p11" "snd p11" "fst p12" "snd p12" "fst
        p13" "snd p13"]
    unfolding prod.collapse .
qed

lemma from_second_any:
  assumes "length ps = 14"
  shows "fst (parse_template 40 (token_stream (place from_second_shape ps)) None) =
           Inl (TemplateError ''parseFrom: names starting with an underscore cannot be imported''
                  (Some (fst (ps ! 11) + 1)) (Some (snd (ps ! 11) + 1)))"
  by (insert list_of_14 [OF assms], elim exE, erule from_second_listed)

text \<open>
  C9.  In a \<open>from \<dots> import \<dots>\<close> statement every imported name whose text begins with an
  underscore is rejected, wherever it stands in the list; the error is a \<open>TemplateError\<close>
  at the position of the name, line and column counted from one, and its message is
  \<open>parseFrom: names starting with an underscore cannot be imported\<close>.  In general:
  \<open>parseFrom\<close> has read the keyword \<open>from\<close>, whose token is \<open>ft\<close>, the template expression
  and the keyword \<open>import\<close>, and \<open>k\<close> rounds of its loop have read \<open>k\<close> names; the next token
  \<open>nt\<close> does not close the tag, the comma before a name that is not the first has been
  skipped, and \<open>parsePrimary\<close> returns for the name a node \<open>name\<close> at the position \<open>(l, c)\<close>
  whose value begins with \<open>_\<close>, a \<open>Symbol\<close> or a string \<open>Literal\<close>.  Then \<open>parseFrom\<close> ends
  in that error at line \<open>l + 1\<close> and column \<open>c + 1\<close>, in the state \<open>parsePrimary\<close> left, with
  any fuel \<open>m\<close> from \<open>n\<close> on, \<open>n\<close> being more than \<open>k\<close>.  In particular the parse of
  \<open>{% from "t" import _x %}\<close>, for any text \<open>x\<close> behind the underscore, of
  \<open>{% from "t" import _x, a %}\<close> and of \<open>{% from "t" import a, _x %}\<close> ends in that error at
  the position of the name, whatever the positions \<open>ps\<close> of the tokens and with any fuel
  from 40 on.
\<close>

theorem from_import_rejects_underscore:
  "(\<forall>ft sa template sb sc k names wc sd nt se sf name sg sh l c m.
      peekToken s = (Inr (Some ft), sa) \<and> skipSymbol ''from'' sa = (Inr True, sb) \<and>
      parseExpression n sb = (Inr template, sc) \<and>
      skipSymbol ''import'' sc = (Inr True, sd) \<and>
      rounds k (from_body n ft) (NodeList None [], None) sd = Some ((names, wc), se) \<and>
      peekToken se = (Inr (Some nt), sf) \<and> ttype nt \<noteq> TOKEN_BLOCK_END \<and>
      (if num_children names = 0 then sg = sf else skip TOKEN_COMMA sf = (Inr True, sg)) \<and>
      parsePrimary n False sg = (Inr name, sh) \<and>
      value_charAt0 name = Some ''_'' \<and> node_pos name = Some (l, c) \<and>
      k < n \<and> n \<le> m \<longrightarrow>
      parseFrom m s =
        (Inl (TemplateError ''parseFrom: names starting with an underscore cannot be imported''
                (Some (l + 1)) (Some (c + 1))), sh)) \<and>
   (\<forall>x ps m. length ps = 11 \<and> 40 \<le> m \<longrightarrow>
      fst (parse_template m (token_stream (place (from_import_shape x) ps)) None) =
        Inl (TemplateError ''parseFrom: names starting with an underscore cannot be imported''
               (Some (fst (ps ! 8) + 1)) (Some (snd (ps ! 8) + 1)))) \<and>
   (\<forall>ps m. length ps = 14 \<and> 40 \<le> m \<longrightarrow>
      fst (parse_template m (token_stream (place from_first_shape ps)) None) =
        Inl (TemplateError ''parseFrom: names starting with an underscore cannot be imported''
               (Some (fst (ps ! 8) + 1)) (Some (snd (ps ! 8) + 1))) \<and>
      fst (parse_template m (token_stream (place from_second_shape ps)) None) =
        Inl (TemplateError ''parseFrom: names starting with an underscore cannot be imported''
               (Some (fst (ps ! 11) + 1)) (Some (snd (ps ! 11) + 1))))"
proof (intro conjI allI impI)
  fix ft sa template sb sc k names wc sd nt se sf name sg sh l c m
  assume h: "peekToken s = (Inr (Some ft), sa) \<and> skipSymbol ''from'' sa = (Inr True, sb) \<and>
      parseExpression n sb = (Inr template, sc) \<and>
      skipSymbol ''import'' sc = (Inr True, sd) \<and>
      rounds k (from_body n ft) (NodeList None [], None) sd = Some ((names, wc), se) \<and>
      peekToken se = (Inr (Some nt), sf) \<and> ttype nt \<noteq> TOKEN_BLOCK_END \<and>
      (if num_children names = 0 then sg = sf else skip TOKEN_COMMA sf = (Inr True, sg)) \<and>
      parsePrimary n False sg = (Inr name, sh) \<and>
      value_charAt0 name = Some ''_'' \<and> node_pos name = Some (l, c) \<and>
      k < n \<and> n \<le> m"
  show "parseFrom m s =
        (Inl (TemplateError ''parseFrom: names starting with an underscore cannot be imported''
                (Some (l + 1)) (Some (c + 1))), sh)"
    by (insert h, elim conjE, rule parseFrom_underscore; assumption)
next
  fix x :: string and ps :: "(nat \<times> nat) list" and m :: nat
  assume a: "length ps = 11 \<and> 40 \<le> m"
  from from_import_any [OF a [THEN conjunct1]] a [THEN conjunct2]
  show "fst (parse_template m (token_stream (place (from_import_shape x) ps)) None) =
        Inl (TemplateError ''parseFrom: names starting with an underscore cannot be imported''
               (Some (fst (ps ! 8) + 1)) (Some (snd (ps ! 8) + 1)))"
    by (rule template_error_more_fuel)
next
  fix ps :: "(nat \<times> nat) list" and m :: nat
  assume a: "length ps = 14 \<and> 40 \<le> m"
  from from_first_any [OF a [THEN conjunct1]] a [THEN conjunct2]
  show "fst (parse_template m (token_stream (place from_first_shape ps)) None) =
        Inl (TemplateError ''parseFrom: names starting with an underscore cannot be imported''
               (Some (fst (ps ! 8) + 1)) (Some (snd (ps ! 8) + 1)))"
    by (rule template_error_more_fuel)
next
  fix ps :: "(nat \<times> nat) list" and m :: nat
  assume a: "length ps = 14 \<and> 40 \<le> m"
  from from_second_any [OF a [THEN conjunct1]] a [THEN conjunct2]
  show "fst (parse_template m (token_stream (place from_second_shape ps)) None) =
        Inl (TemplateError ''parseFrom: names starting with an underscore cannot be imported''
               (Some (fst (ps ! 11) + 1)) (Some (snd (ps ! 11) + 1)))"
    by (rule template_error_more_fuel)
qed

theorem from_import_rejects_underscore_witness:
  "peekToken (st (drop 1 from_second_tokens) None)
     = (Inr (Some (Tok TOKEN_SYMBOL ''from'' 0 1)),
        st (drop 3 from_second_tokens) (Some (Tok TOKEN_SYMBOL ''from'' 0 1))) \<and>
   skipSymbol ''from'' (st (drop 3 from_second_tokens) (Some (Tok TOKEN_SYMBOL ''from'' 0 1)))
     = (Inr True, st (drop 3 from_second_tokens) None) \<and>
   parseExpression 30 (st (drop 3 from_second_tokens) None)
     = (Inr (Literal (Some (0, 6)) (JStr ''t'')),
        st (drop 7 from_second_tokens) (Some (Tok TOKEN_SYMBOL ''import'' 0 10))) \<and>
   skipSymbol ''import''
       (st (drop 7 from_second_tokens) (Some (Tok TOKEN_SYMBOL ''import'' 0 10)))
     = (Inr True, st (drop 7 from_second_tokens) None) \<and>
   rounds (Suc 0) (from_body 30 (Tok TOKEN_SYMBOL ''from'' 0 1)) (NodeList None [], None)
       (st (drop 7 from_second_tokens) None)
     = Some ((NodeList None [Symbol (Some (0, 17)) ''a''], None),
             st (drop 10 from_second_tokens) (Some (Tok TOKEN_COMMA '','' 0 18))) \<and>
   peekToken (st (drop 10 from_second_tokens) (Some (Tok TOKEN_COMMA '','' 0 18)))
     = (Inr (Some (Tok TOKEN_COMMA '','' 0 18)),
        st (drop 10 from_second_tokens) (Some (Tok TOKEN_COMMA '','' 0 18))) \<and>
   ttype (Tok TOKEN_COMMA '','' 0 18) \<noteq> TOKEN_BLOCK_END \<and>
   num_children (NodeList None [Symbol (Some (0, 17)) ''a'']) \<noteq> 0 \<and>
   skip TOKEN_COMMA (st (drop 10 from_second_tokens) (Some (Tok TOKEN_COMMA '','' 0 18)))
     = (Inr True, st (drop 10 from_second_tokens) None) \<and>
   parsePrimary 30 False (st (drop 10 from_second_tokens) None)
     = (Inr (Symbol (Some (0, 20)) ''_x''),
        st [] (Some (Tok TOKEN_BLOCK_END ''%}'' 0 23))) \<and>
   value_charAt0 (Symbol (Some (0, 20)) ''_x'') = Some ''_'' \<and>
   node_pos (Symbol (Some (0, 20)) ''_x'') = Some (0, 20) \<and>
   Suc 0 < 30 \<and> (30::nat) \<le> 37 \<and>
   parseFrom 37 (st (drop 1 from_second_tokens) None)
     = (Inl (TemplateError ''parseFrom: names starting with an underscore cannot be imported''
               (Some 1) (Some 21)),
        st [] (Some (Tok TOKEN_BLOCK_END ''%}'' 0 23))) \<and>
   length [(0, 0), (0, 0), (0, 1), (0, 5), (0, 6), (0, 9), (0, 10), (0, 16), (0, 17), (0, 19),
           (0::nat, 20::nat)] = 11 \<and>
   (40::nat) \<le> 40 \<and>
   fst (parse_template 40 (token_stream from_import_tokens) None)
     = Inl (TemplateError ''parseFrom: names starting with an underscore cannot be imported''
              (Some 1) (Some 18)) \<and>
   length [(0, 0), (0, 0), (0, 1), (0, 5), (0, 6), (0, 9), (0, 10), (0, 16), (0, 17), (0, 19),
           (0, 20), (0, 21), (0, 22), (0::nat, 23::nat)] = 14 \<and>
   fst (parse_template 40 (token_stream from_first_tokens) None)
     = Inl (TemplateError ''parseFrom: names starting with an underscore cannot be imported''
              (Some 1) (Some 18)) \<and>
   length [(0, 0), (0, 0), (0, 1), (0, 5), (0, 6), (0, 9), (0, 10), (0, 16), (0, 17), (0, 18),
           (0, 19), (0, 20), (0, 22), (0::nat, 23::nat)] = 14 \<and>
   fst (parse_template 40 (token_stream from_second_tokens) None)
     = Inl (TemplateError ''parseFrom: names starting with an underscore cannot be imported''
              (Some 1) (Some 21))"
proof -
  let ?from = "Tok TOKEN_SYMBOL ''from'' 0 1"
  let ?comma = "Tok TOKEN_COMMA '','' 0 18"
  let ?a = "Symbol (Some (0, 17)) ''a''"
  let ?x = "Symbol (Some (0, 20)) ''_x''"
  let ?end = "st [] (Some (Tok TOKEN_BLOCK_END ''%}'' 0 23))"
  note toks = from_second_tokens_def from_second_shape_def place_def
  have h1: "peekToken (st (drop 1 from_second_tokens) None)
     = (Inr (Some ?from), st (drop 3 from_second_tokens) (Some ?from))"
    by (simp add: toks run_simps)
  have h2: "skipSymbol ''from'' (st (drop 3 from_second_tokens) (Some ?from))
     = (Inr True, st (drop 3 from_second_tokens) None)"
    by (simp add: toks run_simps)
  have h3: "parseExpression 30 (st (drop 3 from_second_tokens) None)
     = (Inr (Literal (Some (0, 6)) (JStr ''t'')),
        st (drop 7 from_second_tokens) (Some (Tok TOKEN_SYMBOL ''import'' 0 10)))"
    by (simp add: toks run_simps)
  have h4: "skipSymbol ''import''
       (st (drop 7 from_second_tokens) (Some (Tok TOKEN_SYMBOL ''import'' 0 10)))
     = (Inr True, st (drop 7 from_second_tokens) None)"
    by (simp add: toks run_simps)
  have h5: "rounds (Suc 0) (from_body 30 ?from) (NodeList None [], None)
       (st (drop 7 from_second_tokens) None)
     = Some ((NodeList None [?a], None), st (drop 10 from_second_tokens) (Some ?comma))"
    by (simp add: toks from_body_def run_simps)
  have h6: "peekToken (st (drop 10 from_second_tokens) (Some ?comma))
     = (Inr (Some ?comma), st (drop 10 from_second_tokens) (Some ?comma))"
    by (simp add: toks run_simps)
  have h7: "ttype ?comma \<noteq> TOKEN_BLOCK_END" by (simp add: Tok_def)
  have nc: "num_children (NodeList None [?a]) \<noteq> 0"
    by (simp add: num_children_def children_def)
  have sk: "skip TOKEN_COMMA (st (drop 10 from_second_tokens) (Some ?comma))
     = (Inr True, st (drop 10 from_second_tokens) None)"
    by (simp add: toks run_simps)
  from nc sk
  have h8: "if num_children (NodeList None [?a]) = 0
            then st (drop 10 from_second_tokens) None
                   = st (drop 10 from_second_tokens) (Some ?comma)
            else skip TOKEN_COMMA (st (drop 10 from_second_tokens) (Some ?comma))
                   = (Inr True, st (drop 10 from_second_tokens) None)"
    by simp
  have h9: "parsePrimary 30 False (st (drop 10 from_second_tokens) None) = (Inr ?x, ?end)"
    by (simp add: toks run_simps)
  have h10: "value_charAt0 ?x = Some ''_''" by (simp add: value_charAt0_def charAt_def)
  have h11: "node_pos ?x = Some (0, 20)" by simp
  have h12: "Suc 0 < (30::nat)" and h13: "(30::nat) \<le> 37" by simp_all
  have l11: "length [(0, 0), (0, 0), (0, 1), (0, 5), (0, 6), (0, 9), (0, 10), (0, 16), (0, 17),
           (0, 19), (0::nat, 20::nat)] = 11"
    and l14: "length [(0, 0), (0, 0), (0, 1), (0, 5), (0, 6), (0, 9), (0, 10), (0, 16),
           (0, 17), (0, 19), (0, 20), (0, 21), (0, 22), (0::nat, 23::nat)] = 14"
    and l14': "length [(0, 0), (0, 0), (0, 1), (0, 5), (0, 6), (0, 9), (0, 10), (0, 16),
           (0, 17), (0, 18), (0, 19), (0, 20), (0, 22), (0::nat, 23::nat)] = 14"
    and m: "(40::nat) \<le> 40"
    by simp_all
  note g = from_import_rejects_underscore
    [where s = "st (drop 1 from_second_tokens) None" and n = 30]
  from g [THEN conjunct1, rule_format, where m = 37, OF conjI [OF h1 conjI [OF h2
        conjI [OF h3 conjI [OF h4 conjI [OF h5 conjI [OF h6 conjI [OF h7 conjI [OF h8
        conjI [OF h9 conjI [OF h10 conjI [OF h11 conjI [OF h12 h13]]]]]]]]]]]]]
    g [THEN conjunct2, THEN conjunct1, rule_format, where x = "''x''", OF conjI [OF l11 m]]
    g [THEN conjunct2, THEN conjunct2, rule_format, OF conjI [OF l14 m], THEN conjunct1]
    g [THEN conjunct2, THEN conjunct2, rule_format, OF conjI [OF l14' m], THEN conjunct2]
    h1 h2 h3 h4 h5 h6 h7 nc sk h9 h10 h11 h12 h13 l11 l14 l14' m
  show ?thesis
    by (simp add: from_import_tokens_def from_first_tokens_def from_second_tokens_def)
qed

text \<open>
  C9 as the specification states it fails: the message begins with the name of the
  routine, so that the parse of \<open>{% from "t" import _x %}\<close> does not end in a
  \<open>TemplateError\<close> with the message \<open>names starting with an underscore cannot be
  imported\<close>.
\<close>

theorem from_import_message_has_prefix:
  "\<not> raises_TemplateError ''names starting with an underscore cannot be imported''
       (parse_template 40 (token_stream from_import_tokens) None) \<and>
   fst (parse_template 40 (token_stream from_import_tokens) None) =
     Inl (TemplateError ''parseFrom: names starting with an underscore cannot be imported''
            (Some 1) (Some 18))"
  by (simp add: raises_TemplateError_def from_import_tokens_def place_def
        from_import_shape_def run_simps)

text \<open>
  C10.  When the first target of a \<open>for\<close>, \<open>asyncEach\<close> or \<open>asyncAll\<close> block parses to
  anything but a \<open>Symbol\<close>, \<open>parseFor\<close> ends in a \<open>TemplateError\<close> with the message
  \<open>parseFor: variable name expected for loop\<close>: \<open>ft\<close> is the keyword the block starts with
  and \<open>nd\<close> the node \<open>parsePrimary\<close> returns for what follows it.  The targets after a comma
  are not checked: \<open>{% for k, 1, "s", [2] in d %}{% endfor %}\<close> parses, its loop variable
  the array of the symbol, the two literals and the array literal.
\<close>

theorem parseFor_first_target:
  "(\<forall>ft s0 nd s1 m.
      peekToken s = (Inr (Some ft), s0) \<and> ttype ft = TOKEN_SYMBOL \<and>
      tvalue ft \<in> {Str ''for'', Str ''asyncEach'', Str ''asyncAll''} \<and>
      parsePrimary n False (s0\<lparr>peeked := None\<rparr>) = (Inr nd, s1) \<and> \<not> is_Symbol nd \<and>
      Suc n \<le> m \<longrightarrow>
      raises_TemplateError ''parseFor: variable name expected for loop'' (parseFor m s)) \<and>
   (\<forall>m. 40 \<le> m \<longrightarrow>
      fst (parse_template m (token_stream for_targets_tokens) None) =
        Inr (Root (Some (0, 0))
          [For (Some (0, 3))
             (Array (Some (0, 7))
                [Symbol (Some (0, 7)) ''k'', Literal (Some (0, 10)) (JNum 1),
                 Literal (Some (0, 13)) (JStr ''s''),
                 Array (Some (0, 18)) [Literal (Some (0, 19)) (JNum 2)]])
             (Symbol (Some (0, 25)) ''d'') (NodeList (Some (0, 0)) []) Null]))"
proof (intro conjI allI impI)
  fix ft s0 nd s1 m
  assume h: "peekToken s = (Inr (Some ft), s0) \<and> ttype ft = TOKEN_SYMBOL \<and>
      tvalue ft \<in> {Str ''for'', Str ''asyncEach'', Str ''asyncAll''} \<and>
      parsePrimary n False (s0\<lparr>peeked := None\<rparr>) = (Inr nd, s1) \<and> \<not> is_Symbol nd \<and>
      Suc n \<le> m"
  then have pk: "peekToken s = (Inr (Some ft), s0)" and ty: "ttype ft = TOKEN_SYMBOL"
    and prim: "parsePrimary n False (s0\<lparr>peeked := None\<rparr>) = (Inr nd, s1)"
    and nsym: "\<not> is_Symbol nd" and m: "Suc n \<le> m" by simp_all
  note i0 = peekToken_idem [OF pk]
  have hit: "skipSymbol v s' = (Inr True, s0\<lparr>peeked := None\<rparr>)"
    if "tvalue ft = Str v" "peekToken s' = (Inr (Some ft), s0)" for v s'
    unfolding skipSymbol_def using that ty by (intro skipValue_hit [where t = ft]) simp_all
  have miss: "skipSymbol v s' = (Inr False, s0)"
    if "tvalue ft \<noteq> Str v" "peekToken s' = (Inr (Some ft), s0)" for v s'
    unfolding skipSymbol_def using that ty by (intro skipValue_miss [where t = ft]) simp_all
  obtain e s2 where f: "(fail ''parseFor: variable name expected for loop'' None
                          :: unit parser) s1 = (Inl e, s2)"
    and msg: "\<exists>a b. e = TemplateError ''parseFor: variable name expected for loop'' a b"
    using fail_throws [where 'a = unit] by blast
  from h have "tvalue ft = Str ''for'' \<or> tvalue ft = Str ''asyncEach'' \<or>
               tvalue ft = Str ''asyncAll''" by simp
  then have "parseFor (Suc n) s = (Inl e, s2)"
  proof (elim disjE)
    assume v: "tvalue ft = Str ''for''"
    show ?thesis
      unfolding parseFor.simps
      by (simp add: bnd_def [of peekToken] pk)
         (simp add: bnd_def ret_def deref_def hit [OF v i0] prim nsym f)
  next
    assume v: "tvalue ft = Str ''asyncEach''"
    then have n1: "tvalue ft \<noteq> Str ''for''" by simp
    show ?thesis
      unfolding parseFor.simps
      by (simp add: bnd_def [of peekToken] pk)
         (simp add: bnd_def ret_def deref_def miss [OF n1 i0] hit [OF v i0] prim nsym f)
  next
    assume v: "tvalue ft = Str ''asyncAll''"
    then have n1: "tvalue ft \<noteq> Str ''for''" and n2: "tvalue ft \<noteq> Str ''asyncEach''"
      by simp_all
    show ?thesis
      unfolding parseFor.simps
      by (simp add: bnd_def [of peekToken] pk)
         (simp add: bnd_def ret_def deref_def miss [OF n1 i0] miss [OF n2 i0] hit [OF v i0]
            prim nsym f)
  qed
  moreover from msg have "e \<noteq> OutOfFuel" by auto
  ultimately have "parseFor m s = (Inl e, s2)"
    using stmt_mono(6) [OF m] by (simp add: fuel_le_def)
  with msg show "raises_TemplateError ''parseFor: variable name expected for loop'' (parseFor m s)"
    by (auto simp: raises_TemplateError_def)
next
  fix m :: nat assume m: "40 \<le> m"
  have at: "fst (parse_template 40 (token_stream for_targets_tokens) None) =
        Inr (Root (Some (0, 0))
          [For (Some (0, 3))
             (Array (Some (0, 7))
                [Symbol (Some (0, 7)) ''k'', Literal (Some (0, 10)) (JNum 1),
                 Literal (Some (0, 13)) (JStr ''s''),
                 Array (Some (0, 18)) [Literal (Some (0, 19)) (JNum 2)]])
             (Symbol (Some (0, 25)) ''d'') (NodeList (Some (0, 0)) []) Null])"
    by (simp add: for_targets_tokens_def run_simps)
  then have "parse_template m (token_stream for_targets_tokens) None
           = parse_template 40 (token_stream for_targets_tokens) None"
    using m by (intro parse_template_more_fuel) simp_all
  with at show "fst (parse_template m (token_stream for_targets_tokens) None) =
        Inr (Root (Some (0, 0))
          [For (Some (0, 3))
             (Array (Some (0, 7))
                [Symbol (Some (0, 7)) ''k'', Literal (Some (0, 10)) (JNum 1),
                 Literal (Some (0, 13)) (JStr ''s''),
                 Array (Some (0, 18)) [Literal (Some (0, 19)) (JNum 2)]])
             (Symbol (Some (0, 25)) ''d'') (NodeList (Some (0, 0)) []) Null])"
    by simp
qed

theorem parseFor_first_target_witness:
  "peekToken (st (drop 2 for_literal_tokens) None)
     = (Inr (Some (Tok TOKEN_SYMBOL ''for'' 0 3)),
        st (drop 3 for_literal_tokens) (Some (Tok TOKEN_SYMBOL ''for'' 0 3))) \<and>
   ttype (Tok TOKEN_SYMBOL ''for'' 0 3) = TOKEN_SYMBOL \<and>
   tvalue (Tok TOKEN_SYMBOL ''for'' 0 3) \<in> {Str ''for'', Str ''asyncEach'', Str ''asyncAll''} \<and>
   parsePrimary 20 False
       ((st (drop 3 for_literal_tokens) (Some (Tok TOKEN_SYMBOL ''for'' 0 3)))\<lparr>peeked := None\<rparr>)
     = (Inr (Literal (Some (0, 7)) (JNum 1)),
        st (drop 7 for_literal_tokens) (Some (Tok TOKEN_SYMBOL ''in'' 0 9))) \<and>
   \<not> is_Symbol (Literal (Some (0, 7)) (JNum 1)) \<and>
   Suc 20 \<le> 39 \<and>
   raises_TemplateError ''parseFor: variable name expected for loop''
     (parseFor 39 (st (drop 2 for_literal_tokens) None)) \<and>
   fst (parse_template 40 (token_stream for_literal_tokens) None)
     = Inl (TemplateError ''parseFor: variable name expected for loop'' (Some 1) (Some 10)) \<and>
   (40::nat) \<le> 40 \<and>
   fst (parse_template 40 (token_stream for_targets_tokens) None) =
     Inr (Root (Some (0, 0))
       [For (Some (0, 3))
          (Array (Some (0, 7))
             [Symbol (Some (0, 7)) ''k'', Literal (Some (0, 10)) (JNum 1),
              Literal (Some (0, 13)) (JStr ''s''),
              Array (Some (0, 18)) [Literal (Some (0, 19)) (JNum 2)]])
          (Symbol (Some (0, 25)) ''d'') (NodeList (Some (0, 0)) []) Null])"
proof -
  have pk: "peekToken (st (drop 2 for_literal_tokens) None)
     = (Inr (Some (Tok TOKEN_SYMBOL ''for'' 0 3)),
        st (drop 3 for_literal_tokens) (Some (Tok TOKEN_SYMBOL ''for'' 0 3)))"
    by (simp add: for_literal_tokens_def run_simps)
  have prim: "parsePrimary 20 False
       ((st (drop 3 for_literal_tokens) (Some (Tok TOKEN_SYMBOL ''for'' 0 3)))\<lparr>peeked := None\<rparr>)
     = (Inr (Literal (Some (0, 7)) (JNum 1)),
        st (drop 7 for_literal_tokens) (Some (Tok TOKEN_SYMBOL ''in'' 0 9)))"
    by (simp add: for_literal_tokens_def run_simps)
  have whole: "fst (parse_template 40 (token_stream for_literal_tokens) None)
     = Inl (TemplateError ''parseFor: variable name expected for loop'' (Some 1) (Some 10))"
    by (simp add: for_literal_tokens_def run_simps)
  have side: "ttype (Tok TOKEN_SYMBOL ''for'' 0 3) = TOKEN_SYMBOL"
    "tvalue (Tok TOKEN_SYMBOL ''for'' 0 3) \<in> {Str ''for'', Str ''asyncEach'', Str ''asyncAll''}"
    "\<not> is_Symbol (Literal (Some (0, 7)) (JNum 1))" "Suc 20 \<le> (39::nat)" "(40::nat) \<le> 40"
    by (simp_all add: Tok_def is_Symbol_def)
  note pf = parseFor_first_target [where s = "st (drop 2 for_literal_tokens) None" and n = 20]
  from pf [THEN conjunct1, rule_format, where m = 39, OF conjI [OF pk conjI [OF side(1)
        conjI [OF side(2) conjI [OF prim conjI [OF side(3) side(4)]]]]]]
    pf [THEN conjunct2, rule_format, OF side(5)]
    pk prim whole side
  show ?thesis by simp
qed


end
